theory Spec2Isabelle
  imports Main "HOL-Library.Code_Target_Nat"
begin

section \<open>Python strings\<close>

text \<open>
  A Python \<^verbatim>\<open>str\<close> is a sequence of Unicode code points; the model keeps it as the list of
  their numbers, and \<open>ascii\<close> writes an ASCII literal.  The character classes are those of the
  interpreter's Unicode database (CPython 3.11, Unicode 14.0): \<^verbatim>\<open>\d\<close> in a \<^verbatim>\<open>str\<close> pattern
  matches the decimal digits (\<^verbatim>\<open>str.isdecimal\<close>), which come in blocks of ten consecutive code
  points from the digit zero to the digit nine, and \<^verbatim>\<open>str.strip()\<close> removes the characters for
  which \<^verbatim>\<open>str.isspace\<close> holds.  The ASCII digits, the blank and the ASCII control characters
  are in these classes in every version of the database; the theorems about arbitrary texts use
  no property of the two tables.
\<close>

type_synonym pystr = "nat list"

definition ascii :: "string \<Rightarrow> pystr" where
  "ascii s = map of_char s"

text \<open>The code points of the digit zero of every block of decimal digits.\<close>

definition digit_blocks :: "nat list" where
  "digit_blocks =
     [0x30, 0x660, 0x6F0, 0x7C0, 0x966, 0x9E6, 0xA66, 0xAE6, 0xB66, 0xBE6, 0xC66, 0xCE6, 0xD66,
      0xDE6, 0xE50, 0xED0, 0xF20, 0x1040, 0x1090, 0x17E0, 0x1810, 0x1946, 0x19D0, 0x1A80,
      0x1A90, 0x1B50, 0x1BB0, 0x1C40, 0x1C50, 0xA620, 0xA8D0, 0xA900, 0xA9D0, 0xA9F0, 0xAA50,
      0xABF0, 0xFF10, 0x104A0, 0x10D30, 0x11066, 0x110F0, 0x11136, 0x111D0, 0x112F0, 0x11450,
      0x114D0, 0x11650, 0x116C0, 0x11730, 0x118E0, 0x11950, 0x11C50, 0x11D50, 0x11DA0, 0x16A60,
      0x16AC0, 0x16B50, 0x1D7CE, 0x1D7D8, 0x1D7E2, 0x1D7EC, 0x1D7F6, 0x1E140, 0x1E2F0, 0x1E950,
      0x1FBF0]"

definition is_digit :: "nat \<Rightarrow> bool" where
  "is_digit c = list_ex (\<lambda>zero. zero \<le> c \<and> c \<le> zero + 9) digit_blocks"

definition digit_val :: "nat \<Rightarrow> int" where
  "digit_val c =
     (case find (\<lambda>zero. zero \<le> c \<and> c \<le> zero + 9) digit_blocks of
        Some zero \<Rightarrow> int (c - zero)
      | None \<Rightarrow> 0)"

definition space_chars :: "nat list" where
  "space_chars =
     [0x9, 0xA, 0xB, 0xC, 0xD, 0x1C, 0x1D, 0x1E, 0x1F, 0x20, 0x85, 0xA0, 0x1680, 0x2000, 0x2001,
      0x2002, 0x2003, 0x2004, 0x2005, 0x2006, 0x2007, 0x2008, 0x2009, 0x200A, 0x2028, 0x2029,
      0x202F, 0x205F, 0x3000]"

definition is_space :: "nat \<Rightarrow> bool" where
  "is_space c = (c \<in> set space_chars)"

definition py_strip :: "pystr \<Rightarrow> pystr" where
  "py_strip s = rev (dropWhile is_space (rev (dropWhile is_space s)))"

fun starts_with :: "pystr \<Rightarrow> pystr \<Rightarrow> bool" where
  "starts_with [] s = True"
| "starts_with (p # ps) [] = False"
| "starts_with (p # ps) (c # cs) = (p = c \<and> starts_with ps cs)"

text \<open>\<^verbatim>\<open>sub in s\<close> on strings.\<close>

fun py_contains :: "pystr \<Rightarrow> pystr \<Rightarrow> bool" where
  "py_contains sub [] = (sub = [])"
| "py_contains sub (c # cs) = (starts_with sub (c # cs) \<or> py_contains sub cs)"

text \<open>\<^verbatim>\<open>str(n)\<close> for an integer.\<close>

function str_of_nat :: "nat \<Rightarrow> pystr" where
  "str_of_nat n = (if n < 10 then [48 + n] else str_of_nat (n div 10) @ [48 + n mod 10])"
  by pat_completeness auto
termination
  by (relation "measure id") auto

definition py_str :: "int \<Rightarrow> pystr" where
  "py_str i = (if i < 0 then ascii ''-'' @ str_of_nat (nat (- i)) else str_of_nat (nat i))"

text \<open>
  \<^verbatim>\<open>int(s)\<close> for a string, \<open>None\<close> standing for \<^verbatim>\<open>ValueError\<close>.  The string is stripped of white
  space (for \<^verbatim>\<open>int\<close> the separators U+001C to U+001F do not count as white space), an optional
  sign follows, then decimal digits of any script, with single underscores allowed between
  digits; more than 4300 digits are refused (the interpreter's default limit).
\<close>

definition int_space :: "nat \<Rightarrow> bool" where
  "int_space c = (is_space c \<and> \<not> (28 \<le> c \<and> c \<le> 31))"

fun digits_ok :: "bool \<Rightarrow> pystr \<Rightarrow> bool" where
  "digits_ok after_digit [] = after_digit"
| "digits_ok after_digit (c # cs) =
     (if is_digit c then digits_ok True cs
      else if c = 95 \<and> after_digit then digits_ok False cs
      else False)"

definition digits_val :: "pystr \<Rightarrow> int" where
  "digits_val ds = foldl (\<lambda>acc c. 10 * acc + digit_val c) 0 (filter is_digit ds)"

definition int_of_digits :: "pystr \<Rightarrow> int option" where
  "int_of_digits body =
     (if digits_ok False body \<and> length (filter is_digit body) \<le> 4300
      then Some (digits_val body) else None)"

definition int_of_string :: "pystr \<Rightarrow> int option" where
  "int_of_string s =
     (case rev (dropWhile int_space (rev (dropWhile int_space s))) of
        [] \<Rightarrow> None
      | c # cs \<Rightarrow>
          if c = 45 then map_option uminus (int_of_digits cs)
          else if c = 43 then int_of_digits cs
          else int_of_digits (c # cs))"

text \<open>\<^verbatim>\<open>re.findall(r'\d+', text)\<close>: the maximal runs of digits, from left to right.\<close>

fun raw_scan :: "pystr \<Rightarrow> pystr \<Rightarrow> pystr list" where
  "raw_scan cur [] = (if cur = [] then [] else [rev cur])"
| "raw_scan cur (c # cs) =
     (if is_digit c then raw_scan (c # cur) cs
      else (if cur = [] then [] else [rev cur]) @ raw_scan [] cs)"

definition find_raw_numbers :: "pystr \<Rightarrow> pystr list" where
  "find_raw_numbers text = raw_scan [] text"

text \<open>
  \<^verbatim>\<open>[m[1:] for m in re.findall(r'\+\d+', text)]\<close>: the digit runs that directly follow a plus
  sign, from left to right.
\<close>

datatype plus_state = Idle | AfterPlus | InRun pystr

fun plus_scan :: "plus_state \<Rightarrow> pystr \<Rightarrow> pystr list" where
  "plus_scan st [] = (case st of InRun cur \<Rightarrow> [rev cur] | _ \<Rightarrow> [])"
| "plus_scan st (c # cs) =
     (case st of
        Idle \<Rightarrow> if c = 43 then plus_scan AfterPlus cs else plus_scan Idle cs
      | AfterPlus \<Rightarrow>
          if is_digit c then plus_scan (InRun [c]) cs
          else if c = 43 then plus_scan AfterPlus cs
          else plus_scan Idle cs
      | InRun cur \<Rightarrow>
          if is_digit c then plus_scan (InRun (c # cur)) cs
          else rev cur # (if c = 43 then plus_scan AfterPlus cs else plus_scan Idle cs))"

definition find_plus_numbers :: "pystr \<Rightarrow> pystr list" where
  "find_plus_numbers text = plus_scan Idle text"

section \<open>The image table of \<^verbatim>\<open>db.py\<close>\<close>

text \<open>
  \<^verbatim>\<open>db.py\<close> keeps one SQLite table \<^verbatim>\<open>images\<close> with the columns
  \<^verbatim>\<open>image_id TEXT PRIMARY KEY, number INTEGER, file_id TEXT, status TEXT, metadata TEXT,
  queue_position INTEGER DEFAULT 0\<close> and SQLite's implicit \<^verbatim>\<open>rowid\<close>.  A row is a record; the
  table is the list of its rows.  A nullable integer column is an \<open>int option\<close>; SQLite holds
  integers of 64 bits.  The \<^verbatim>\<open>metadata\<close> column holds JSON text: the model keeps what
  \<^verbatim>\<open>json.loads\<close> makes of it.  A finite JSON float is kept as the integer that \<^verbatim>\<open>int\<close>
  truncates it to, the only use the code makes of such a value.
\<close>

datatype jval =
    JInt int
  | JBool bool
  | JFloat int
  | JNaN
  | JInf
  | JStr pystr
  | JNull
  | JOther

datatype pyval = PDict "(string \<times> jval) list" | PNonDict

datatype metadata_col = ColNull | ColUnparsable | ColJson pyval

record image_row =
  rowid :: int
  image_id :: string
  number :: int
  file_id :: string
  status :: string
  metadata :: metadata_col
  queue_position :: "int option"

type_synonym images_db = "image_row list"

text \<open>
  The dict that the query functions build from a row: the key \<^verbatim>\<open>'metadata'\<close> is present only
  when the column is truthy, and is \<^verbatim>\<open>{}\<close> when \<^verbatim>\<open>json.loads\<close> raises.
\<close>

record image =
  img_image_id :: string
  img_number :: int
  img_file_id :: string
  img_status :: string
  img_rowid :: int
  img_metadata :: "pyval option"

definition load_metadata :: "metadata_col \<Rightarrow> pyval option" where
  "load_metadata c = (case c of ColNull \<Rightarrow> None | ColUnparsable \<Rightarrow> Some (PDict []) | ColJson v \<Rightarrow> Some v)"

definition image_of_row :: "image_row \<Rightarrow> image" where
  "image_of_row r = \<lparr> img_image_id = image_id r, img_number = number r, img_file_id = file_id r,
     img_status = status r, img_rowid = rowid r, img_metadata = load_metadata (metadata r) \<rparr>"

text \<open>\<^verbatim>\<open>row[-1] or 0\<close>: a NULL queue position counts as 0.\<close>

definition qp_or0 :: "image_row \<Rightarrow> int" where
  "qp_or0 r = (case queue_position r of None \<Rightarrow> 0 | Some q \<Rightarrow> q)"

text \<open>\<^verbatim>\<open>max(...)\<close> over a non-empty list.\<close>

fun py_max :: "int list \<Rightarrow> int" where
  "py_max [] = 0"
| "py_max [x] = x"
| "py_max (x # y # ys) = max x (py_max (y # ys))"

text \<open>\<^verbatim>\<open>SELECT ... FROM images ORDER BY rowid ASC\<close>.\<close>

definition select_all_by_rowid :: "images_db \<Rightarrow> image_row list" where
  "select_all_by_rowid db = sort_key rowid db"

text \<open>\<^verbatim>\<open>UPDATE images SET queue_position = ? WHERE image_id = ?\<close>.\<close>

definition update_queue_position :: "int \<Rightarrow> string \<Rightarrow> images_db \<Rightarrow> images_db" where
  "update_queue_position p iid db =
     map (\<lambda>r. if image_id r = iid then r\<lparr>queue_position := Some p\<rparr> else r) db"

text \<open>The first row whose rowid lies after the last sent one, in the order of the list.\<close>

definition first_open_after :: "int \<Rightarrow> image_row list \<Rightarrow> image_row option" where
  "first_open_after last_sent_rowid open_rows = find (\<lambda>r. rowid r > last_sent_rowid) open_rows"

text \<open>
  \<^verbatim>\<open>get_next_image_in_queue\<close> (db.py 744-850).  The result is the image dict (or \<^verbatim>\<open>None\<close>)
  and the table after the call.  The branches follow the source: no rows, no open rows,
  \<^verbatim>\<open>max_position == 0\<close>, the search for the row holding the maximum, the search for the next
  open row after it, the wrap-around, and the fallback.  The new position is bound to an SQLite
  integer: outside 64 bits the \<^verbatim>\<open>UPDATE\<close> raises \<^verbatim>\<open>OverflowError\<close>, which the enclosing
  \<^verbatim>\<open>except Exception\<close> turns into \<^verbatim>\<open>None\<close> with nothing written.
\<close>

definition sqlite_int_min :: int where
  "sqlite_int_min = - 9223372036854775808"

definition sqlite_int_max :: int where
  "sqlite_int_max = 9223372036854775807"

definition choose_next :: "image_row list \<Rightarrow> image_row list \<Rightarrow> int \<Rightarrow> image_row" where
  "choose_next all_rows open_rows max_position =
     (if max_position = 0 then hd open_rows
      else (case find (\<lambda>r. qp_or0 r = max_position) all_rows of
              Some last_sent \<Rightarrow>
                (case first_open_after (rowid last_sent) open_rows of
                   Some r \<Rightarrow> r
                 | None \<Rightarrow> hd open_rows)
            | None \<Rightarrow> hd open_rows))"

definition get_next_image_in_queue :: "images_db \<Rightarrow> image option \<times> images_db" where
  "get_next_image_in_queue db =
     (let all_rows = select_all_by_rowid db in
      if all_rows = [] then (None, db)
      else let open_rows = filter (\<lambda>r. status r = ''open'') all_rows in
        if open_rows = [] then (None, db)
        else let max_position = py_max (map qp_or0 all_rows);
                 next_image = choose_next all_rows open_rows max_position;
                 new_position = max_position + 1
             in if new_position < sqlite_int_min \<or> sqlite_int_max < new_position then (None, db)
                else (Some (image_of_row next_image),
                      update_queue_position new_position (image_id next_image) db))"

text \<open>Successive calls of the allocator on the same table: the images returned and the final table.\<close>

fun allocate_times :: "nat \<Rightarrow> images_db \<Rightarrow> image option list \<times> images_db" where
  "allocate_times 0 db = ([], db)"
| "allocate_times (Suc n) db =
     (let (res, db1) = get_next_image_in_queue db;
          (rest, db2) = allocate_times n db1
      in (res # rest, db2))"

subsection \<open>Notions used to state the round-robin property\<close>

text \<open>
  The rowids of the open images in ascending order, the well-formedness of a table (rowids and
  image ids are unique, as SQLite guarantees for \<^verbatim>\<open>rowid\<close> and a primary key; queue positions
  are not negative, as every value the code writes is 0 or a maximum plus one), the cursor (the
  rowid of the first row, in rowid order, that holds the maximum queue position, none while the
  maximum is 0), and the place in the open rowids where the allocation cycle starts: the first
  open rowid after the cursor, or the first open rowid at all when none lies after it.
\<close>

definition open_rowids :: "images_db \<Rightarrow> int list" where
  "open_rowids db = map rowid (filter (\<lambda>r. status r = ''open'') (select_all_by_rowid db))"

definition wf_images :: "images_db \<Rightarrow> bool" where
  "wf_images db = (distinct (map rowid db) \<and> distinct (map image_id db) \<and> list_all (\<lambda>r. 0 \<le> qp_or0 r) db)"

definition cursor_rowid :: "images_db \<Rightarrow> int option" where
  "cursor_rowid db =
     (let all_rows = select_all_by_rowid db; m = py_max (map qp_or0 all_rows)
      in if m = 0 then None else map_option rowid (find (\<lambda>r. qp_or0 r = m) all_rows))"

definition start_index :: "images_db \<Rightarrow> nat" where
  "start_index db =
     (case cursor_rowid db of
        None \<Rightarrow> 0
      | Some c \<Rightarrow> length (takeWhile (\<lambda>x. x \<le> c) (open_rowids db)) mod length (open_rowids db))"

text \<open>\<^verbatim>\<open>SELECT ... WHERE image_id = ?\<close>: the row of an image id.\<close>

definition row_by_id :: "images_db \<Rightarrow> string \<Rightarrow> image_row option" where
  "row_by_id db iid = find (\<lambda>r. image_id r = iid) db"

text \<open>A table of three open images whose second row was allocated last.\<close>

definition mk_row :: "int \<Rightarrow> string \<Rightarrow> int \<Rightarrow> string \<Rightarrow> metadata_col \<Rightarrow> int option \<Rightarrow> image_row" where
  "mk_row rid iid n st md qp =
     \<lparr> rowid = rid, image_id = iid, number = n, file_id = ''f'', status = st, metadata = md,
       queue_position = qp \<rparr>"

definition example_three_open :: images_db where
  "example_three_open =
     [mk_row 1 ''img_1'' 10 ''open'' ColNull (Some 0),
      mk_row 2 ''img_2'' 20 ''open'' ColNull (Some 1),
      mk_row 3 ''img_3'' 30 ''open'' ColNull (Some 0)]"

text \<open>A table whose single open image holds the greatest 64-bit queue position.\<close>

definition example_full_counter :: images_db where
  "example_full_counter = [mk_row 1 ''img_1'' 10 ''open'' ColNull (Some 9223372036854775807)]"

section \<open>Percentage gating and the room resolver\<close>

text \<open>
  Python's \<^verbatim>\<open>int(v)\<close> on a JSON value: an integer is itself, a boolean is 0 or 1, a finite float
  is truncated, a string is parsed; \<^verbatim>\<open>None\<close>, arrays and objects raise \<^verbatim>\<open>TypeError\<close>, an
  unparsable string and a NaN raise \<^verbatim>\<open>ValueError\<close>, an infinity raises \<^verbatim>\<open>OverflowError\<close>.
\<close>

datatype py_error = ValueError | TypeError | OverflowError

fun py_int :: "jval \<Rightarrow> py_error + int" where
  "py_int (JInt n) = Inr n"
| "py_int (JBool b) = Inr (if b then 1 else 0)"
| "py_int (JFloat n) = Inr n"
| "py_int JNaN = Inl ValueError"
| "py_int JInf = Inl OverflowError"
| "py_int (JStr s) = (case int_of_string s of Some n \<Rightarrow> Inr n | None \<Rightarrow> Inl ValueError)"
| "py_int JNull = Inl TypeError"
| "py_int JOther = Inl TypeError"

text \<open>
  \<^verbatim>\<open>get_next_image_in_queue_with_percentage\<close> (db.py 852-891).  \<^verbatim>\<open>random.randint(1, 100)\<close> is
  the oracle \<open>draw\<close>, read at a running index.  A \<^verbatim>\<open>ValueError\<close> or \<^verbatim>\<open>TypeError\<close> of the
  conversion is logged and the image returned; any other exception reaches the outer
  \<^verbatim>\<open>except Exception\<close>, which returns \<^verbatim>\<open>None\<close>.  The function calls itself on a rejected draw
  with no bound of its own; the only bound is the interpreter's recursion limit, whose
  \<^verbatim>\<open>RecursionError\<close> the same \<^verbatim>\<open>except Exception\<close> turns into \<^verbatim>\<open>None\<close>.  The first argument
  is that limit, counted in frames of this function.
\<close>

fun get_next_image_in_queue_with_percentage ::
  "nat \<Rightarrow> (int \<times> int) list option \<Rightarrow> (nat \<Rightarrow> int) \<Rightarrow> nat \<Rightarrow> images_db \<Rightarrow> image option \<times> images_db"
where
  "get_next_image_in_queue_with_percentage 0 group_b_percentages draw k db = (None, db)"
| "get_next_image_in_queue_with_percentage (Suc limit) group_b_percentages draw k db =
     (case get_next_image_in_queue db of
        (None, db1) \<Rightarrow> (None, db1)
      | (Some img, db1) \<Rightarrow>
          (case group_b_percentages of
             None \<Rightarrow> (Some img, db1)
           | Some pct \<Rightarrow>
               if pct = [] then (Some img, db1)
               else (case img_metadata img of
                       Some (PDict md) \<Rightarrow>
                         (case map_of md ''source_group_b_id'' of
                            None \<Rightarrow> (Some img, db1)
                          | Some v \<Rightarrow>
                              (case py_int v of
                                 Inl OverflowError \<Rightarrow> (None, db1)
                               | Inl _ \<Rightarrow> (Some img, db1)
                               | Inr source_group_b_id \<Rightarrow>
                                   (case map_of pct source_group_b_id of
                                      None \<Rightarrow> (Some img, db1)
                                    | Some percentage \<Rightarrow>
                                        if draw k \<le> percentage then (Some img, db1)
                                        else get_next_image_in_queue_with_percentage limit
                                               group_b_percentages draw (Suc k) db1)))
                     | _ \<Rightarrow> (Some img, db1))))"

text \<open>
  A table with a single open image bound to room \<open>-100\<close>, and a percentage table that gives
  that room 0 percent.
\<close>

definition example_one_gated_at :: "int \<Rightarrow> images_db" where
  "example_one_gated_at q =
     [mk_row 1 ''img_1'' 10 ''open'' (ColJson (PDict [(''source_group_b_id'', JInt (- 100))])) (Some q)]"

definition example_one_gated :: images_db where
  "example_one_gated = example_one_gated_at 0"

definition example_zero_percent :: "(int \<times> int) list option" where
  "example_zero_percent = Some [(- 100, 0)]"

subsection \<open>The room resolver\<close>

text \<open>
  Python dicts keep insertion order: \<^verbatim>\<open>d[k] = v\<close> replaces the value of a present key in place
  and appends an absent one; \<^verbatim>\<open>del d[k]\<close> removes the key.
\<close>

fun dict_set :: "'k \<Rightarrow> 'v \<Rightarrow> ('k \<times> 'v) list \<Rightarrow> ('k \<times> 'v) list" where
  "dict_set k v [] = [(k, v)]"
| "dict_set k v ((k', v') # d) = (if k' = k then (k, v) # d else (k', v') # dict_set k v d)"

definition dict_del :: "'k \<Rightarrow> ('k \<times> 'v) list \<Rightarrow> ('k \<times> 'v) list" where
  "dict_del k d = filter (\<lambda>kv. fst kv \<noteq> k) d"

text \<open>
  \<^verbatim>\<open>update_image_metadata\<close> (db.py 324-358): nothing is written when the image id is not in the
  table.  The JSON text written by \<^verbatim>\<open>json.dumps\<close> is kept as the dict it parses back to.
\<close>

definition update_image_metadata :: "string \<Rightarrow> (string \<times> jval) list \<Rightarrow> images_db \<Rightarrow> images_db" where
  "update_image_metadata iid md db =
     (if row_by_id db iid = None then db
      else map (\<lambda>r. if image_id r = iid then r\<lparr>metadata := ColJson (PDict md)\<rparr> else r) db)"

text \<open>
  \<^verbatim>\<open>get_group_b_for_image\<close> (bot.py 485-526).  The source calls Python's built-in \<^verbatim>\<open>hash\<close> on the
  image id, a string; that hash is salted per interpreter process, so the model takes it as the
  parameter \<open>py_hash\<close> of the running process.  \<^verbatim>\<open>GROUP_B_IDS\<close> is a set of integers; the list is
  the order in which \<^verbatim>\<open>list(GROUP_B_IDS)\<close> enumerates it.  The conversion of a stored room id
  catches \<^verbatim>\<open>ValueError\<close> and \<^verbatim>\<open>TypeError\<close> only: an \<^verbatim>\<open>OverflowError\<close> leaves the function.
\<close>

definition stored_group_b :: "int list \<Rightarrow> pyval option \<Rightarrow> py_error + int option" where
  "stored_group_b GROUP_B_IDS md =
     (case md of
        Some (PDict d) \<Rightarrow>
          (case map_of d ''source_group_b_id'' of
             None \<Rightarrow> Inr None
           | Some v \<Rightarrow>
               (case py_int v of
                  Inl OverflowError \<Rightarrow> Inl OverflowError
                | Inl _ \<Rightarrow> Inr None
                | Inr source_group_b_id \<Rightarrow>
                    if source_group_b_id \<in> set GROUP_B_IDS then Inr (Some source_group_b_id)
                    else Inr None))
      | _ \<Rightarrow> Inr None)"

definition get_group_b_for_image ::
  "(string \<Rightarrow> int) \<Rightarrow> int list \<Rightarrow> images_db \<Rightarrow> string \<Rightarrow> pyval option
     \<Rightarrow> py_error + (int option \<times> images_db)"
where
  "get_group_b_for_image py_hash GROUP_B_IDS db iid md =
     (case stored_group_b GROUP_B_IDS md of
        Inl err \<Rightarrow> Inl err
      | Inr (Some source_group_b_id) \<Rightarrow> Inr (Some source_group_b_id, db)
      | Inr None \<Rightarrow>
          let image_hash = py_hash iid;
              available_group_bs = GROUP_B_IDS
          in if available_group_bs \<noteq> [] then
               let selected_index = nat (\<bar>image_hash\<bar> mod int (length available_group_bs));
                   target_group_b_id = available_group_bs ! selected_index;
                   updated_metadata =
                     dict_set ''source_group_b_id'' (JInt target_group_b_id)
                       (case md of Some (PDict d) \<Rightarrow> d | _ \<Rightarrow> [])
               in Inr (Some target_group_b_id, update_image_metadata iid updated_metadata db)
             else Inr (None, db))"

text \<open>
  The call sites (bot.py 647-651, 770-774, 1627, 2310) read the image from the table and pass
  \<^verbatim>\<open>image.get('metadata', {})\<close>.
\<close>

definition image_metadata :: "images_db \<Rightarrow> string \<Rightarrow> pyval option" where
  "image_metadata db iid =
     (case row_by_id db iid of
        None \<Rightarrow> None
      | Some r \<Rightarrow> (case load_metadata (metadata r) of None \<Rightarrow> Some (PDict []) | Some v \<Rightarrow> Some v))"

definition resolve_room ::
  "(string \<Rightarrow> int) \<Rightarrow> int list \<Rightarrow> images_db \<Rightarrow> string \<Rightarrow> py_error + (int option \<times> images_db)"
where
  "resolve_room py_hash GROUP_B_IDS db iid =
     get_group_b_for_image py_hash GROUP_B_IDS db iid (image_metadata db iid)"

text \<open>Two rooms, one image with no stored room, and the hash functions of two processes.\<close>

definition example_rooms :: "int list" where
  "example_rooms = [- 1001, - 1002]"

definition example_unbound :: images_db where
  "example_unbound = [mk_row 1 ''img_1'' 10 ''open'' ColNull (Some 0)]"

definition hash_of_first_run :: "string \<Rightarrow> int" where
  "hash_of_first_run s = 4"

definition hash_of_second_run :: "string \<Rightarrow> int" where
  "hash_of_second_run s = - 7"

section \<open>The correlation tables and the handlers of \<^verbatim>\<open>bot.py\<close>\<close>

text \<open>The fixed message texts of the source, as code points.\<close>

definition NO_SHOW_TEXT :: pystr where
  "NO_SHOW_TEXT =
     [0x4F1A, 0x5458, 0x6CA1, 0x8FDB, 0x7FA4, 0x5462, 0x54E5, 0x54E5] @ ascii ''~ '' @ [0x1F622]"

definition QUN :: pystr where
  "QUN =
     [0x7FA4]"

definition CANCEL_SUFFIX :: pystr where
  "CANCEL_SUFFIX =
     ascii '' ('' @ [0x53D6, 0x6D88] @ ascii ''/'' @ [0x9000, 0x51FA] @ ascii ''/'' @ [0x6CA1,
     0x8FDB] @ ascii ''/'' @ [0x81EA, 0x5B9A, 0x4E49, 0x91D1, 0x989D] @ ascii '')''"

definition TOKEN_AGREE :: pystr where
  "TOKEN_AGREE =
     [0x540C, 0x610F]"

definition TOKEN_CONFIRM :: pystr where
  "TOKEN_CONFIRM =
     [0x786E, 0x8BA4]"

definition CMD_RESET_CODES :: pystr where
  "CMD_RESET_CODES =
     [0x91CD, 0x7F6E, 0x7FA4, 0x7801]"

definition CMD_SET_GROUP :: pystr where
  "CMD_SET_GROUP =
     [0x8BBE, 0x7F6E, 0x7FA4]"

definition CMD_SET_CHAT :: pystr where
  "CMD_SET_CHAT =
     [0x8BBE, 0x7F6E, 0x7FA4, 0x804A]"

definition CMD_SET_OPERATOR :: pystr where
  "CMD_SET_OPERATOR =
     [0x8BBE, 0x7F6E, 0x64CD, 0x4F5C, 0x4EBA]"

definition CMD_DISSOLVE :: pystr where
  "CMD_DISSOLVE =
     [0x89E3, 0x6563, 0x7FA4, 0x804A]"

definition NO_PENDING_TEXT :: pystr where
  "NO_PENDING_TEXT =
     [0x6CA1, 0x6709, 0x5F85, 0x5BA1, 0x6279, 0x7684, 0x81EA, 0x5B9A, 0x4E49, 0x91D1, 0x989D,
     0x3002]"

definition NOT_FOUND_TEXT :: pystr where
  "NOT_FOUND_TEXT =
     [0x26A0, 0xFE0F] @ ascii '' '' @ [0x6CA1, 0x6709, 0x627E, 0x5230, 0x6B64, 0x6D88, 0x606F,
     0x7684, 0x5F85, 0x5BA1, 0x6279, 0x8BB0, 0x5F55, 0x3002, 0x8BF7, 0x68C0, 0x67E5, 0x662F,
     0x5426, 0x56DE, 0x590D, 0x4E86, 0x6B63, 0x786E, 0x7684, 0x6D88, 0x606F, 0x3002]"

definition APPROVAL_FAILED_TEXT :: pystr where
  "APPROVAL_FAILED_TEXT =
     [0x65E0, 0x6CD5, 0x627E, 0x5230, 0x76F8, 0x5173, 0x56FE, 0x7247, 0x4FE1, 0x606F, 0xFF0C,
     0x6279, 0x51C6, 0x5931, 0x8D25, 0x3002]"

definition RELAY_FAILED_PREFIX :: pystr where
  "RELAY_FAILED_PREFIX =
     [0x91D1, 0x989D, 0x5DF2, 0x6279, 0x51C6, 0xFF0C, 0x4F46, 0x53D1, 0x9001, 0x5230, 0x9700,
     0x65B9, 0x7FA4, 0x5931, 0x8D25] @ ascii '': ''"

definition CONFIRM_PREFIX :: pystr where
  "CONFIRM_PREFIX =
     [0x2705] @ ascii '' '' @ [0x91D1, 0x989D, 0x786E, 0x8BA4, 0x4FEE, 0x6539, 0xFF1A] @
     ascii ''+''"

definition CONFIRM_BY :: pystr where
  "CONFIRM_BY =
     ascii '' ('' @ [0x7531, 0x7BA1, 0x7406, 0x5458] @ ascii '' ''"

definition CONFIRM_BY_END :: pystr where
  "CONFIRM_BY_END =
     ascii '' '' @ [0x6279, 0x51C6] @ ascii '')''"

definition N1_A :: pystr where
  "N1_A =
     [0x1F464] @ ascii '' '' @ [0x7528, 0x6237] @ ascii '' ''"

definition N1_B :: pystr where
  "N1_B =
     ascii '' '' @ [0x63D0, 0x4EA4, 0x7684, 0x81EA, 0x5B9A, 0x4E49, 0x91D1, 0x989D] @
     ascii '' +''"

definition N1_C :: pystr where
  "N1_C =
     ascii '' '' @ [0x9700, 0x8981, 0x5168, 0x5C40, 0x7BA1, 0x7406, 0x5458, 0x786E, 0x8BA4] @
     ascii '' ''"

definition N2_A :: pystr where
  "N2_A =
     [0x1F514] @ ascii '' '' @ [0x9700, 0x8981, 0x5BA1, 0x6279] @ ascii '':'' @ [0xA, 0x1F464] @
     ascii '' '' @ [0x7528, 0x6237] @ ascii '' ''"

definition N2_B :: pystr where
  "N2_B =
     ascii '' (ID: ''"

definition N2_C :: pystr where
  "N2_C =
     ascii '') '' @ [0x5728, 0x7FA4] @ ascii '' B '' @ [0x63D0, 0x4EA4, 0x4E86, 0x81EA, 0x5B9A,
     0x4E49, 0x91D1, 0x989D] @ ascii '':'' @ [0xA, 0x1F4B0] @ ascii '' '' @ [0x539F, 0x59CB,
     0x91D1, 0x989D] @ ascii '': ''"

definition N2_D :: pystr where
  "N2_D =
     [0xA, 0x1F4B2] @ ascii '' '' @ [0x81EA, 0x5B9A, 0x4E49, 0x91D1, 0x989D] @ ascii '': ''"

definition N2_E :: pystr where
  "N2_E =
     [0xA, 0x1F522] @ ascii '' '' @ [0x7FA4, 0x53F7] @ ascii '': ''"

definition N2_F :: pystr where
  "N2_F =
     [0xA, 0xA, 0x2705] @ ascii '' '' @ [0x5BA1, 0x6279, 0x65B9, 0x5F0F] @ ascii '':'' @ [0xA] @
     ascii ''1'' @ [0xFE0F, 0x20E3] @ ascii '' '' @ [0x76F4, 0x63A5, 0x56DE, 0x590D, 0x6B64,
     0x6D88, 0x606F, 0x5E76, 0x8F93, 0x5165, 0x22, 0x540C, 0x610F, 0x22, 0x6216, 0x22, 0x786E,
     0x8BA4, 0x22, 0xA] @ ascii ''2'' @ [0xFE0F, 0x20E3] @ ascii '' '' @ [0x6216, 0x5728,
     0x7FA4] @ ascii '' B '' @ [0x627E, 0x5230, 0x7528, 0x6237, 0x53D1, 0x9001, 0x7684, 0x81EA,
     0x5B9A, 0x4E49, 0x91D1, 0x989D, 0x6D88, 0x606F, 0xFF08, 0x4F8B, 0x5982] @ ascii '': +''"

definition N2_G :: pystr where
  "N2_G =
     [0xFF09, 0x5E76, 0x56DE, 0x590D, 0x22, 0x540C, 0x610F, 0x22, 0x6216, 0x22, 0x786E, 0x8BA4,
     0x22]"

subsection \<open>State\<close>

text \<open>
  An entry of \<^verbatim>\<open>forwarded_msgs\<close>, keyed by image id.  Every place that writes an entry
  (bot.py 705, 791, 1493, 1641, 2718) sets all keys but \<^verbatim>\<open>is_click_mode\<close>, so the tests
  \<^verbatim>\<open>'group_a_chat_id' in data\<close> hold and only the keys read with a default are options.  The
  amount is the digit string matched in the source room, the number is \<^verbatim>\<open>str(image['number'])\<close>.
\<close>

record fwd_entry =
  fm_group_a_msg_id :: int
  fm_group_a_chat_id :: int
  fm_group_b_msg_id :: int
  fm_group_b_chat_id :: int
  fm_amount :: pystr
  fm_number :: pystr
  fm_original_user_id :: int
  fm_original_message_id :: "int option"
  fm_is_click_mode :: "bool option"

text \<open>An entry of \<^verbatim>\<open>pending_custom_amounts\<close>, keyed by the id of the custom-amount message.\<close>

record pending =
  pa_img_id :: string
  pa_amount :: pystr
  pa_responder :: int
  pa_responder_name :: pystr
  pa_original_msg_id :: int
  pa_reply_to_msg_id :: "int option"
  pa_message_text :: pystr
  pa_timestamp :: string

record reply_to_message =
  rt_message_id :: int
  rt_text :: "pystr option"

text \<open>
  What the handlers read of a Telegram update: the chat, the message, its sender
  (\<^verbatim>\<open>username or first_name\<close>) and the message it replies to.
\<close>

record tg_update =
  u_chat_id :: int
  u_chat_type :: string
  u_message_id :: int
  u_text :: pystr
  u_user_id :: int
  u_user_name :: pystr
  u_reply_to_message :: "reply_to_message option"

text \<open>The transport calls a handler makes, in order.\<close>

datatype action =
    SendMessage int pystr "int option"
  | ReplyText pystr
  | EditMessageText int int pystr
  | ScheduleDeletion int int nat

text \<open>The module-level state of the bot and the image table.\<close>

record bot_state =
  forwarded_msgs :: "(string \<times> fwd_entry) list"
  group_b_responses :: "(string \<times> pystr) list"
  pending_custom_amounts :: "(int \<times> pending) list"
  images :: images_db
  FORWARDING_ENABLED :: bool
  GLOBAL_ADMINS :: "int list"
  GROUP_ADMINS :: "(int \<times> int list) list"

text \<open>
  What a handler takes from outside: the clock (\<^verbatim>\<open>datetime.now().isoformat()\<close>), the name
  \<^verbatim>\<open>get_chat_member\<close> reports for an admin in a chat (\<open>None\<close> when the call raises), whether a
  transport call raises after its retries, and the text of that exception.
\<close>

record env =
  env_now :: string
  env_member_name :: "int \<Rightarrow> int \<Rightarrow> pystr option"
  env_transport_fails :: "action \<Rightarrow> bool"
  env_error_text :: pystr

definition is_global_admin :: "bot_state \<Rightarrow> int \<Rightarrow> bool" where
  "is_global_admin s user_id = (user_id \<in> set (GLOBAL_ADMINS s))"

definition is_group_admin :: "bot_state \<Rightarrow> int \<Rightarrow> int \<Rightarrow> bool" where
  "is_group_admin s user_id chat_id =
     (if is_global_admin s user_id then True
      else (case map_of (GROUP_ADMINS s) chat_id of
              None \<Rightarrow> False
            | Some users \<Rightarrow> user_id \<in> set users))"

text \<open>\<^verbatim>\<open>db.set_image_status\<close> (db.py 146-170): no row is touched when the image id is unknown.\<close>

definition set_image_status :: "string \<Rightarrow> string \<Rightarrow> images_db \<Rightarrow> images_db" where
  "set_image_status iid st db =
     (if row_by_id db iid = None then db
      else map (\<lambda>r. if image_id r = iid then r\<lparr>status := st\<rparr> else r) db)"

definition image_status :: "images_db \<Rightarrow> string \<Rightarrow> string option" where
  "image_status db iid = map_option status (row_by_id db iid)"

text \<open>
  \<^verbatim>\<open>for img_id, data in forwarded_msgs.items(): if data.get('group_b_msg_id') == reply_msg_id\<close>:
  the first entry, in insertion order, whose target message id is the replied-to id.
\<close>

definition find_by_group_b_msg_id :: "(string \<times> fwd_entry) list \<Rightarrow> int \<Rightarrow> (string \<times> fwd_entry) option" where
  "find_by_group_b_msg_id fm reply_msg_id = find (\<lambda>p. fm_group_b_msg_id (snd p) = reply_msg_id) fm"

text \<open>\<^verbatim>\<open>original_message_id if original_message_id else data['group_a_msg_id']\<close>.\<close>

definition reply_to_message_id :: "fwd_entry \<Rightarrow> int" where
  "reply_to_message_id data =
     (case fm_original_message_id data of
        Some m \<Rightarrow> if m \<noteq> 0 then m else fm_group_a_msg_id data
      | None \<Rightarrow> fm_group_a_msg_id data)"

definition click_mode :: "fwd_entry \<Rightarrow> bool" where
  "click_mode data = (case fm_is_click_mode data of Some b \<Rightarrow> b | None \<Rightarrow> False)"

subsection \<open>The reconciler\<close>

text \<open>
  \<^verbatim>\<open>process_group_b_response\<close> (bot.py 1007-1089).  Transport exceptions are caught and logged
  there and in \<^verbatim>\<open>handle_all_group_b_messages\<close>, after the state was changed, so these two
  handlers are modelled by the state they leave and the calls they make.
\<close>

definition process_group_b_response ::
  "bot_state \<Rightarrow> string \<Rightarrow> fwd_entry \<Rightarrow> pystr \<Rightarrow> pystr \<Rightarrow> bot_state \<times> action list"
where
  "process_group_b_response s img_id msg_data num original_text =
     (let is_zero = (num = ascii ''0'' \<or> original_text = ascii ''+0'' \<or> original_text = ascii ''0'');
          response_text =
            (if is_zero then NO_SHOW_TEXT
             else if 43 \<in> set original_text then original_text
             else ascii ''+'' @ num);
          s1 = s\<lparr> group_b_responses := dict_set img_id response_text (group_b_responses s),
                  images := set_image_status img_id ''open'' (images s) \<rparr>;
          rendering =
            (if click_mode msg_data
             then [ScheduleDeletion (fm_group_b_chat_id msg_data) (fm_group_b_msg_id msg_data) 60]
             else [EditMessageText (fm_group_b_chat_id msg_data) (fm_group_b_msg_id msg_data)
                     (if is_zero then QUN @ fm_number msg_data @ CANCEL_SUFFIX
                      else QUN @ fm_number msg_data)]);
          relay =
            (if FORWARDING_ENABLED s
             then [SendMessage (fm_group_a_chat_id msg_data) response_text
                     (Some (reply_to_message_id msg_data))]
             else [])
      in (s1, rendering @ relay))"

text \<open>
  \<^verbatim>\<open>handle_custom_amount\<close> (bot.py 1843-1911).  The pending entry is stored first; the calls
  that follow are recorded as made (an exception of the uncaught \<^verbatim>\<open>reply_text\<close> would skip the
  private notifications and change no state).
\<close>

definition handle_custom_amount ::
  "env \<Rightarrow> bot_state \<Rightarrow> tg_update \<Rightarrow> string \<Rightarrow> fwd_entry \<Rightarrow> pystr \<Rightarrow> bot_state \<times> action list"
where
  "handle_custom_amount e s u img_id msg_data num =
     (let message_id = u_message_id u;
          s1 = s\<lparr> pending_custom_amounts :=
                    dict_set message_id
                      \<lparr> pa_img_id = img_id, pa_amount = num, pa_responder = u_user_id u,
                        pa_responder_name = u_user_name u, pa_original_msg_id = message_id,
                        pa_reply_to_msg_id = map_option rt_message_id (u_reply_to_message u),
                        pa_message_text = u_text u, pa_timestamp = env_now e \<rparr>
                      (pending_custom_amounts s) \<rparr>;
          admin_mentions =
            concat (map (\<lambda>admin_id. case env_member_name e (u_chat_id u) admin_id of
                                       Some admin_name \<Rightarrow> ascii ''@'' @ admin_name @ ascii '' ''
                                     | None \<Rightarrow> [])
                      (GLOBAL_ADMINS s));
          notification = N1_A @ u_user_name u @ N1_B @ num @ N1_C @ admin_mentions;
          private_text =
            N2_A @ u_user_name u @ N2_B @ py_str (u_user_id u) @ N2_C @ fm_amount msg_data
              @ N2_D @ num @ N2_E @ fm_number msg_data @ N2_F @ num @ N2_G
      in (s1, ReplyText notification
              # map (\<lambda>admin_id. SendMessage admin_id private_text None) (GLOBAL_ADMINS s)))"

text \<open>
  The classification of a reply to a tracked target message (bot.py 930-985); it is written
  twice in the source, for the first number with a plus sign and for the first bare number,
  with the same branches.
\<close>

definition classify_reply ::
  "env \<Rightarrow> bot_state \<Rightarrow> tg_update \<Rightarrow> string \<Rightarrow> fwd_entry \<Rightarrow> pystr \<Rightarrow> bot_state \<times> action list"
where
  "classify_reply e s u img_id data num =
     (if num = fm_amount data
      then process_group_b_response s img_id data num (ascii ''+'' @ num)
      else if num = fm_number data then (s, [])
      else if is_group_admin s (u_user_id u) (u_chat_id u) \<or> is_global_admin s (u_user_id u)
      then handle_custom_amount e s u img_id data num
      else (s, []))"

text \<open>The special case for a reply of \<^verbatim>\<open>"0"\<close> or \<^verbatim>\<open>"+0"\<close> (bot.py 838-904).\<close>

definition no_show_reply :: "bot_state \<Rightarrow> string \<Rightarrow> fwd_entry \<Rightarrow> bot_state \<times> action list" where
  "no_show_reply s img_id data =
     (let s1 = s\<lparr> group_b_responses := dict_set img_id (ascii ''+0'') (group_b_responses s),
                  images := set_image_status img_id ''open'' (images s) \<rparr>;
          rendering =
            (if click_mode data
             then [ScheduleDeletion (fm_group_b_chat_id data) (fm_group_b_msg_id data) 60]
             else [EditMessageText (fm_group_b_chat_id data) (fm_group_b_msg_id data)
                     (QUN @ fm_number data @ CANCEL_SUFFIX)]);
          relay =
            (if FORWARDING_ENABLED s
             then [SendMessage (fm_group_a_chat_id data) NO_SHOW_TEXT (Some (reply_to_message_id data))]
             else [])
      in (s1, rendering @ relay))"

text \<open>
  \<^verbatim>\<open>handle_all_group_b_messages\<close> (bot.py 820-1005), the handler registered for every text
  message of a fulfillment room.
\<close>

definition handle_all_group_b_messages :: "env \<Rightarrow> bot_state \<Rightarrow> tg_update \<Rightarrow> bot_state \<times> action list" where
  "handle_all_group_b_messages e s u =
     (let text = py_strip (u_text u) in
      if text = [] then (s, [])
      else
        (case (if text = ascii ''+0'' \<or> text = ascii ''0''
               then (case u_reply_to_message u of
                       Some rm \<Rightarrow> find_by_group_b_msg_id (forwarded_msgs s) (rt_message_id rm)
                     | None \<Rightarrow> None)
               else None) of
           Some (img_id, data) \<Rightarrow> no_show_reply s img_id data
         | None \<Rightarrow>
             (let raw_numbers = find_raw_numbers text;
                  plus_numbers = find_plus_numbers text
              in case u_reply_to_message u of
                   Some rm \<Rightarrow>
                     (case find_by_group_b_msg_id (forwarded_msgs s) (rt_message_id rm) of
                        Some (img_id, data) \<Rightarrow>
                          (case plus_numbers of
                             num # _ \<Rightarrow> classify_reply e s u img_id data num
                           | [] \<Rightarrow>
                               (case raw_numbers of
                                  num # _ \<Rightarrow> classify_reply e s u img_id data num
                                | [] \<Rightarrow> (s, [])))
                      | None \<Rightarrow> (s, []))
                 | None \<Rightarrow>
                     if py_contains CMD_RESET_CODES text \<or> py_contains CMD_SET_GROUP text
                        \<or> py_contains CMD_SET_CHAT text \<or> py_contains CMD_SET_OPERATOR text
                        \<or> py_contains CMD_DISSOLVE text
                     then (s, [])
                     else if plus_numbers \<noteq> [] \<or> (raw_numbers \<noteq> [] \<and> length text \<le> 10)
                     then (s, [])
                     else (s, []))))"

text \<open>
  The number the reconciler reads from a reply: the first number with a plus sign, or else
  the first number.
\<close>

definition reply_number :: "pystr \<Rightarrow> pystr option" where
  "reply_number text =
     (case find_plus_numbers text of
        num # _ \<Rightarrow> Some num
      | [] \<Rightarrow> (case find_raw_numbers text of num # _ \<Rightarrow> Some num | [] \<Rightarrow> None))"

subsection \<open>Example states\<close>

text \<open>
  Two closed images in flight: \<^verbatim>\<open>img_1\<close> (label 25) awaits 50 and was shown in the fulfillment
  room \<open>-1001\<close> as message 501; \<^verbatim>\<open>img_2\<close> (label 7) awaits 25 and was shown there as message
  502.  Both requests came from the source room \<open>-2001\<close>.  User 900 is a global admin, user 800
  an admin of the room \<open>-1001\<close>; forwarding is enabled.
\<close>

definition example_entry_1 :: fwd_entry where
  "example_entry_1 =
     \<lparr> fm_group_a_msg_id = 11, fm_group_a_chat_id = - 2001, fm_group_b_msg_id = 501,
       fm_group_b_chat_id = - 1001, fm_amount = ascii ''50'', fm_number = ascii ''25'',
       fm_original_user_id = 42, fm_original_message_id = Some 10,
       fm_is_click_mode = Some False \<rparr>"

definition example_entry_2 :: fwd_entry where
  "example_entry_2 =
     \<lparr> fm_group_a_msg_id = 21, fm_group_a_chat_id = - 2001, fm_group_b_msg_id = 502,
       fm_group_b_chat_id = - 1001, fm_amount = ascii ''25'', fm_number = ascii ''7'',
       fm_original_user_id = 43, fm_original_message_id = Some 20,
       fm_is_click_mode = Some False \<rparr>"

definition example_state :: bot_state where
  "example_state =
     \<lparr> forwarded_msgs = [(''img_1'', example_entry_1), (''img_2'', example_entry_2)],
       group_b_responses = [],
       pending_custom_amounts = [],
       images = [mk_row 1 ''img_1'' 25 ''closed'' ColNull (Some 1),
                 mk_row 2 ''img_2'' 7 ''closed'' ColNull (Some 2)],
       FORWARDING_ENABLED = True,
       GLOBAL_ADMINS = [900],
       GROUP_ADMINS = [(- 1001, [800])] \<rparr>"

definition example_env :: env where
  "example_env =
     \<lparr> env_now = ''2024-01-01T10:00:00'', env_member_name = (\<lambda>chat_id admin_id. None),
       env_transport_fails = (\<lambda>a. False), env_error_text = [] \<rparr>"

text \<open>A message of a user in the room \<open>-1001\<close> that replies to message 502.\<close>

definition example_reply :: "int \<Rightarrow> pystr \<Rightarrow> tg_update" where
  "example_reply user_id body =
     \<lparr> u_chat_id = - 1001, u_chat_type = ''supergroup'', u_message_id = 600, u_text = body,
       u_user_id = user_id, u_user_name = ascii ''bob'',
       u_reply_to_message = Some \<lparr> rt_message_id = 502, rt_text = None \<rparr> \<rparr>"

text \<open>A message of the room \<open>-1001\<close> that replies to nothing.\<close>

definition example_message :: "int \<Rightarrow> pystr \<Rightarrow> tg_update" where
  "example_message user_id body =
     \<lparr> u_chat_id = - 1001, u_chat_type = ''supergroup'', u_message_id = 600, u_text = body,
       u_user_id = user_id, u_user_name = ascii ''bob'', u_reply_to_message = None \<rparr>"

text \<open>A message of the room \<open>-1001\<close> that replies to the message 999, which shows no image.\<close>

definition example_reply_elsewhere :: "int \<Rightarrow> pystr \<Rightarrow> tg_update" where
  "example_reply_elsewhere user_id body =
     \<lparr> u_chat_id = - 1001, u_chat_type = ''supergroup'', u_message_id = 600, u_text = body,
       u_user_id = user_id, u_user_name = ascii ''bob'',
       u_reply_to_message = Some \<lparr> rt_message_id = 999, rt_text = None \<rparr> \<rparr>"

text \<open>
  A second fulfillment room \<open>-1002\<close> counts its messages on its own: its message 502 shows
  \<^verbatim>\<open>img_3\<close>, which awaits 30 and has the given label.  The entry of \<^verbatim>\<open>img_3\<close> comes after the
  entry of \<^verbatim>\<open>img_2\<close>, whose target message in the room \<open>-1001\<close> has the same id.
\<close>

definition example_entry_3 :: "pystr \<Rightarrow> fwd_entry" where
  "example_entry_3 lbl =
     \<lparr> fm_group_a_msg_id = 31, fm_group_a_chat_id = - 2001, fm_group_b_msg_id = 502,
       fm_group_b_chat_id = - 1002, fm_amount = ascii ''30'', fm_number = lbl,
       fm_original_user_id = 44, fm_original_message_id = Some 30,
       fm_is_click_mode = Some False \<rparr>"

definition example_two_rooms :: "pystr \<Rightarrow> bot_state" where
  "example_two_rooms lbl =
     example_state
       \<lparr> forwarded_msgs := [(''img_1'', example_entry_1), (''img_2'', example_entry_2),
                             (''img_3'', example_entry_3 lbl)],
         images := [mk_row 1 ''img_1'' 25 ''closed'' ColNull (Some 1),
                    mk_row 2 ''img_2'' 7 ''closed'' ColNull (Some 2),
                    mk_row 3 ''img_3'' 9 ''closed'' ColNull (Some 3)] \<rparr>"

definition example_reply_other_room :: "int \<Rightarrow> pystr \<Rightarrow> tg_update" where
  "example_reply_other_room user_id body =
     \<lparr> u_chat_id = - 1002, u_chat_type = ''supergroup'', u_message_id = 610, u_text = body,
       u_user_id = user_id, u_user_name = ascii ''eve'',
       u_reply_to_message = Some \<lparr> rt_message_id = 502, rt_text = None \<rparr> \<rparr>"

text \<open>
  Variants of the first state: the image \<^verbatim>\<open>img_2\<close> was deleted from the table while its entry
  stayed; the stored amount of \<^verbatim>\<open>img_2\<close> is \<^verbatim>\<open>"0"\<close>; the label of \<^verbatim>\<open>img_2\<close> is 0.
\<close>

definition example_orphan_entry :: bot_state where
  "example_orphan_entry =
     example_state\<lparr> images := [mk_row 1 ''img_1'' 25 ''closed'' ColNull (Some 1)] \<rparr>"

definition example_amount_zero :: bot_state where
  "example_amount_zero =
     example_state
       \<lparr> forwarded_msgs := [(''img_1'', example_entry_1),
                             (''img_2'', example_entry_2\<lparr> fm_amount := ascii ''0'' \<rparr>)] \<rparr>"

definition example_label_zero :: bot_state where
  "example_label_zero =
     example_state
       \<lparr> forwarded_msgs := [(''img_1'', example_entry_1),
                             (''img_2'', example_entry_2\<lparr> fm_number := ascii ''0'' \<rparr>)] \<rparr>"

subsection \<open>The fallback handler\<close>

text \<open>
  \<^verbatim>\<open>handle_general_group_b_message\<close> (bot.py 1520-1601).  \<^verbatim>\<open>register_handlers\<close> (bot.py
  2340-2501) never registers it: the messages of a fulfillment room go to
  \<^verbatim>\<open>handle_all_group_b_messages\<close>.  For each number of the text, in order, it first looks for
  the entry whose target message is replied to, then goes through the entries in insertion
  order and tests, entry by entry, the amount and then the label against the number.
\<close>

fun match_amount_or_number :: "pystr \<Rightarrow> (string \<times> fwd_entry) list \<Rightarrow> (string \<times> fwd_entry) option" where
  "match_amount_or_number num [] = None"
| "match_amount_or_number num ((img_id, msg_data) # rest) =
     (if num = fm_amount msg_data then Some (img_id, msg_data)
      else if num = fm_number msg_data then Some (img_id, msg_data)
      else match_amount_or_number num rest)"

fun general_scan ::
  "(string \<times> fwd_entry) list \<Rightarrow> int option \<Rightarrow> pystr list \<Rightarrow> ((string \<times> fwd_entry) \<times> pystr) option"
where
  "general_scan fm reply_msg_id [] = None"
| "general_scan fm reply_msg_id (num # rest) =
     (case (case reply_msg_id of
              Some rid \<Rightarrow> find_by_group_b_msg_id fm rid
            | None \<Rightarrow> None) of
        Some p \<Rightarrow> Some (p, num)
      | None \<Rightarrow>
          (case match_amount_or_number num fm of
             Some p \<Rightarrow> Some (p, num)
           | None \<Rightarrow> general_scan fm reply_msg_id rest))"

text \<open>
  \<^verbatim>\<open>sorted(forwarded_msgs.items(), key=lambda x: x[1].get('group_b_msg_id', 0), reverse=True)[0]\<close>:
  Python's sort is stable also with \<^verbatim>\<open>reverse=True\<close>, which is a stable ascending sort of the
  reversed list, reversed.
\<close>

definition most_recent_entry :: "(string \<times> fwd_entry) list \<Rightarrow> (string \<times> fwd_entry) option" where
  "most_recent_entry fm =
     (case rev (sort_key (\<lambda>p. fm_group_b_msg_id (snd p)) (rev fm)) of
        [] \<Rightarrow> None
      | p # _ \<Rightarrow> Some p)"

definition handle_general_group_b_message :: "bot_state \<Rightarrow> tg_update \<Rightarrow> bot_state \<times> action list" where
  "handle_general_group_b_message s u =
     (let text = py_strip (u_text u);
          numbers = find_raw_numbers text;
          response_text = (\<lambda>num. if 43 \<notin> set text then ascii ''+'' @ num else text)
      in if numbers = [] then (s, [])
         else
           (case general_scan (forwarded_msgs s)
                   (map_option rt_message_id (u_reply_to_message u)) numbers of
              Some ((img_id, msg_data), num) \<Rightarrow>
                process_group_b_response s img_id msg_data num (response_text num)
            | None \<Rightarrow>
                if length numbers = 1 \<and> forwarded_msgs s \<noteq> []
                then (case most_recent_entry (forwarded_msgs s) of
                        Some (img_id, msg_data) \<Rightarrow>
                          process_group_b_response s img_id msg_data (hd numbers)
                            (response_text (hd numbers))
                      | None \<Rightarrow> (s, []))
                else (s, [])))"

subsection \<open>The approval workflow\<close>

datatype approval_result = Approved | RelayFailed | ConfirmationFailed | NoForwardedEntry

datatype approval_outcome =
    NotGlobalAdmin
  | NotAnApproval
  | NoPendingAmounts
  | NoPendingApprovalFound
  | Resolved int approval_result

text \<open>
  \<^verbatim>\<open>process_custom_amount_approval\<close> (bot.py 1990-2087).  Two transport calls decide whether the
  pending entry is deleted: a relay to the source room that still raises after its retries makes
  the function return before the deletion, and so does an exception of the uncaught
  \<^verbatim>\<open>reply_text\<close> that confirms in the room.  The result tells which end was reached.
\<close>

definition process_custom_amount_approval ::
  "env \<Rightarrow> bot_state \<Rightarrow> tg_update \<Rightarrow> int \<Rightarrow> pending \<Rightarrow> bot_state \<times> action list \<times> approval_result"
where
  "process_custom_amount_approval e s u msg_id approval_data =
     (let img_id = pa_img_id approval_data;
          custom_amount = pa_amount approval_data
      in case map_of (forwarded_msgs s) img_id of
           None \<Rightarrow> (s, [ReplyText APPROVAL_FAILED_TEXT], NoForwardedEntry)
         | Some msg_data \<Rightarrow>
             (let response_text = ascii ''+'' @ custom_amount;
                  s1 = s\<lparr> group_b_responses := dict_set img_id response_text (group_b_responses s),
                          images := set_image_status img_id ''open'' (images s) \<rparr>;
                  relay = SendMessage (fm_group_a_chat_id msg_data) response_text
                            (Some (reply_to_message_id msg_data))
              in if FORWARDING_ENABLED s \<and> env_transport_fails e relay
                 then (s1, [relay, ReplyText (RELAY_FAILED_PREFIX @ env_error_text e)], RelayFailed)
                 else
                   (let sent = (if FORWARDING_ENABLED s then [relay] else []);
                        in_private = (u_chat_type u = ''private'');
                        confirmation =
                          (if in_private
                           then (if fm_group_b_chat_id msg_data \<noteq> 0
                                 then [SendMessage (fm_group_b_chat_id msg_data)
                                         (CONFIRM_PREFIX @ custom_amount @ CONFIRM_BY
                                            @ u_user_name u @ CONFIRM_BY_END)
                                         (pa_reply_to_msg_id approval_data)]
                                 else [])
                           else [ReplyText (CONFIRM_PREFIX @ custom_amount)])
                    in if \<not> in_private \<and> env_transport_fails e (ReplyText (CONFIRM_PREFIX @ custom_amount))
                       then (s1, sent @ confirmation, ConfirmationFailed)
                       else (s1\<lparr> pending_custom_amounts := dict_del msg_id (pending_custom_amounts s1) \<rparr>,
                             sent @ confirmation, Approved))))"

text \<open>
  The two searches of \<^verbatim>\<open>handle_custom_amount_approval\<close> over the pending approvals, in insertion
  order (bot.py 1965-1985): by the stored message ids (the comparisons of the \<^verbatim>\<open>str\<close> forms add
  nothing for integers), then by the text \<^verbatim>\<open>"+amount"\<close> occurring in the replied-to message.
\<close>

definition approval_by_message_ids :: "(int \<times> pending) list \<Rightarrow> int \<Rightarrow> (int \<times> pending) option" where
  "approval_by_message_ids pend reply_msg_id =
     find (\<lambda>p. pa_original_msg_id (snd p) = reply_msg_id
               \<or> pa_reply_to_msg_id (snd p) = Some reply_msg_id) pend"

definition approval_by_content :: "(int \<times> pending) list \<Rightarrow> pystr \<Rightarrow> (int \<times> pending) option" where
  "approval_by_content pend reply_message_text =
     find (\<lambda>p. py_contains (ascii ''+'' @ pa_amount (snd p)) reply_message_text) pend"

text \<open>\<^verbatim>\<open>handle_custom_amount_approval\<close> (bot.py 1914-1988).\<close>

definition handle_custom_amount_approval ::
  "env \<Rightarrow> bot_state \<Rightarrow> tg_update \<Rightarrow> bot_state \<times> action list \<times> approval_outcome"
where
  "handle_custom_amount_approval e s u =
     (if \<not> is_global_admin s (u_user_id u) then (s, [], NotGlobalAdmin)
      else case u_reply_to_message u of
        None \<Rightarrow> (s, [], NotAnApproval)
      | Some rm \<Rightarrow>
          if \<not> (py_contains TOKEN_AGREE (u_text u) \<or> py_contains TOKEN_CONFIRM (u_text u))
          then (s, [], NotAnApproval)
          else if u_chat_type u = ''private'' then
            (if pending_custom_amounts s = [] then (s, [ReplyText NO_PENDING_TEXT], NoPendingAmounts)
             else
               (let most_recent_msg_id = py_max (map fst (pending_custom_amounts s)) in
                case map_of (pending_custom_amounts s) most_recent_msg_id of
                  None \<Rightarrow> (s, [], NoPendingApprovalFound)
                | Some approval_data \<Rightarrow>
                    (case process_custom_amount_approval e s u most_recent_msg_id approval_data of
                       (s1, acts, r) \<Rightarrow> (s1, acts, Resolved most_recent_msg_id r))))
          else
            (let reply_msg_id = rt_message_id rm in
             case map_of (pending_custom_amounts s) reply_msg_id of
               Some approval_data \<Rightarrow>
                 (case process_custom_amount_approval e s u reply_msg_id approval_data of
                    (s1, acts, r) \<Rightarrow> (s1, acts, Resolved reply_msg_id r))
             | None \<Rightarrow>
                 (case approval_by_message_ids (pending_custom_amounts s) reply_msg_id of
                    Some (msg_id, data) \<Rightarrow>
                      (case process_custom_amount_approval e s u msg_id data of
                         (s1, acts, r) \<Rightarrow> (s1, acts, Resolved msg_id r))
                  | None \<Rightarrow>
                      (case approval_by_content (pending_custom_amounts s)
                              (case rt_text rm of Some t \<Rightarrow> t | None \<Rightarrow> []) of
                         Some (msg_id, data) \<Rightarrow>
                           (case process_custom_amount_approval e s u msg_id data of
                              (s1, acts, r) \<Rightarrow> (s1, acts, Resolved msg_id r))
                       | None \<Rightarrow> (s, [ReplyText NOT_FOUND_TEXT], NoPendingApprovalFound)))))"

text \<open>
  Two approvals pending for the two images in flight, both proposing 99: message 70 for
  \<^verbatim>\<open>img_1\<close>, message 71 for \<^verbatim>\<open>img_2\<close>.  The global admin 900 answers message 70 in the room.
\<close>

definition example_pending :: "string \<Rightarrow> int \<Rightarrow> string \<Rightarrow> pending" where
  "example_pending img_id msg_id stamp =
     \<lparr> pa_img_id = img_id, pa_amount = ascii ''99'', pa_responder = 800,
       pa_responder_name = ascii ''ann'', pa_original_msg_id = msg_id,
       pa_reply_to_msg_id = Some 501, pa_message_text = ascii ''+99'',
       pa_timestamp = stamp \<rparr>"

definition example_one_pending :: bot_state where
  "example_one_pending =
     example_state
       \<lparr> pending_custom_amounts := [(70, example_pending ''img_1'' 70 ''2024-01-01T10:00:00'')] \<rparr>"

definition example_two_pending :: bot_state where
  "example_two_pending =
     example_state
       \<lparr> pending_custom_amounts :=
           [(70, example_pending ''img_1'' 70 ''2024-01-01T10:00:00''),
            (71, example_pending ''img_2'' 71 ''2024-01-01T10:05:00'')] \<rparr>"

definition example_approval_in_room :: tg_update where
  "example_approval_in_room =
     \<lparr> u_chat_id = - 1001, u_chat_type = ''supergroup'', u_message_id = 700,
       u_text = TOKEN_AGREE, u_user_id = 900, u_user_name = ascii ''root'',
       u_reply_to_message = Some \<lparr> rt_message_id = 70, rt_text = Some (ascii ''+99'') \<rparr> \<rparr>"

text \<open>
  Two approvals from two fulfillment rooms, whose message ids are counted per room: the older
  one has the id 5000, the newer one the id 100.  The global admin 900 approves in a private
  chat.
\<close>

definition example_two_rooms_pending :: bot_state where
  "example_two_rooms_pending =
     example_state
       \<lparr> pending_custom_amounts :=
           [(5000, example_pending ''img_1'' 5000 ''2024-01-01T10:00:00''),
            (100, example_pending ''img_2'' 100 ''2024-01-02T10:00:00'')] \<rparr>"

definition example_approval_in_private :: tg_update where
  "example_approval_in_private =
     \<lparr> u_chat_id = 900, u_chat_type = ''private'', u_message_id = 33,
       u_text = TOKEN_CONFIRM, u_user_id = 900, u_user_name = ascii ''root'',
       u_reply_to_message = Some \<lparr> rt_message_id = 32, rt_text = None \<rparr> \<rparr>"

text \<open>The states after the first approval of message 70, with one and with two approvals pending.\<close>

definition example_after_first_approval :: bot_state where
  "example_after_first_approval =
     fst (process_custom_amount_approval example_env example_one_pending example_approval_in_room 70
            (example_pending ''img_1'' 70 ''2024-01-01T10:00:00''))"

definition example_two_after_first :: bot_state where
  "example_two_after_first =
     fst (handle_custom_amount_approval example_env example_two_pending example_approval_in_room)"

section \<open>The text functions on some inputs\<close>

text \<open>
  Full-width and Arabic-Indic digits are digits for \<^verbatim>\<open>\d\<close> and for \<^verbatim>\<open>int\<close>; the no-break space and
  the ideographic space are stripped; a plus sign counts only directly before a digit.
\<close>

lemma text_examples:
  "find_raw_numbers [0xFF12, 0xFF15, 0x20, 0x37] = [[0xFF12, 0xFF15], [0x37]]"
  "find_plus_numbers (ascii ''++5 +x 12+34'') = [ascii ''5'', ascii ''34'']"
  "py_strip [0xA0, 0x30, 0x3000] = ascii ''0''"
  "reply_number [0xFF17, 0x20, 0x37] = Some [0xFF17]"
  "int_of_string (ascii '' -1_000 '') = Some (- 1000)"
  "int_of_string [0x661, 0x662] = Some 12"
  "int_of_string (ascii ''1__0'') = None"
  by code_simp+

section \<open>The round-robin allocator\<close>

lemma py_max_Max: "xs \<noteq> [] \<Longrightarrow> py_max xs = Max (set xs)"
  by (induction xs rule: py_max.induct) (auto simp: max_def)

lemma py_max_in: "xs \<noteq> [] \<Longrightarrow> py_max xs \<in> set xs"
  using Max_in[of "set xs"] by (simp add: py_max_Max)

lemma py_max_ge: "x \<in> set xs \<Longrightarrow> x \<le> py_max xs"
  using Max_ge[of "set xs" x] by (cases "xs = []") (auto simp: py_max_Max)

lemma insort_key_map_commute:
  assumes "\<And>x. f (g x) = f x"
  shows "insort_key f (g x) (map g xs) = map g (insort_key f x xs)"
  by (induction xs) (auto simp: assms)

lemma sort_key_map_commute:
  assumes "\<And>x. f (g x) = f x"
  shows "sort_key f (map g xs) = map g (sort_key f xs)"
  by (induction xs) (auto simp: assms insort_key_map_commute)

lemma select_update_commute:
  "select_all_by_rowid (update_queue_position p iid db) = update_queue_position p iid (select_all_by_rowid db)"
  unfolding select_all_by_rowid_def update_queue_position_def
  by (rule sort_key_map_commute) simp

lemma map_rowid_update [simp]: "map rowid (update_queue_position p iid rows) = map rowid rows"
  by (simp add: update_queue_position_def comp_def)

lemma map_image_id_update [simp]: "map image_id (update_queue_position p iid rows) = map image_id rows"
  by (simp add: update_queue_position_def comp_def)

lemma filter_open_update:
  "filter (\<lambda>r. status r = ''open'') (update_queue_position p iid rows)
     = update_queue_position p iid (filter (\<lambda>r. status r = ''open'') rows)"
  by (induction rows) (auto simp: update_queue_position_def)

lemma open_rowids_update [simp]: "open_rowids (update_queue_position p iid db) = open_rowids db"
  by (simp add: open_rowids_def select_update_commute filter_open_update)

lemma sorted_open_rowids: "distinct (map rowid db) \<Longrightarrow> sorted_wrt (<) (open_rowids db)"
proof -
  assume d: "distinct (map rowid db)"
  have "sorted (map rowid (select_all_by_rowid db))" by (simp add: select_all_by_rowid_def)
  moreover have "distinct (map rowid (select_all_by_rowid db))"
    using d by (simp add: select_all_by_rowid_def distinct_map)
  ultimately have "sorted_wrt (<) (map rowid (select_all_by_rowid db))"
    by (simp add: strict_sorted_iff)
  then show ?thesis
    unfolding open_rowids_def
    by (simp add: sorted_wrt_map sorted_wrt_filter)
qed

lemma find_map_rowid:
  "map_option f (find (\<lambda>r. P (f r)) xs) = find P (map f xs)"
  by (induction xs) auto

lemma find_or_hd:
  assumes ne: "xs \<noteq> []"
  shows "(case find P xs of Some x \<Rightarrow> x | None \<Rightarrow> hd xs)
           = xs ! (length (takeWhile (\<lambda>x. \<not> P x) xs) mod length xs)"
proof (cases "find P xs")
  case None
  then have "\<forall>x\<in>set xs. \<not> P x" by (simp add: find_None_iff)
  then have tw: "takeWhile (\<lambda>x. \<not> P x) xs = xs" by (simp add: takeWhile_eq_all_conv)
  have "length (takeWhile (\<lambda>x. \<not> P x) xs) mod length xs = 0" by (subst tw) simp
  moreover have "hd xs = xs ! 0" using ne by (cases xs) auto
  ultimately show ?thesis using None by simp
next
  case (Some y)
  then obtain i where i: "i < length xs" "P (xs ! i)" "y = xs ! i" "\<forall>j<i. \<not> P (xs ! j)"
    unfolding find_Some_iff by blast
  have "takeWhile (\<lambda>x. \<not> P x) xs = take i xs"
    by (rule takeWhile_eq_take_P_nth) (use i in auto)
  then have "length (takeWhile (\<lambda>x. \<not> P x) xs) = i" using i by simp
  then show ?thesis using Some i by simp
qed

lemma rowid_choose_next:
  assumes "ops \<noteq> []"
  shows "rowid (choose_next all_rows ops m) =
     (if m = 0 then hd (map rowid ops)
      else case find (\<lambda>r. qp_or0 r = m) all_rows of
             Some l \<Rightarrow> (case find (\<lambda>x. x > rowid l) (map rowid ops) of Some x \<Rightarrow> x | None \<Rightarrow> hd (map rowid ops))
           | None \<Rightarrow> hd (map rowid ops))"
  using assms
  by (auto simp: choose_next_def first_open_after_def hd_map find_map_rowid[symmetric]
           split: option.splits)

lemma choose_next_in:
  assumes "ops \<noteq> []"
  shows "choose_next all_rows ops m \<in> set ops"
  using assms
  by (auto simp: choose_next_def first_open_after_def find_Some_iff split: option.splits)

lemma rowid_choose_start:
  assumes ne: "open_rowids db \<noteq> []"
  shows "rowid (choose_next (select_all_by_rowid db)
                  (filter (\<lambda>r. status r = ''open'') (select_all_by_rowid db))
                  (py_max (map qp_or0 (select_all_by_rowid db))))
         = open_rowids db ! start_index db"
proof -
  let ?all = "select_all_by_rowid db"
  let ?ops = "filter (\<lambda>r. status r = ''open'') ?all"
  let ?m = "py_max (map qp_or0 ?all)"
  have ops: "?ops \<noteq> []" using ne by (auto simp: open_rowids_def)
  have hd0: "hd (open_rowids db) = open_rowids db ! 0" using ne by (cases "open_rowids db") auto
  note r = rowid_choose_next[OF ops, of ?all ?m, folded open_rowids_def]
  show ?thesis
  proof (cases "cursor_rowid db")
    case None
    then show ?thesis using r hd0
      by (auto simp: start_index_def cursor_rowid_def Let_def split: if_splits option.splits)
  next
    case (Some c)
    then obtain l where l: "?m \<noteq> 0" "find (\<lambda>r. qp_or0 r = ?m) ?all = Some l" "rowid l = c"
      by (auto simp: cursor_rowid_def Let_def split: if_splits)
    have "(case find (\<lambda>x. x > c) (open_rowids db) of Some x \<Rightarrow> x | None \<Rightarrow> hd (open_rowids db))
            = open_rowids db ! (length (takeWhile (\<lambda>x. \<not> x > c) (open_rowids db)) mod length (open_rowids db))"
      by (rule find_or_hd[OF ne])
    then show ?thesis using r l Some by (simp add: start_index_def not_less)
  qed
qed

lemma get_next_eq:
  assumes ne: "open_rowids db \<noteq> []"
    and lo: "sqlite_int_min \<le> py_max (map qp_or0 (select_all_by_rowid db)) + 1"
    and hi: "py_max (map qp_or0 (select_all_by_rowid db)) + 1 \<le> sqlite_int_max"
  shows "get_next_image_in_queue db =
     (let all_rows = select_all_by_rowid db;
          m = py_max (map qp_or0 all_rows);
          c = choose_next all_rows (filter (\<lambda>r. status r = ''open'') all_rows) m
      in (Some (image_of_row c), update_queue_position (m + 1) (image_id c) db))"
proof -
  have "filter (\<lambda>r. status r = ''open'') (select_all_by_rowid db) \<noteq> []"
    using ne by (auto simp: open_rowids_def)
  moreover then have "select_all_by_rowid db \<noteq> []" by auto
  ultimately show ?thesis using lo hi by (simp add: get_next_image_in_queue_def Let_def)
qed

lemma get_next_overflow:
  assumes "sqlite_int_max < py_max (map qp_or0 (select_all_by_rowid db)) + 1"
  shows "get_next_image_in_queue db = (None, db)"
  using assms by (simp add: get_next_image_in_queue_def Let_def)

lemma qp_or0_updated [simp]: "qp_or0 (r\<lparr>queue_position := Some p\<rparr>) = p"
  by (simp add: qp_or0_def)

lemma find_updated:
  assumes "distinct (map image_id rows)" and "c \<in> set rows" and "\<forall>r\<in>set rows. qp_or0 r \<le> m"
  shows "find (\<lambda>r. qp_or0 r = m + 1) (update_queue_position (m + 1) (image_id c) rows)
           = Some (c\<lparr>queue_position := Some (m + 1)\<rparr>)"
  using assms
proof (induction rows)
  case Nil then show ?case by simp
next
  case (Cons a rows)
  show ?case
  proof (cases "a = c")
    case True then show ?thesis by (simp add: update_queue_position_def)
  next
    case False
    then have c: "c \<in> set rows" using Cons.prems by simp
    then have "image_id a \<noteq> image_id c" using Cons.prems(1) by (auto simp: image_iff)
    moreover have "qp_or0 a \<noteq> m + 1" using Cons.prems(3) by auto
    moreover have "find (\<lambda>r. qp_or0 r = m + 1) (update_queue_position (m + 1) (image_id c) rows)
           = Some (c\<lparr>queue_position := Some (m + 1)\<rparr>)"
      using Cons.IH Cons.prems c by simp
    ultimately show ?thesis by (simp add: update_queue_position_def)
  qed
qed

lemma py_max_updated:
  assumes "c \<in> set rows" and "\<forall>r\<in>set rows. qp_or0 r \<le> m"
  shows "py_max (map qp_or0 (update_queue_position (m + 1) (image_id c) rows)) = m + 1"
proof -
  let ?xs = "map qp_or0 (update_queue_position (m + 1) (image_id c) rows)"
  have ne: "?xs \<noteq> []" using assms(1) by (auto simp: update_queue_position_def)
  have "m + 1 \<in> set ?xs"
    using assms(1) by (force simp: update_queue_position_def image_iff)
  moreover have "\<forall>y\<in>set ?xs. y \<le> m + 1"
    using assms(2) by (auto simp: update_queue_position_def)
  ultimately have "Max (set ?xs) = m + 1" by (intro Max_eqI) auto
  then show ?thesis using ne by (simp add: py_max_Max)
qed

lemma wf_images_update:
  assumes "wf_images db" and "0 \<le> p"
  shows "wf_images (update_queue_position p iid db)"
proof -
  have "list_all (\<lambda>r. 0 \<le> qp_or0 r) (update_queue_position p iid db)"
    using assms by (auto simp: wf_images_def list_all_iff update_queue_position_def)
  then show ?thesis using assms(1) by (simp add: wf_images_def)
qed

lemma set_select [simp]: "set (select_all_by_rowid db) = set db"
  by (simp add: select_all_by_rowid_def)

lemma select_nil [simp]: "select_all_by_rowid db = [] \<longleftrightarrow> db = []"
proof -
  have "length (select_all_by_rowid db) = length db" by (simp add: select_all_by_rowid_def)
  then show ?thesis by (metis length_0_conv)
qed

lemma py_max_nonneg:
  assumes "wf_images db" and "db \<noteq> []"
  shows "0 \<le> py_max (map qp_or0 (select_all_by_rowid db))"
proof -
  have "py_max (map qp_or0 (select_all_by_rowid db)) \<in> set (map qp_or0 (select_all_by_rowid db))"
    using assms(2) by (intro py_max_in) simp
  then show ?thesis using assms(1) by (auto simp: wf_images_def list_all_iff)
qed

lemma cursor_after_update:
  assumes wf: "wf_images db" and c: "c \<in> set db"
  defines "m \<equiv> py_max (map qp_or0 (select_all_by_rowid db))"
  shows "cursor_rowid (update_queue_position (m + 1) (image_id c) db) = Some (rowid c)"
proof -
  let ?all = "select_all_by_rowid db"
  have ne: "db \<noteq> []" using c by auto
  have m0: "0 \<le> m" unfolding m_def by (rule py_max_nonneg[OF wf ne])
  have le: "\<forall>r\<in>set ?all. qp_or0 r \<le> m"
    unfolding m_def by (auto intro: py_max_ge)
  have d: "distinct (map image_id ?all)"
    using wf by (simp add: wf_images_def select_all_by_rowid_def distinct_map)
  have cin: "c \<in> set ?all" using c by simp
  have 1: "py_max (map qp_or0 (update_queue_position (m + 1) (image_id c) ?all)) = m + 1"
    by (rule py_max_updated[OF cin le])
  have 2: "find (\<lambda>r. qp_or0 r = m + 1) (update_queue_position (m + 1) (image_id c) ?all)
           = Some (c\<lparr>queue_position := Some (m + 1)\<rparr>)"
    by (rule find_updated[OF d cin le])
  show ?thesis
    using 1 2 m0 by (simp add: cursor_rowid_def select_update_commute Let_def)
qed

lemma start_index_less:
  assumes "open_rowids db \<noteq> []"
  shows "start_index db < length (open_rowids db)"
  using assms by (auto simp: start_index_def split: option.splits)

lemma first_call:
  assumes wf: "wf_images db" and ne: "open_rowids db \<noteq> []"
    and hi: "py_max (map qp_or0 (select_all_by_rowid db)) + 1 \<le> sqlite_int_max"
  shows "\<exists>im db'. get_next_image_in_queue db = (Some im, db')
            \<and> img_rowid im = open_rowids db ! start_index db
            \<and> wf_images db' \<and> open_rowids db' = open_rowids db
            \<and> cursor_rowid db' = Some (open_rowids db ! start_index db)
            \<and> py_max (map qp_or0 (select_all_by_rowid db'))
                = py_max (map qp_or0 (select_all_by_rowid db)) + 1"
proof -
  let ?all = "select_all_by_rowid db"
  let ?ops = "filter (\<lambda>r. status r = ''open'') ?all"
  let ?m = "py_max (map qp_or0 ?all)"
  let ?c = "choose_next ?all ?ops ?m"
  let ?db' = "update_queue_position (?m + 1) (image_id ?c) db"
  have ops: "?ops \<noteq> []" using ne by (auto simp: open_rowids_def)
  have "?c \<in> set ?ops" by (rule choose_next_in[OF ops])
  then have cin: "?c \<in> set db" by simp
  then have dbne: "db \<noteq> []" by auto
  have m0: "0 \<le> ?m" by (rule py_max_nonneg[OF wf dbne])
  then have lo: "sqlite_int_min \<le> ?m + 1" by (simp add: sqlite_int_min_def)
  have g: "get_next_image_in_queue db = (Some (image_of_row ?c), ?db')"
    using get_next_eq[OF ne lo hi] by (simp add: Let_def)
  have r: "rowid ?c = open_rowids db ! start_index db" by (rule rowid_choose_start[OF ne])
  have w: "wf_images ?db'" using wf m0 by (intro wf_images_update) auto
  have cur: "cursor_rowid ?db' = Some (rowid ?c)" by (rule cursor_after_update[OF wf cin])
  have le: "\<forall>r\<in>set ?all. qp_or0 r \<le> ?m" by (auto intro: py_max_ge)
  have cin': "?c \<in> set ?all" using cin by simp
  have mx: "py_max (map qp_or0 (select_all_by_rowid ?db')) = ?m + 1"
    unfolding select_update_commute by (rule py_max_updated[OF cin' le])
  show ?thesis
    using g r w cur mx by (simp add: image_of_row_def)
qed

lemma takeWhile_sorted_nth:
  assumes s: "sorted_wrt (<) (ids :: int list)" and j: "j < length ids"
  shows "length (takeWhile (\<lambda>x. x \<le> ids ! j) ids) = Suc j"
proof -
  have lt: "\<And>a b. a < b \<Longrightarrow> b < length ids \<Longrightarrow> ids ! a < ids ! b"
    using s by (simp add: sorted_wrt_iff_nth_less)
  have "takeWhile (\<lambda>x. x \<le> ids ! j) ids = take (Suc j) ids"
  proof (rule takeWhile_eq_take_P_nth)
    fix i assume "i < Suc j" "i < length ids"
    then have "i = j \<or> i < j" by auto
    then show "ids ! i \<le> ids ! j" using lt[of i j] j by auto
  next
    assume "Suc j < length ids"
    then show "\<not> ids ! Suc j \<le> ids ! j" using lt[of j "Suc j"] by simp
  qed
  then show ?thesis using j by simp
qed

lemma start_index_at_cursor:
  assumes wf: "wf_images db" and j: "j < length (open_rowids db)"
    and cur: "cursor_rowid db = Some (open_rowids db ! j)"
  shows "start_index db = Suc j mod length (open_rowids db)"
proof -
  have "sorted_wrt (<) (open_rowids db)" using wf by (intro sorted_open_rowids) (simp add: wf_images_def)
  then show ?thesis using cur j by (simp add: start_index_def takeWhile_sorted_nth)
qed

lemma allocate_times_rotation:
  assumes "wf_images db" and "open_rowids db = ids" and "ids \<noteq> []"
    and "py_max (map qp_or0 (select_all_by_rowid db)) + int n \<le> sqlite_int_max"
  shows "map (map_option img_rowid) (fst (allocate_times n db))
           = map (\<lambda>i. Some (ids ! ((start_index db + i) mod length ids))) [0..<n]"
  using assms
proof (induction n arbitrary: db)
  case 0
  then show ?case by simp
next
  case (Suc n)
  let ?k = "start_index db"
  have ne: "open_rowids db \<noteq> []" using Suc.prems by simp
  have hi: "py_max (map qp_or0 (select_all_by_rowid db)) + 1 \<le> sqlite_int_max"
    using Suc.prems(4) by simp
  obtain im db' where f: "get_next_image_in_queue db = (Some im, db')"
      "img_rowid im = open_rowids db ! ?k" "wf_images db'" "open_rowids db' = open_rowids db"
      "cursor_rowid db' = Some (open_rowids db ! ?k)"
      "py_max (map qp_or0 (select_all_by_rowid db'))
         = py_max (map qp_or0 (select_all_by_rowid db)) + 1"
    using first_call[OF Suc.prems(1) ne hi] by blast
  have k: "?k < length ids" using start_index_less[OF ne] Suc.prems(2) by simp
  have si: "start_index db' = Suc ?k mod length ids"
    using start_index_at_cursor[of db' ?k] f k Suc.prems(2) by simp
  have bound': "py_max (map qp_or0 (select_all_by_rowid db')) + int n \<le> sqlite_int_max"
    using f(6) Suc.prems(4) by simp
  have ih: "map (map_option img_rowid) (fst (allocate_times n db'))
           = map (\<lambda>i. Some (ids ! ((start_index db' + i) mod length ids))) [0..<n]"
    using Suc.IH[of db'] f Suc.prems bound' by simp
  have arith: "\<And>i. (Suc ?k mod length ids + i) mod length ids = (?k + Suc i) mod length ids"
    by (simp add: mod_add_left_eq)
  have "map (map_option img_rowid) (fst (allocate_times (Suc n) db))
          = Some (ids ! ?k) # map (map_option img_rowid) (fst (allocate_times n db'))"
    using f Suc.prems(2) by (simp add: split_def Let_def)
  also have "\<dots> = Some (ids ! ((?k + 0) mod length ids))
                 # map (\<lambda>i. Some (ids ! ((?k + Suc i) mod length ids))) [0..<n]"
    using ih si arith k by simp
  also have "\<dots> = map (\<lambda>i. Some (ids ! ((?k + i) mod length ids))) [0..<Suc n]"
    by (simp only: map_upt_Suc)
  finally show ?case .
qed

lemma row_by_id_updated:
  assumes "c \<in> set db"
  shows "map_option qp_or0 (row_by_id (update_queue_position p (image_id c) db) (image_id c)) = Some p"
  using assms unfolding row_by_id_def update_queue_position_def
  by (induction db) auto

text \<open>
  Claim C1, as the code has it.  On a well-formed table with \<open>M \<ge> 1\<close> open images, and as
  long as the queue positions stay within the 64-bit integers of SQLite, successive calls of
  \<^verbatim>\<open>get_next_image_in_queue\<close> walk the open images cyclically in ascending rowid order,
  starting at the first open image after the cursor (at the first open image when no position
  was assigned yet or no open image lies after the cursor): the \<open>i\<close>-th call returns the open
  image at index \<open>(start + i) mod M\<close>.  So \<open>M\<close> calls return every open image exactly once,
  as a rotation of the open rowids, and the \<open>(M+1)\<close>-th call returns the image of the first
  call again.  Each call gives the chosen image the previous maximum queue position plus one;
  a call whose new position would exceed \<open>2\<^sup>6\<^sup>3 - 1\<close> returns \<^verbatim>\<open>None\<close> and writes nothing.
\<close>

theorem C1_queue_round_robin:
  assumes wf: "wf_images db" and ne: "open_rowids db \<noteq> []"
  shows "(\<forall>n. py_max (map qp_or0 (select_all_by_rowid db)) + int n \<le> sqlite_int_max \<longrightarrow>
            map (map_option img_rowid) (fst (allocate_times n db))
              = map (\<lambda>i. Some (open_rowids db ! ((start_index db + i) mod length (open_rowids db)))) [0..<n])
       \<and> (py_max (map qp_or0 (select_all_by_rowid db)) + int (length (open_rowids db)) \<le> sqlite_int_max \<longrightarrow>
            map (map_option img_rowid) (fst (allocate_times (length (open_rowids db)) db))
              = map Some (rotate (start_index db) (open_rowids db)))
       \<and> (py_max (map qp_or0 (select_all_by_rowid db)) + int (Suc (length (open_rowids db))) \<le> sqlite_int_max \<longrightarrow>
            map (map_option img_rowid) (fst (allocate_times (Suc (length (open_rowids db))) db))
              ! length (open_rowids db)
            = map (map_option img_rowid) (fst (allocate_times (Suc (length (open_rowids db))) db)) ! 0)
       \<and> (py_max (map qp_or0 (select_all_by_rowid db)) + 1 \<le> sqlite_int_max \<longrightarrow>
            (\<exists>im db'. get_next_image_in_queue db = (Some im, db')
              \<and> map_option qp_or0 (row_by_id db' (img_image_id im))
                  = Some (py_max (map qp_or0 (select_all_by_rowid db)) + 1)))
       \<and> (sqlite_int_max < py_max (map qp_or0 (select_all_by_rowid db)) + 1 \<longrightarrow>
            get_next_image_in_queue db = (None, db))"
proof -
  let ?ids = "open_rowids db"
  let ?k = "start_index db"
  let ?all = "select_all_by_rowid db"
  let ?m = "py_max (map qp_or0 ?all)"
  have a: "map (map_option img_rowid) (fst (allocate_times n db))
           = map (\<lambda>i. Some (?ids ! ((?k + i) mod length ?ids))) [0..<n]"
    if "?m + int n \<le> sqlite_int_max" for n
    by (rule allocate_times_rotation[OF wf refl ne that])
  have b: "map (map_option img_rowid) (fst (allocate_times (length ?ids) db)) = map Some (rotate ?k ?ids)"
    if "?m + int (length ?ids) \<le> sqlite_int_max"
    unfolding a[OF that] by (rule nth_equalityI) (simp_all add: nth_rotate)
  have c: "map (map_option img_rowid) (fst (allocate_times (Suc (length ?ids)) db)) ! length ?ids
           = map (map_option img_rowid) (fst (allocate_times (Suc (length ?ids)) db)) ! 0"
    if "?m + int (Suc (length ?ids)) \<le> sqlite_int_max"
    unfolding a[OF that] by (simp del: upt_Suc add: nth_map_upt)
  let ?ops = "filter (\<lambda>r. status r = ''open'') ?all"
  let ?c = "choose_next ?all ?ops ?m"
  have ops: "?ops \<noteq> []" using ne by (auto simp: open_rowids_def)
  have "?c \<in> set ?ops" by (rule choose_next_in[OF ops])
  then have cin: "?c \<in> set db" by simp
  then have dbne: "db \<noteq> []" by auto
  have "0 \<le> ?m" by (rule py_max_nonneg[OF wf dbne])
  then have lo: "sqlite_int_min \<le> ?m + 1" by (simp add: sqlite_int_min_def)
  have d: "\<exists>im db'. get_next_image_in_queue db = (Some im, db')
           \<and> map_option qp_or0 (row_by_id db' (img_image_id im)) = Some (?m + 1)"
    if hi: "?m + 1 \<le> sqlite_int_max"
  proof -
    have g: "get_next_image_in_queue db
               = (Some (image_of_row ?c), update_queue_position (?m + 1) (image_id ?c) db)"
      using get_next_eq[OF ne lo hi] by (simp add: Let_def)
    show ?thesis
      using g row_by_id_updated[OF cin, of "?m + 1"] by (simp add: image_of_row_def)
  qed
  have e: "get_next_image_in_queue db = (None, db)" if "sqlite_int_max < ?m + 1"
    by (rule get_next_overflow[OF that])
  show ?thesis using a b c d e by blast
qed

theorem C1_queue_round_robin_witness:
  "wf_images example_three_open \<and> open_rowids example_three_open \<noteq> []
   \<and> py_max (map qp_or0 (select_all_by_rowid example_three_open))
        + int (Suc (length (open_rowids example_three_open))) \<le> sqlite_int_max
   \<and> map (map_option img_rowid) (fst (allocate_times (length (open_rowids example_three_open)) example_three_open))
       = map Some (rotate (start_index example_three_open) (open_rowids example_three_open))
   \<and> rotate (start_index example_three_open) (open_rowids example_three_open) = [3, 1, 2]
   \<and> map (map_option img_rowid) (fst (allocate_times (Suc (length (open_rowids example_three_open))) example_three_open))
         ! length (open_rowids example_three_open)
       = map (map_option img_rowid) (fst (allocate_times (Suc (length (open_rowids example_three_open))) example_three_open)) ! 0"
proof -
  have h1: "wf_images example_three_open"
    by (simp add: wf_images_def example_three_open_def mk_row_def qp_or0_def)
  have h2: "open_rowids example_three_open \<noteq> []"
    by (simp add: open_rowids_def select_all_by_rowid_def example_three_open_def mk_row_def)
  have h3: "rotate (start_index example_three_open) (open_rowids example_three_open) = [3, 1, 2]"
    by code_simp
  have h4: "py_max (map qp_or0 (select_all_by_rowid example_three_open))
        + int (Suc (length (open_rowids example_three_open))) \<le> sqlite_int_max"
    by code_simp
  have h5: "py_max (map qp_or0 (select_all_by_rowid example_three_open))
        + int (length (open_rowids example_three_open)) \<le> sqlite_int_max"
    by code_simp
  show ?thesis using h1 h2 h3 h4 h5 C1_queue_round_robin[OF h1 h2] by blast
qed

text \<open>
  The claim as worded lets the \<open>(M+1)\<close>-th call return the first open image in creation
  order.  With three open images of rowids 1, 2, 3 and the cursor on rowid 2, four calls return
  the rowids 3, 1, 2, 3: the fourth call returns rowid 3, not rowid 1, and the first three
  results are not in ascending order.  And a table whose open image holds the queue position
  \<open>2\<^sup>6\<^sup>3 - 1\<close> gets no image at all: the call returns \<^verbatim>\<open>None\<close> and assigns nothing.
\<close>

theorem C1_counterexample:
  "wf_images example_three_open
   \<and> open_rowids example_three_open = [1, 2, 3]
   \<and> map (map_option img_rowid) (fst (allocate_times 4 example_three_open))
       = [Some 3, Some 1, Some 2, Some 3]
   \<and> map (map_option img_rowid) (fst (allocate_times 4 example_three_open)) ! 3
       \<noteq> Some (hd (open_rowids example_three_open))
   \<and> wf_images example_full_counter
   \<and> open_rowids example_full_counter = [1]
   \<and> get_next_image_in_queue example_full_counter = (None, example_full_counter)"
  by code_simp

section \<open>Percentage-gated allocation\<close>

lemma get_next_one_gated:
  assumes "0 \<le> q" and "q < sqlite_int_max"
  shows "get_next_image_in_queue (example_one_gated_at q)
     = (Some (image_of_row (hd (example_one_gated_at q))), example_one_gated_at (q + 1))"
  using assms
  by (simp add: get_next_image_in_queue_def example_one_gated_at_def mk_row_def
        select_all_by_rowid_def choose_next_def first_open_after_def qp_or0_def
        update_queue_position_def sqlite_int_min_def sqlite_int_max_def Let_def)

lemma get_next_one_gated_full:
  "get_next_image_in_queue (example_one_gated_at sqlite_int_max)
     = (None, example_one_gated_at sqlite_int_max)"
  by (simp add: get_next_image_in_queue_def example_one_gated_at_def mk_row_def
        select_all_by_rowid_def qp_or0_def sqlite_int_max_def Let_def)

lemma gated_retry_at:
  assumes "0 \<le> q" and "q \<le> sqlite_int_max"
  shows "get_next_image_in_queue_with_percentage limit example_zero_percent (\<lambda>i. 1 + int (d i)) k
       (example_one_gated_at q)
     = (None, example_one_gated_at (min (q + int limit) sqlite_int_max))"
  using assms
proof (induction limit arbitrary: k q)
  case 0
  then show ?case by simp
next
  case (Suc limit)
  show ?case
  proof (cases "q = sqlite_int_max")
    case True
    then show ?thesis by (simp add: get_next_one_gated_full)
  next
    case False
    then have lt: "q < sqlite_int_max" using Suc.prems by simp
    have m: "img_metadata (image_of_row (hd (example_one_gated_at q)))
               = Some (PDict [(''source_group_b_id'', JInt (- 100))])"
      by (simp add: example_one_gated_at_def mk_row_def image_of_row_def load_metadata_def)
    have ih: "get_next_image_in_queue_with_percentage limit example_zero_percent
                (\<lambda>i. 1 + int (d i)) (Suc k) (example_one_gated_at (q + 1))
              = (None, example_one_gated_at (min (q + 1 + int limit) sqlite_int_max))"
      using Suc.IH[of "q + 1" "Suc k"] Suc.prems lt by simp
    show ?thesis
      using ih by (simp add: get_next_one_gated[OF Suc.prems(1) lt] m example_zero_percent_def add.assoc)
  qed
qed

text \<open>
  Claim C4 asks for at most one pass over the open slots and the result \<^verbatim>\<open>None\<close> once every
  candidate was rejected.  The source recurses on every rejected draw (its comment reads
  ``but limit recursion'', and no limit follows).  With one open image whose room has
  percentage 0, every draw of \<^verbatim>\<open>randint(1, 100)\<close> is rejected: whatever the recursion limit
  \<open>limit\<close>, the function allocates the same single slot once per frame, \<open>limit\<close> times in all
  (its queue position ends at \<open>limit\<close>, or at \<open>2\<^sup>6\<^sup>3 - 1\<close> where the 64-bit counter of the
  table ends first), and gives \<^verbatim>\<open>None\<close> only when one of these two limits is hit.  With
  the recursion limit 1000 of CPython the slot is allocated 1000 times.
\<close>

theorem C4_retry_unbounded:
  "(\<forall>limit k d. get_next_image_in_queue_with_percentage limit example_zero_percent
       (\<lambda>i. 1 + int (d i)) k example_one_gated
     = (None, example_one_gated_at (min (int limit) sqlite_int_max)))
   \<and> (\<forall>k d. get_next_image_in_queue_with_percentage 1000 example_zero_percent
       (\<lambda>i. 1 + int (d i)) k example_one_gated
     = (None, example_one_gated_at 1000))"
proof -
  have a: "get_next_image_in_queue_with_percentage limit example_zero_percent
       (\<lambda>i. 1 + int (d i)) k example_one_gated
     = (None, example_one_gated_at (min (int limit) sqlite_int_max))" for limit k d
    using gated_retry_at[where q = 0] by (simp add: example_one_gated_def sqlite_int_max_def)
  have b: "min (int 1000) sqlite_int_max = 1000" by (simp add: sqlite_int_max_def)
  show ?thesis using a a[of 1000] unfolding b by blast
qed

section \<open>Room affinity\<close>

lemma map_of_dict_set: "map_of (dict_set k v d) k = Some v"
  by (induction d) auto

lemma row_by_id_update_metadata:
  assumes "row_by_id db iid \<noteq> None"
  shows "\<exists>r. row_by_id (update_image_metadata iid md db) iid = Some r \<and> metadata r = ColJson (PDict md)"
proof -
  have "\<exists>r. find (\<lambda>r. image_id r = iid)
              (map (\<lambda>r. if image_id r = iid then r\<lparr>metadata := ColJson (PDict md)\<rparr> else r) db) = Some r
            \<and> metadata r = ColJson (PDict md)"
    using assms unfolding row_by_id_def by (induction db) auto
  then show ?thesis using assms by (simp add: update_image_metadata_def row_by_id_def)
qed

lemma stored_after_update:
  assumes "row_by_id db iid \<noteq> None" and "r \<in> set rooms"
  shows "stored_group_b rooms
           (image_metadata (update_image_metadata iid (dict_set ''source_group_b_id'' (JInt r) d) db) iid)
         = Inr (Some r)"
proof -
  obtain row where "row_by_id (update_image_metadata iid (dict_set ''source_group_b_id'' (JInt r) d) db) iid = Some row"
    and "metadata row = ColJson (PDict (dict_set ''source_group_b_id'' (JInt r) d))"
    using row_by_id_update_metadata[OF assms(1)] by blast
  then show ?thesis
    using assms(2) by (simp add: image_metadata_def load_metadata_def stored_group_b_def map_of_dict_set)
qed

lemma stored_in_rooms: "stored_group_b rooms md = Inr (Some g) \<Longrightarrow> g \<in> set rooms"
  by (auto simp: stored_group_b_def split: option.splits pyval.splits if_splits sum.splits py_error.splits)

lemma selected_index_in:
  assumes "rooms \<noteq> []"
  shows "rooms ! nat (\<bar>h\<bar> mod int (length rooms)) \<in> set rooms"
proof -
  have "0 < int (length rooms)" using assms by simp
  then have "\<bar>h\<bar> mod int (length rooms) < int (length rooms)" "0 \<le> \<bar>h\<bar> mod int (length rooms)"
    by (simp_all)
  then have "nat (\<bar>h\<bar> mod int (length rooms)) < length rooms" by linarith
  then show ?thesis by simp
qed

text \<open>
  What the code does keep: for an image that is in the table, once a resolution from the stored
  metadata has returned a room, every later resolution from the stored metadata returns the
  same room and leaves the table unchanged, whatever the hash function of the process that runs
  it, because the first resolution wrote the room into the metadata of the image.
\<close>

lemma room_affinity_persisted:
  assumes present: "row_by_id db iid \<noteq> None"
    and first: "resolve_room h1 rooms db iid = Inr (Some r, db1)"
  shows "resolve_room h2 rooms db1 iid = Inr (Some r, db1) \<and> r \<in> set rooms"
proof (cases "stored_group_b rooms (image_metadata db iid)")
  case (Inl err)
  then show ?thesis using first by (simp add: resolve_room_def get_group_b_for_image_def)
next
  case (Inr found)
  show ?thesis
  proof (cases found)
    case (Some g)
    then have s: "stored_group_b rooms (image_metadata db iid) = Inr (Some g)" using Inr by simp
    then have "r = g" "db1 = db"
      using first by (simp_all add: resolve_room_def get_group_b_for_image_def)
    then show ?thesis using s stored_in_rooms[OF s]
      by (simp add: resolve_room_def get_group_b_for_image_def)
  next
    case None
    then have n: "stored_group_b rooms (image_metadata db iid) = Inr None" using Inr by simp
    let ?d = "case image_metadata db iid of Some (PDict d) \<Rightarrow> d | _ \<Rightarrow> []"
    let ?t = "rooms ! nat (\<bar>h1 iid\<bar> mod int (length rooms))"
    have ne: "rooms \<noteq> []" using first n
      by (auto simp: resolve_room_def get_group_b_for_image_def Let_def split: if_splits)
    have r: "r = ?t"
      and d: "db1 = update_image_metadata iid (dict_set ''source_group_b_id'' (JInt ?t) ?d) db"
      using first n ne by (auto simp: resolve_room_def get_group_b_for_image_def Let_def)
    have rin: "r \<in> set rooms" unfolding r by (rule selected_index_in[OF ne])
    have "stored_group_b rooms (image_metadata db1 iid) = Inr (Some r)"
      unfolding d using stored_after_update[OF present rin, of ?d] r by simp
    then show ?thesis using rin by (simp add: resolve_room_def get_group_b_for_image_def)
  qed
qed

text \<open>
  Claim C3 has the room computed from a content-stable hash of the slot id, so that the same
  slot gets the same room in every process.  The source announces as much (``deterministic
  mapping'', ``the same image always goes to the same Group B'') and then calls the built-in
  \<^verbatim>\<open>hash\<close>, which is salted per interpreter process.  For the same table, the same image with no
  stored room and the same configured rooms, two processes whose hashes of \<^verbatim>\<open>'img_1'\<close> are 4
  and -7 resolve the image to two different rooms.
\<close>

theorem C3_room_depends_on_process_hash:
  "resolve_room hash_of_first_run example_rooms example_unbound ''img_1''
     = Inr (Some (- 1001),
            [mk_row 1 ''img_1'' 10 ''open''
               (ColJson (PDict [(''source_group_b_id'', JInt (- 1001))])) (Some 0)])
   \<and> resolve_room hash_of_second_run example_rooms example_unbound ''img_1''
     = Inr (Some (- 1002),
            [mk_row 1 ''img_1'' 10 ''open''
               (ColJson (PDict [(''source_group_b_id'', JInt (- 1002))])) (Some 0)])
   \<and> get_group_b_for_image hash_of_first_run example_rooms example_unbound ''img_1'' (Some (PDict []))
       \<noteq> get_group_b_for_image hash_of_second_run example_rooms example_unbound ''img_1'' (Some (PDict []))"
  by (simp add: resolve_room_def get_group_b_for_image_def image_metadata_def row_by_id_def
        example_unbound_def example_rooms_def hash_of_first_run_def hash_of_second_run_def
        mk_row_def load_metadata_def stored_group_b_def update_image_metadata_def Let_def)

section \<open>Replies to a tracked target message\<close>

text \<open>
  A correlation entry is tracked when it is in the table \<^verbatim>\<open>forwarded_msgs\<close>; a message replies
  to its target message when it is sent in the room of the entry and replies to the message with
  the target message id.  The handler looks an entry up by the id of the replied-to message alone
  and takes the first one in insertion order (bot.py 844-845, 923-924), so the theorems below
  speak of an entry before which no entry has the same target message id.
\<close>

lemma find_first_tracking:
  assumes "fm = pre @ (img_id, data) # post"
    and "list_all (\<lambda>p. fm_group_b_msg_id (snd p) \<noteq> fm_group_b_msg_id data) pre"
  shows "find_by_group_b_msg_id fm (fm_group_b_msg_id data) = Some (img_id, data)"
  using assms unfolding find_by_group_b_msg_id_def
  by (induction pre arbitrary: fm) auto

lemma slot_present:
  assumes "img_id \<in> set (map image_id db)"
  shows "row_by_id db img_id \<noteq> None"
  using assms by (auto simp: row_by_id_def find_None_iff)

lemma image_status_set:
  assumes "row_by_id db iid \<noteq> None"
  shows "image_status (set_image_status iid st db) iid = Some st"
proof -
  have "map_option status (find (\<lambda>r. image_id r = iid)
           (map (\<lambda>r. if image_id r = iid then r\<lparr>status := st\<rparr> else r) db)) = Some st"
    using assms unfolding row_by_id_def by (induction db) auto
  then show ?thesis using assms by (simp add: image_status_def set_image_status_def row_by_id_def)
qed

lemma reply_number_zero:
  "reply_number (ascii ''0'') = Some (ascii ''0'')"
  "reply_number (ascii ''+0'') = Some (ascii ''0'')"
  "reply_number [] = None"
  by code_simp+

lemma tracked_reply_classified:
  assumes body: "py_strip (u_text u) \<noteq> ascii ''0''" "py_strip (u_text u) \<noteq> ascii ''+0''"
    and table: "forwarded_msgs s = pre @ (img_id, data) # post"
    and first: "list_all (\<lambda>p. fm_group_b_msg_id (snd p) \<noteq> fm_group_b_msg_id data) pre"
    and reply: "u_reply_to_message u = Some rm" "rt_message_id rm = fm_group_b_msg_id data"
    and num: "reply_number (py_strip (u_text u)) = Some n"
  shows "handle_all_group_b_messages e s u = classify_reply e s u img_id data n"
proof -
  have ne: "py_strip (u_text u) \<noteq> []" using num by (auto simp: reply_number_zero)
  have tracked: "find_by_group_b_msg_id (forwarded_msgs s) (rt_message_id rm) = Some (img_id, data)"
    using find_first_tracking[OF table first] reply by simp
  show ?thesis
    using body reply tracked num ne
    by (auto simp: handle_all_group_b_messages_def reply_number_def Let_def split: list.splits)
qed

text \<open>
  Claim C10, as the code has it.  Let an entry be in the table with no earlier entry of the same
  target message id, and let its image be in the image table.  A reply to its target message
  whose stripped text is \<^verbatim>\<open>"0"\<close> or \<^verbatim>\<open>"+0"\<close>, from any sender in any chat, opens the slot, records
  the response \<^verbatim>\<open>"+0"\<close>, leaves the pending approvals and the entries as they are, edits the
  target message (or schedules its deletion in click mode) and, when forwarding is enabled, sends
  the no-show text to the source room.  No admin list occurs in the hypotheses.
\<close>

theorem C10_no_show_needs_no_authorization:
  assumes body: "py_strip (u_text u) = ascii ''0'' \<or> py_strip (u_text u) = ascii ''+0''"
    and table: "forwarded_msgs s = pre @ (img_id, data) # post"
    and first: "list_all (\<lambda>p. fm_group_b_msg_id (snd p) \<noteq> fm_group_b_msg_id data) pre"
    and reply: "u_reply_to_message u = Some rm" "rt_message_id rm = fm_group_b_msg_id data"
    and room: "u_chat_id u = fm_group_b_chat_id data"
    and slot: "img_id \<in> set (map image_id (images s))"
  shows "image_status (images (fst (handle_all_group_b_messages e s u))) img_id = Some ''open''
       \<and> map_of (group_b_responses (fst (handle_all_group_b_messages e s u))) img_id = Some (ascii ''+0'')
       \<and> pending_custom_amounts (fst (handle_all_group_b_messages e s u)) = pending_custom_amounts s
       \<and> forwarded_msgs (fst (handle_all_group_b_messages e s u)) = forwarded_msgs s
       \<and> snd (handle_all_group_b_messages e s u)
           = (if click_mode data
              then [ScheduleDeletion (fm_group_b_chat_id data) (fm_group_b_msg_id data) 60]
              else [EditMessageText (fm_group_b_chat_id data) (fm_group_b_msg_id data)
                      (QUN @ fm_number data @ CANCEL_SUFFIX)])
             @ (if FORWARDING_ENABLED s
                then [SendMessage (fm_group_a_chat_id data) NO_SHOW_TEXT (Some (reply_to_message_id data))]
                else [])"
proof -
  have ne: "py_strip (u_text u) \<noteq> []" using body by (auto simp: ascii_def)
  have tracked: "find_by_group_b_msg_id (forwarded_msgs s) (rt_message_id rm) = Some (img_id, data)"
    using find_first_tracking[OF table first] reply by simp
  have h: "handle_all_group_b_messages e s u = no_show_reply s img_id data"
    using body reply tracked ne by (auto simp: handle_all_group_b_messages_def Let_def)
  show ?thesis
    unfolding h using image_status_set[OF slot_present[OF slot]]
    by (simp add: no_show_reply_def Let_def map_of_dict_set)
qed

theorem C10_no_show_needs_no_authorization_witness:
  "(py_strip (u_text (example_reply 7 (ascii ''+0''))) = ascii ''0'' \<or> py_strip (u_text
         (example_reply 7 (ascii ''+0''))) = ascii ''+0'')
   \<and> forwarded_msgs example_state = [(''img_1'', example_entry_1)] @ (''img_2'',
         example_entry_2) # []
   \<and> list_all (\<lambda>p. fm_group_b_msg_id (snd p) \<noteq> fm_group_b_msg_id example_entry_2)
         [(''img_1'', example_entry_1)]
   \<and> u_reply_to_message (example_reply 7 (ascii ''+0'')) = Some \<lparr> rt_message_id = 502,
         rt_text = None \<rparr>
   \<and> rt_message_id \<lparr> rt_message_id = 502, rt_text = None \<rparr> = fm_group_b_msg_id
         example_entry_2
   \<and> u_chat_id (example_reply 7 (ascii ''+0'')) = fm_group_b_chat_id example_entry_2
   \<and> ''img_2'' \<in> set (map image_id (images example_state))
   \<and> \<not> is_group_admin example_state (u_user_id (example_reply 7 (ascii ''+0''))) (u_chat_id
         (example_reply 7 (ascii ''+0'')))
   \<and> image_status (images example_state) ''img_2'' = Some ''closed''
   \<and> (if click_mode example_entry_2 then [ScheduleDeletion (fm_group_b_chat_id example_entry_2)
         (fm_group_b_msg_id example_entry_2) 60] else [EditMessageText (fm_group_b_chat_id
         example_entry_2) (fm_group_b_msg_id example_entry_2) (QUN @ fm_number example_entry_2 @
         CANCEL_SUFFIX)]) @ (if FORWARDING_ENABLED example_state then [SendMessage
         (fm_group_a_chat_id example_entry_2) NO_SHOW_TEXT (Some (reply_to_message_id
         example_entry_2))] else []) = [EditMessageText (- 1001) 502 (QUN @ ascii ''7'' @
         CANCEL_SUFFIX), SendMessage (- 2001) NO_SHOW_TEXT (Some 20)]
   \<and> image_status (images (fst (handle_all_group_b_messages example_env example_state
         (example_reply 7 (ascii ''+0''))))) ''img_2'' = Some ''open''
   \<and> map_of (group_b_responses (fst (handle_all_group_b_messages example_env example_state
         (example_reply 7 (ascii ''+0''))))) ''img_2'' = Some (ascii ''+0'')
   \<and> pending_custom_amounts (fst (handle_all_group_b_messages example_env example_state
         (example_reply 7 (ascii ''+0'')))) = pending_custom_amounts example_state
   \<and> forwarded_msgs (fst (handle_all_group_b_messages example_env example_state (example_reply 7
         (ascii ''+0'')))) = forwarded_msgs example_state
   \<and> snd (handle_all_group_b_messages example_env example_state (example_reply 7 (ascii
         ''+0''))) = (if click_mode example_entry_2 then [ScheduleDeletion (fm_group_b_chat_id
         example_entry_2) (fm_group_b_msg_id example_entry_2) 60] else [EditMessageText
         (fm_group_b_chat_id example_entry_2) (fm_group_b_msg_id example_entry_2) (QUN @ fm_number
         example_entry_2 @ CANCEL_SUFFIX)]) @ (if FORWARDING_ENABLED example_state then
         [SendMessage (fm_group_a_chat_id example_entry_2) NO_SHOW_TEXT (Some (reply_to_message_id
         example_entry_2))] else [])"
proof -
  have body: "py_strip (u_text (example_reply 7 (ascii ''+0''))) = ascii ''0'' \<or> py_strip
      (u_text (example_reply 7 (ascii ''+0''))) = ascii ''+0''"
    by code_simp
  have table: "forwarded_msgs example_state = [(''img_1'', example_entry_1)] @ (''img_2'',
      example_entry_2) # []"
    by code_simp
  have first: "list_all (\<lambda>p. fm_group_b_msg_id (snd p) \<noteq> fm_group_b_msg_id
      example_entry_2) [(''img_1'', example_entry_1)]"
    by code_simp
  have reply1: "u_reply_to_message (example_reply 7 (ascii ''+0'')) = Some \<lparr> rt_message_id
      = 502, rt_text = None \<rparr>"
    by code_simp
  have reply2: "rt_message_id \<lparr> rt_message_id = 502, rt_text = None \<rparr> =
      fm_group_b_msg_id example_entry_2"
    by code_simp
  have room: "u_chat_id (example_reply 7 (ascii ''+0'')) = fm_group_b_chat_id example_entry_2"
    by code_simp
  have slot: "''img_2'' \<in> set (map image_id (images example_state))"
    by code_simp
  have unauth: "\<not> is_group_admin example_state (u_user_id (example_reply 7 (ascii ''+0'')))
      (u_chat_id (example_reply 7 (ascii ''+0'')))"
    by code_simp
  have before: "image_status (images example_state) ''img_2'' = Some ''closed''"
    by code_simp
  have calls: "(if click_mode example_entry_2 then [ScheduleDeletion (fm_group_b_chat_id
      example_entry_2) (fm_group_b_msg_id example_entry_2) 60] else [EditMessageText
      (fm_group_b_chat_id example_entry_2) (fm_group_b_msg_id example_entry_2) (QUN @ fm_number
      example_entry_2 @ CANCEL_SUFFIX)]) @ (if FORWARDING_ENABLED example_state then [SendMessage
      (fm_group_a_chat_id example_entry_2) NO_SHOW_TEXT (Some (reply_to_message_id
      example_entry_2))] else []) = [EditMessageText (- 1001) 502 (QUN @ ascii ''7'' @
      CANCEL_SUFFIX), SendMessage (- 2001) NO_SHOW_TEXT (Some 20)]"
    by code_simp
  show ?thesis
    using body table first reply1 reply2 room slot unauth before calls
      C10_no_show_needs_no_authorization[OF body table first reply1 reply2 room slot, of example_env]
    by blast
qed

text \<open>
  The claim as worded covers every tracked entry.  In the room \<open>-1002\<close> the message 502 shows
  \<^verbatim>\<open>img_3\<close>, while the message 502 of the room \<open>-1001\<close> shows \<^verbatim>\<open>img_2\<close>, whose entry comes first.
  A reply \<^verbatim>\<open>"0"\<close> to the message of \<^verbatim>\<open>img_3\<close> leaves \<^verbatim>\<open>img_3\<close> closed with no response recorded
  and opens \<^verbatim>\<open>img_2\<close>.  And when the image of a tracked entry was deleted from the image table
  (bot.py 2170-2186 keep the entries of other rooms), a reply \<^verbatim>\<open>"0"\<close> opens no slot.
\<close>

theorem C10_counterexample:
  "forwarded_msgs (example_two_rooms (ascii ''9'')) = [(''img_1'', example_entry_1),
         (''img_2'', example_entry_2), (''img_3'', example_entry_3 (ascii ''9''))]
   \<and> fm_group_b_chat_id (example_entry_3 (ascii ''9'')) = u_chat_id (example_reply_other_room 7
         (ascii ''0''))
   \<and> map_option rt_message_id (u_reply_to_message (example_reply_other_room 7 (ascii ''0''))) =
         Some (fm_group_b_msg_id (example_entry_3 (ascii ''9'')))
   \<and> image_status (images (example_two_rooms (ascii ''9''))) ''img_3'' = Some ''closed''
   \<and> image_status (images (fst (handle_all_group_b_messages example_env (example_two_rooms
         (ascii ''9'')) (example_reply_other_room 7 (ascii ''0''))))) ''img_3'' = Some ''closed''
   \<and> map_of (group_b_responses (fst (handle_all_group_b_messages example_env (example_two_rooms
         (ascii ''9'')) (example_reply_other_room 7 (ascii ''0''))))) ''img_3'' = None
   \<and> image_status (images (fst (handle_all_group_b_messages example_env (example_two_rooms
         (ascii ''9'')) (example_reply_other_room 7 (ascii ''0''))))) ''img_2'' = Some ''open''
   \<and> forwarded_msgs example_orphan_entry = [(''img_1'', example_entry_1), (''img_2'',
         example_entry_2)]
   \<and> map_option rt_message_id (u_reply_to_message (example_reply 7 (ascii ''0''))) = Some
         (fm_group_b_msg_id example_entry_2)
   \<and> image_status (images (fst (handle_all_group_b_messages example_env (example_orphan_entry)
         (example_reply 7 (ascii ''0''))))) ''img_2'' = None
   \<and> map (\<lambda>r. (image_id r, status r)) (images (fst (handle_all_group_b_messages
         example_env (example_orphan_entry) (example_reply 7 (ascii ''0''))))) = [(''img_1'',
         ''closed'')]"
proof -
  have t1: "forwarded_msgs (example_two_rooms (ascii ''9'')) = [(''img_1'', example_entry_1),
      (''img_2'', example_entry_2), (''img_3'', example_entry_3 (ascii ''9''))]"
    by code_simp
  have t2: "fm_group_b_chat_id (example_entry_3 (ascii ''9'')) = u_chat_id
      (example_reply_other_room 7 (ascii ''0''))"
    by code_simp
  have t3: "map_option rt_message_id (u_reply_to_message (example_reply_other_room 7 (ascii
      ''0''))) = Some (fm_group_b_msg_id (example_entry_3 (ascii ''9'')))"
    by code_simp
  have a1: "image_status (images (example_two_rooms (ascii ''9''))) ''img_3'' = Some ''closed''"
    by code_simp
  have a2: "image_status (images (fst (handle_all_group_b_messages example_env (example_two_rooms
      (ascii ''9'')) (example_reply_other_room 7 (ascii ''0''))))) ''img_3'' = Some ''closed''"
    by code_simp
  have a3: "map_of (group_b_responses (fst (handle_all_group_b_messages example_env
      (example_two_rooms (ascii ''9'')) (example_reply_other_room 7 (ascii ''0''))))) ''img_3'' =
      None"
    by code_simp
  have a4: "image_status (images (fst (handle_all_group_b_messages example_env (example_two_rooms
      (ascii ''9'')) (example_reply_other_room 7 (ascii ''0''))))) ''img_2'' = Some ''open''"
    by code_simp
  have b1: "forwarded_msgs example_orphan_entry = [(''img_1'', example_entry_1), (''img_2'',
      example_entry_2)]"
    by code_simp
  have b2: "map_option rt_message_id (u_reply_to_message (example_reply 7 (ascii ''0''))) = Some
      (fm_group_b_msg_id example_entry_2)"
    by code_simp
  have b3: "image_status (images (fst (handle_all_group_b_messages example_env
      (example_orphan_entry) (example_reply 7 (ascii ''0''))))) ''img_2'' = None"
    by code_simp
  have b4: "map (\<lambda>r. (image_id r, status r)) (images (fst (handle_all_group_b_messages
      example_env (example_orphan_entry) (example_reply 7 (ascii ''0''))))) = [(''img_1'',
      ''closed'')]"
    by code_simp
  show ?thesis
    using t1 t2 t3 a1 a2 a3 a4 b1 b2 b3 b4 by blast
qed

text \<open>
  Claim C2, as the code has it.  The reconciler reads one number from a reply: the first number
  written with a plus sign, or else the first number.  Let an entry be in the table with no
  earlier entry of the same target message id, and let its image be in the image table.  When the
  number read from a reply to its target message equals the stored expected amount and is not
  \<^verbatim>\<open>"0"\<close>, the handler opens the slot, records \<^verbatim>\<open>"+N"\<close>, edits the target message to the label (or
  schedules its deletion in click mode) and, when forwarding is enabled, sends exactly \<^verbatim>\<open>"+N"\<close>
  to the recorded source room as a reply to the request.
\<close>

theorem C2_confirm_reopens_and_relays:
  assumes table: "forwarded_msgs s = pre @ (img_id, data) # post"
    and first: "list_all (\<lambda>p. fm_group_b_msg_id (snd p) \<noteq> fm_group_b_msg_id data) pre"
    and reply: "u_reply_to_message u = Some rm" "rt_message_id rm = fm_group_b_msg_id data"
    and room: "u_chat_id u = fm_group_b_chat_id data"
    and num: "reply_number (py_strip (u_text u)) = Some n"
    and eq: "n = fm_amount data"
    and nz: "n \<noteq> ascii ''0''"
    and slot: "img_id \<in> set (map image_id (images s))"
  shows "image_status (images (fst (handle_all_group_b_messages e s u))) img_id = Some ''open''
       \<and> map_of (group_b_responses (fst (handle_all_group_b_messages e s u))) img_id = Some (ascii ''+'' @ n)
       \<and> snd (handle_all_group_b_messages e s u)
           = (if click_mode data
              then [ScheduleDeletion (fm_group_b_chat_id data) (fm_group_b_msg_id data) 60]
              else [EditMessageText (fm_group_b_chat_id data) (fm_group_b_msg_id data)
                      (QUN @ fm_number data)])
             @ (if FORWARDING_ENABLED s
                then [SendMessage (fm_group_a_chat_id data) (ascii ''+'' @ n) (Some (reply_to_message_id data))]
                else [])"
proof -
  have t0: "py_strip (u_text u) \<noteq> ascii ''0''" "py_strip (u_text u) \<noteq> ascii ''+0''"
    using num nz by (auto simp: reply_number_zero)
  have h: "handle_all_group_b_messages e s u
             = process_group_b_response s img_id data n (ascii ''+'' @ n)"
    using tracked_reply_classified[OF t0 table first reply num] eq by (simp add: classify_reply_def)
  have plus: "43 \<in> set (ascii ''+'' @ n)" "ascii ''+'' @ n \<noteq> ascii ''+0''" "ascii ''+'' @ n \<noteq> ascii ''0''"
    using nz by (simp_all add: ascii_def)
  show ?thesis
    unfolding h using nz plus image_status_set[OF slot_present[OF slot]]
    by (simp add: process_group_b_response_def Let_def map_of_dict_set)
qed

theorem C2_confirm_reopens_and_relays_witness:
  "forwarded_msgs example_state = [(''img_1'', example_entry_1)] @ (''img_2'',
         example_entry_2) # []
   \<and> list_all (\<lambda>p. fm_group_b_msg_id (snd p) \<noteq> fm_group_b_msg_id example_entry_2)
         [(''img_1'', example_entry_1)]
   \<and> u_reply_to_message (example_reply 7 (ascii ''25'')) = Some \<lparr> rt_message_id = 502,
         rt_text = None \<rparr>
   \<and> rt_message_id \<lparr> rt_message_id = 502, rt_text = None \<rparr> = fm_group_b_msg_id
         example_entry_2
   \<and> u_chat_id (example_reply 7 (ascii ''25'')) = fm_group_b_chat_id example_entry_2
   \<and> reply_number (py_strip (u_text (example_reply 7 (ascii ''25'')))) = Some (ascii ''25'')
   \<and> ascii ''25'' = fm_amount example_entry_2
   \<and> ascii ''25'' \<noteq> ascii ''0''
   \<and> ''img_2'' \<in> set (map image_id (images example_state))
   \<and> image_status (images example_state) ''img_2'' = Some ''closed''
   \<and> (if click_mode example_entry_2 then [ScheduleDeletion (fm_group_b_chat_id example_entry_2)
         (fm_group_b_msg_id example_entry_2) 60] else [EditMessageText (fm_group_b_chat_id
         example_entry_2) (fm_group_b_msg_id example_entry_2) (QUN @ fm_number example_entry_2)])
         @ (if FORWARDING_ENABLED example_state then [SendMessage (fm_group_a_chat_id
         example_entry_2) (ascii ''+'' @ ascii ''25'') (Some (reply_to_message_id
         example_entry_2))] else []) = [EditMessageText (- 1001) 502 (QUN @ ascii ''7''),
         SendMessage (- 2001) (ascii ''+25'') (Some 20)]
   \<and> image_status (images (fst (handle_all_group_b_messages example_env example_state
         (example_reply 7 (ascii ''25''))))) ''img_2'' = Some ''open''
   \<and> map_of (group_b_responses (fst (handle_all_group_b_messages example_env example_state
         (example_reply 7 (ascii ''25''))))) ''img_2'' = Some (ascii ''+'' @ ascii ''25'')
   \<and> snd (handle_all_group_b_messages example_env example_state (example_reply 7 (ascii
         ''25''))) = (if click_mode example_entry_2 then [ScheduleDeletion (fm_group_b_chat_id
         example_entry_2) (fm_group_b_msg_id example_entry_2) 60] else [EditMessageText
         (fm_group_b_chat_id example_entry_2) (fm_group_b_msg_id example_entry_2) (QUN @ fm_number
         example_entry_2)]) @ (if FORWARDING_ENABLED example_state then [SendMessage
         (fm_group_a_chat_id example_entry_2) (ascii ''+'' @ ascii ''25'') (Some
         (reply_to_message_id example_entry_2))] else [])"
proof -
  have table: "forwarded_msgs example_state = [(''img_1'', example_entry_1)] @ (''img_2'',
      example_entry_2) # []"
    by code_simp
  have first: "list_all (\<lambda>p. fm_group_b_msg_id (snd p) \<noteq> fm_group_b_msg_id
      example_entry_2) [(''img_1'', example_entry_1)]"
    by code_simp
  have reply1: "u_reply_to_message (example_reply 7 (ascii ''25'')) = Some \<lparr> rt_message_id
      = 502, rt_text = None \<rparr>"
    by code_simp
  have reply2: "rt_message_id \<lparr> rt_message_id = 502, rt_text = None \<rparr> =
      fm_group_b_msg_id example_entry_2"
    by code_simp
  have room: "u_chat_id (example_reply 7 (ascii ''25'')) = fm_group_b_chat_id example_entry_2"
    by code_simp
  have num: "reply_number (py_strip (u_text (example_reply 7 (ascii ''25'')))) = Some (ascii
      ''25'')"
    by code_simp
  have eq: "ascii ''25'' = fm_amount example_entry_2"
    by code_simp
  have nz: "ascii ''25'' \<noteq> ascii ''0''"
    by code_simp
  have slot: "''img_2'' \<in> set (map image_id (images example_state))"
    by code_simp
  have before: "image_status (images example_state) ''img_2'' = Some ''closed''"
    by code_simp
  have calls: "(if click_mode example_entry_2 then [ScheduleDeletion (fm_group_b_chat_id
      example_entry_2) (fm_group_b_msg_id example_entry_2) 60] else [EditMessageText
      (fm_group_b_chat_id example_entry_2) (fm_group_b_msg_id example_entry_2) (QUN @ fm_number
      example_entry_2)]) @ (if FORWARDING_ENABLED example_state then [SendMessage
      (fm_group_a_chat_id example_entry_2) (ascii ''+'' @ ascii ''25'') (Some (reply_to_message_id
      example_entry_2))] else []) = [EditMessageText (- 1001) 502 (QUN @ ascii ''7''), SendMessage
      (- 2001) (ascii ''+25'') (Some 20)]"
    by code_simp
  show ?thesis
    using table first reply1 reply2 room num eq nz slot before calls
      C2_confirm_reopens_and_relays[OF table first reply1 reply2 room num eq nz slot, of example_env]
    by blast
qed

text \<open>
  The claim as worded fires whenever the reply contains a number equal to the expected amount.
  The reply \<^verbatim>\<open>"12 25"\<close> to the tracked message of \<^verbatim>\<open>img_2\<close>, which awaits 25, contains the number
  25, but the reconciler reads 12: sent by a user who is no admin, it changes nothing.  When the
  stored amount is \<^verbatim>\<open>"0"\<close> (bot.py 1468 and 2709 store it), the reply \<^verbatim>\<open>"0"\<close> relays the no-show
  text, not \<^verbatim>\<open>"+0"\<close>.  In the room \<open>-1002\<close> the reply \<^verbatim>\<open>"30"\<close> to the message 502, which shows
  \<^verbatim>\<open>img_3\<close> awaiting 30, is classified against the entry of \<^verbatim>\<open>img_2\<close>, and nothing happens.  And
  the reply \<^verbatim>\<open>"25"\<close> to the message of \<^verbatim>\<open>img_2\<close> opens no slot once \<^verbatim>\<open>img_2\<close> was deleted from the
  image table.
\<close>

theorem C2_counterexample:
  "ascii ''25'' \<in> set (find_raw_numbers (py_strip (ascii ''12 25'')))
   \<and> fm_amount example_entry_2 = ascii ''25''
   \<and> handle_all_group_b_messages example_env (example_state) (example_reply 7 (ascii ''12 25''))
         = (example_state, [])
   \<and> image_status (images example_state) ''img_2'' = Some ''closed''
   \<and> map (\<lambda>p. (fst p, fm_amount (snd p))) (forwarded_msgs example_amount_zero) =
         [(''img_1'', ascii ''50''), (''img_2'', ascii ''0'')]
   \<and> find_raw_numbers (py_strip (ascii ''0'')) = [ascii ''0'']
   \<and> snd (handle_all_group_b_messages example_env (example_amount_zero) (example_reply 7 (ascii
         ''0''))) = [EditMessageText (- 1001) 502 (QUN @ ascii ''7'' @ CANCEL_SUFFIX), SendMessage
         (- 2001) NO_SHOW_TEXT (Some 20)]
   \<and> NO_SHOW_TEXT \<noteq> ascii ''+0''
   \<and> forwarded_msgs (example_two_rooms (ascii ''9'')) = [(''img_1'', example_entry_1),
         (''img_2'', example_entry_2), (''img_3'', example_entry_3 (ascii ''9''))]
   \<and> fm_group_b_chat_id (example_entry_3 (ascii ''9'')) = u_chat_id (example_reply_other_room 7
         (ascii ''30''))
   \<and> map_option rt_message_id (u_reply_to_message (example_reply_other_room 7 (ascii ''30''))) =
         Some (fm_group_b_msg_id (example_entry_3 (ascii ''9'')))
   \<and> fm_amount (example_entry_3 (ascii ''9'')) = ascii ''30''
   \<and> handle_all_group_b_messages example_env (example_two_rooms (ascii ''9''))
         (example_reply_other_room 7 (ascii ''30'')) = (example_two_rooms (ascii ''9''), [])
   \<and> image_status (images (example_two_rooms (ascii ''9''))) ''img_3'' = Some ''closed''
   \<and> forwarded_msgs example_orphan_entry = [(''img_1'', example_entry_1), (''img_2'',
         example_entry_2)]
   \<and> image_status (images (fst (handle_all_group_b_messages example_env (example_orphan_entry)
         (example_reply 7 (ascii ''25''))))) ''img_2'' = None"
proof -
  have a1: "ascii ''25'' \<in> set (find_raw_numbers (py_strip (ascii ''12 25'')))"
    by code_simp
  have a2: "fm_amount example_entry_2 = ascii ''25''"
    by code_simp
  have a3: "handle_all_group_b_messages example_env (example_state) (example_reply 7 (ascii
      ''12 25'')) = (example_state, [])"
    by code_simp
  have a4: "image_status (images example_state) ''img_2'' = Some ''closed''"
    by code_simp
  have z1: "map (\<lambda>p. (fst p, fm_amount (snd p))) (forwarded_msgs example_amount_zero) =
      [(''img_1'', ascii ''50''), (''img_2'', ascii ''0'')]"
    by code_simp
  have z2: "find_raw_numbers (py_strip (ascii ''0'')) = [ascii ''0'']"
    by code_simp
  have z3: "snd (handle_all_group_b_messages example_env (example_amount_zero) (example_reply 7
      (ascii ''0''))) = [EditMessageText (- 1001) 502 (QUN @ ascii ''7'' @ CANCEL_SUFFIX),
      SendMessage (- 2001) NO_SHOW_TEXT (Some 20)]"
    by code_simp
  have z4: "NO_SHOW_TEXT \<noteq> ascii ''+0''"
    by code_simp
  have t1: "forwarded_msgs (example_two_rooms (ascii ''9'')) = [(''img_1'', example_entry_1),
      (''img_2'', example_entry_2), (''img_3'', example_entry_3 (ascii ''9''))]"
    by code_simp
  have t2: "fm_group_b_chat_id (example_entry_3 (ascii ''9'')) = u_chat_id
      (example_reply_other_room 7 (ascii ''30''))"
    by code_simp
  have t3: "map_option rt_message_id (u_reply_to_message (example_reply_other_room 7 (ascii
      ''30''))) = Some (fm_group_b_msg_id (example_entry_3 (ascii ''9'')))"
    by code_simp
  have s1: "fm_amount (example_entry_3 (ascii ''9'')) = ascii ''30''"
    by code_simp
  have s2: "handle_all_group_b_messages example_env (example_two_rooms (ascii ''9''))
      (example_reply_other_room 7 (ascii ''30'')) = (example_two_rooms (ascii ''9''), [])"
    by code_simp
  have s3: "image_status (images (example_two_rooms (ascii ''9''))) ''img_3'' = Some ''closed''"
    by code_simp
  have o1: "forwarded_msgs example_orphan_entry = [(''img_1'', example_entry_1), (''img_2'',
      example_entry_2)]"
    by code_simp
  have o2: "image_status (images (fst (handle_all_group_b_messages example_env
      (example_orphan_entry) (example_reply 7 (ascii ''25''))))) ''img_2'' = None"
    by code_simp
  show ?thesis
    using a1 a2 a3 a4 z1 z2 z3 z4 t1 t2 t3 s1 s2 s3 o1 o2 by blast
qed

text \<open>
  Claim C7, as the code has it.  Let an entry be in the table with no earlier entry of the same
  target message id.  A reply to its target message, other than a bare \<^verbatim>\<open>"0"\<close> or \<^verbatim>\<open>"+0"\<close>,
  whose number (the first with a plus sign, or else the first) equals neither the expected amount
  nor the label, sent by a user who is neither a global admin nor listed as an admin of the chat,
  leaves the whole state as it was and makes no transport call.
\<close>

theorem C7_unauthorized_custom_amount_ignored:
  assumes body: "py_strip (u_text u) \<noteq> ascii ''0''" "py_strip (u_text u) \<noteq> ascii ''+0''"
    and table: "forwarded_msgs s = pre @ (img_id, data) # post"
    and first: "list_all (\<lambda>p. fm_group_b_msg_id (snd p) \<noteq> fm_group_b_msg_id data) pre"
    and reply: "u_reply_to_message u = Some rm" "rt_message_id rm = fm_group_b_msg_id data"
    and room: "u_chat_id u = fm_group_b_chat_id data"
    and num: "reply_number (py_strip (u_text u)) = Some n"
    and custom: "n \<noteq> fm_amount data" "n \<noteq> fm_number data"
    and unauthorized: "u_user_id u \<notin> set (GLOBAL_ADMINS s)"
      "\<forall>users. map_of (GROUP_ADMINS s) (u_chat_id u) = Some users \<longrightarrow> u_user_id u \<notin> set users"
  shows "handle_all_group_b_messages e s u = (s, [])"
proof -
  have "\<not> is_global_admin s (u_user_id u)" using unauthorized by (simp add: is_global_admin_def)
  moreover have "\<not> is_group_admin s (u_user_id u) (u_chat_id u)"
    using unauthorized by (auto simp: is_group_admin_def is_global_admin_def split: option.splits)
  ultimately show ?thesis
    using tracked_reply_classified[OF body table first reply num] custom
    by (simp add: classify_reply_def)
qed

theorem C7_unauthorized_custom_amount_ignored_witness:
  "py_strip (u_text (example_reply 7 (ascii ''99''))) \<noteq> ascii ''0''
   \<and> py_strip (u_text (example_reply 7 (ascii ''99''))) \<noteq> ascii ''+0''
   \<and> forwarded_msgs example_state = [(''img_1'', example_entry_1)] @ (''img_2'',
         example_entry_2) # []
   \<and> list_all (\<lambda>p. fm_group_b_msg_id (snd p) \<noteq> fm_group_b_msg_id example_entry_2)
         [(''img_1'', example_entry_1)]
   \<and> u_reply_to_message (example_reply 7 (ascii ''99'')) = Some \<lparr> rt_message_id = 502,
         rt_text = None \<rparr>
   \<and> rt_message_id \<lparr> rt_message_id = 502, rt_text = None \<rparr> = fm_group_b_msg_id
         example_entry_2
   \<and> u_chat_id (example_reply 7 (ascii ''99'')) = fm_group_b_chat_id example_entry_2
   \<and> reply_number (py_strip (u_text (example_reply 7 (ascii ''99'')))) = Some (ascii ''99'')
   \<and> ascii ''99'' \<noteq> fm_amount example_entry_2
   \<and> ascii ''99'' \<noteq> fm_number example_entry_2
   \<and> u_user_id (example_reply 7 (ascii ''99'')) \<notin> set (GLOBAL_ADMINS example_state)
   \<and> map_of (GROUP_ADMINS example_state) (u_chat_id (example_reply 7 (ascii ''99''))) = Some
         [800]
   \<and> u_user_id (example_reply 7 (ascii ''99'')) \<notin> set [800]
   \<and> handle_all_group_b_messages example_env example_state (example_reply 7 (ascii ''99'')) =
         (example_state, [])"
proof -
  have body1: "py_strip (u_text (example_reply 7 (ascii ''99''))) \<noteq> ascii ''0''"
    by code_simp
  have body2: "py_strip (u_text (example_reply 7 (ascii ''99''))) \<noteq> ascii ''+0''"
    by code_simp
  have table: "forwarded_msgs example_state = [(''img_1'', example_entry_1)] @ (''img_2'',
      example_entry_2) # []"
    by code_simp
  have first: "list_all (\<lambda>p. fm_group_b_msg_id (snd p) \<noteq> fm_group_b_msg_id
      example_entry_2) [(''img_1'', example_entry_1)]"
    by code_simp
  have reply1: "u_reply_to_message (example_reply 7 (ascii ''99'')) = Some \<lparr> rt_message_id
      = 502, rt_text = None \<rparr>"
    by code_simp
  have reply2: "rt_message_id \<lparr> rt_message_id = 502, rt_text = None \<rparr> =
      fm_group_b_msg_id example_entry_2"
    by code_simp
  have room: "u_chat_id (example_reply 7 (ascii ''99'')) = fm_group_b_chat_id example_entry_2"
    by code_simp
  have num: "reply_number (py_strip (u_text (example_reply 7 (ascii ''99'')))) = Some (ascii
      ''99'')"
    by code_simp
  have custom1: "ascii ''99'' \<noteq> fm_amount example_entry_2"
    by code_simp
  have custom2: "ascii ''99'' \<noteq> fm_number example_entry_2"
    by code_simp
  have unauth1: "u_user_id (example_reply 7 (ascii ''99'')) \<notin> set (GLOBAL_ADMINS
      example_state)"
    by code_simp
  have admins: "map_of (GROUP_ADMINS example_state) (u_chat_id (example_reply 7 (ascii ''99''))) = Some [800]"
    by code_simp
  have other: "u_user_id (example_reply 7 (ascii ''99'')) \<notin> set [800]"
    by code_simp
  have unauth2: "\<forall>users. map_of (GROUP_ADMINS example_state) (u_chat_id (example_reply 7 (ascii ''99''))) = Some users \<longrightarrow> u_user_id (example_reply 7 (ascii ''99'')) \<notin> set users"
    using admins other by simp
  show ?thesis
    using body1 body2 table first reply1 reply2 room num custom1 custom2 unauth1 admins other
      C7_unauthorized_custom_amount_ignored[OF body1 body2 table first reply1 reply2 room
         num custom1 custom2 unauth1 unauth2, of example_env]
    by blast
qed

text \<open>
  The claim as worded covers every number that equals neither the expected amount nor the
  label.  The number 0 is such a number for \<^verbatim>\<open>img_2\<close> (label 7, awaiting 25), and a user who is no
  admin replies \<^verbatim>\<open>"0"\<close>: the no-show branch runs before any classification, opens the slot, edits
  the target message and relays the no-show text.  The reply \<^verbatim>\<open>"25 99"\<close> of the same user
  contains 99, which equals neither, and is read as 25: the slot is opened.  In the room
  \<open>-1002\<close> the reply \<^verbatim>\<open>"25"\<close> of a user who is no admin to the message 502, which shows
  \<^verbatim>\<open>img_3\<close> (label 9, awaiting 30), is classified against the entry of \<^verbatim>\<open>img_2\<close>: \<^verbatim>\<open>img_2\<close> is
  opened and \<^verbatim>\<open>"+25"\<close> is relayed.
\<close>

theorem C7_counterexample:
  "\<not> is_group_admin example_state 7 (- 1001)
   \<and> \<not> is_global_admin example_state 7
   \<and> reply_number (py_strip (ascii ''0'')) = Some (ascii ''0'')
   \<and> ascii ''0'' \<noteq> fm_amount example_entry_2
   \<and> ascii ''0'' \<noteq> fm_number example_entry_2
   \<and> image_status (images example_state) ''img_2'' = Some ''closed''
   \<and> image_status (images (fst (handle_all_group_b_messages example_env (example_state)
         (example_reply 7 (ascii ''0''))))) ''img_2'' = Some ''open''
   \<and> snd (handle_all_group_b_messages example_env (example_state) (example_reply 7 (ascii
         ''0''))) = [EditMessageText (- 1001) 502 (QUN @ ascii ''7'' @ CANCEL_SUFFIX), SendMessage
         (- 2001) NO_SHOW_TEXT (Some 20)]
   \<and> ascii ''99'' \<in> set (find_raw_numbers (py_strip (ascii ''25 99'')))
   \<and> ascii ''99'' \<noteq> fm_amount example_entry_2
   \<and> ascii ''99'' \<noteq> fm_number example_entry_2
   \<and> image_status (images (fst (handle_all_group_b_messages example_env (example_state)
         (example_reply 7 (ascii ''25 99''))))) ''img_2'' = Some ''open''
   \<and> forwarded_msgs (example_two_rooms (ascii ''9'')) = [(''img_1'', example_entry_1),
         (''img_2'', example_entry_2), (''img_3'', example_entry_3 (ascii ''9''))]
   \<and> fm_group_b_chat_id (example_entry_3 (ascii ''9'')) = u_chat_id (example_reply_other_room 7
         (ascii ''25''))
   \<and> map_option rt_message_id (u_reply_to_message (example_reply_other_room 7 (ascii ''25''))) =
         Some (fm_group_b_msg_id (example_entry_3 (ascii ''9'')))
   \<and> \<not> is_group_admin (example_two_rooms (ascii ''9'')) 7 (- 1002)
   \<and> \<not> is_global_admin (example_two_rooms (ascii ''9'')) 7
   \<and> reply_number (py_strip (ascii ''25'')) = Some (ascii ''25'')
   \<and> ascii ''25'' \<noteq> fm_amount (example_entry_3 (ascii ''9''))
   \<and> ascii ''25'' \<noteq> fm_number (example_entry_3 (ascii ''9''))
   \<and> image_status (images (example_two_rooms (ascii ''9''))) ''img_2'' = Some ''closed''
   \<and> image_status (images (fst (handle_all_group_b_messages example_env (example_two_rooms
         (ascii ''9'')) (example_reply_other_room 7 (ascii ''25''))))) ''img_2'' = Some ''open''
   \<and> snd (handle_all_group_b_messages example_env (example_two_rooms (ascii ''9''))
         (example_reply_other_room 7 (ascii ''25''))) = [EditMessageText (- 1001) 502 (QUN @ ascii
         ''7''), SendMessage (- 2001) (ascii ''+25'') (Some 20)]"
proof -
  have n1: "\<not> is_group_admin example_state 7 (- 1001)"
    by code_simp
  have n2: "\<not> is_global_admin example_state 7"
    by code_simp
  have a1: "reply_number (py_strip (ascii ''0'')) = Some (ascii ''0'')"
    by code_simp
  have a2: "ascii ''0'' \<noteq> fm_amount example_entry_2"
    by code_simp
  have a3: "ascii ''0'' \<noteq> fm_number example_entry_2"
    by code_simp
  have a4: "image_status (images example_state) ''img_2'' = Some ''closed''"
    by code_simp
  have a5: "image_status (images (fst (handle_all_group_b_messages example_env (example_state)
      (example_reply 7 (ascii ''0''))))) ''img_2'' = Some ''open''"
    by code_simp
  have a6: "snd (handle_all_group_b_messages example_env (example_state) (example_reply 7 (ascii
      ''0''))) = [EditMessageText (- 1001) 502 (QUN @ ascii ''7'' @ CANCEL_SUFFIX), SendMessage (-
      2001) NO_SHOW_TEXT (Some 20)]"
    by code_simp
  have b1: "ascii ''99'' \<in> set (find_raw_numbers (py_strip (ascii ''25 99'')))"
    by code_simp
  have b2: "ascii ''99'' \<noteq> fm_amount example_entry_2"
    by code_simp
  have b3: "ascii ''99'' \<noteq> fm_number example_entry_2"
    by code_simp
  have b4: "image_status (images (fst (handle_all_group_b_messages example_env (example_state)
      (example_reply 7 (ascii ''25 99''))))) ''img_2'' = Some ''open''"
    by code_simp
  have t1: "forwarded_msgs (example_two_rooms (ascii ''9'')) = [(''img_1'', example_entry_1),
      (''img_2'', example_entry_2), (''img_3'', example_entry_3 (ascii ''9''))]"
    by code_simp
  have t2: "fm_group_b_chat_id (example_entry_3 (ascii ''9'')) = u_chat_id
      (example_reply_other_room 7 (ascii ''25''))"
    by code_simp
  have t3: "map_option rt_message_id (u_reply_to_message (example_reply_other_room 7 (ascii
      ''25''))) = Some (fm_group_b_msg_id (example_entry_3 (ascii ''9'')))"
    by code_simp
  have s1: "\<not> is_group_admin (example_two_rooms (ascii ''9'')) 7 (- 1002)"
    by code_simp
  have s2: "\<not> is_global_admin (example_two_rooms (ascii ''9'')) 7"
    by code_simp
  have s3: "reply_number (py_strip (ascii ''25'')) = Some (ascii ''25'')"
    by code_simp
  have s4: "ascii ''25'' \<noteq> fm_amount (example_entry_3 (ascii ''9''))"
    by code_simp
  have s5: "ascii ''25'' \<noteq> fm_number (example_entry_3 (ascii ''9''))"
    by code_simp
  have s6: "image_status (images (example_two_rooms (ascii ''9''))) ''img_2'' = Some ''closed''"
    by code_simp
  have s7: "image_status (images (fst (handle_all_group_b_messages example_env (example_two_rooms
      (ascii ''9'')) (example_reply_other_room 7 (ascii ''25''))))) ''img_2'' = Some ''open''"
    by code_simp
  have s8: "snd (handle_all_group_b_messages example_env (example_two_rooms (ascii ''9''))
      (example_reply_other_room 7 (ascii ''25''))) = [EditMessageText (- 1001) 502 (QUN @ ascii
      ''7''), SendMessage (- 2001) (ascii ''+25'') (Some 20)]"
    by code_simp
  show ?thesis
    using n1 n2 a1 a2 a3 a4 a5 a6 b1 b2 b3 b4 t1 t2 t3 s1 s2 s3 s4 s5 s6 s7 s8 by blast
qed

text \<open>
  Claim C8, as the code has it.  Let an entry be in the table with no earlier entry of the same
  target message id.  A reply to its target message, other than a bare \<^verbatim>\<open>"0"\<close> or \<^verbatim>\<open>"+0"\<close>,
  whose number (the first with a plus sign, or else the first) equals the stored label and
  differs from the expected amount, leaves the whole state as it was (the slot stays closed, no
  approval is created) and makes no transport call, whoever sent it.
\<close>

theorem C8_label_echo_ignored:
  assumes body: "py_strip (u_text u) \<noteq> ascii ''0''" "py_strip (u_text u) \<noteq> ascii ''+0''"
    and table: "forwarded_msgs s = pre @ (img_id, data) # post"
    and first: "list_all (\<lambda>p. fm_group_b_msg_id (snd p) \<noteq> fm_group_b_msg_id data) pre"
    and reply: "u_reply_to_message u = Some rm" "rt_message_id rm = fm_group_b_msg_id data"
    and room: "u_chat_id u = fm_group_b_chat_id data"
    and num: "reply_number (py_strip (u_text u)) = Some n"
    and label: "n = fm_number data" "n \<noteq> fm_amount data"
  shows "handle_all_group_b_messages e s u = (s, [])"
  using tracked_reply_classified[OF body table first reply num] label
  by (simp add: classify_reply_def)

theorem C8_label_echo_ignored_witness:
  "py_strip (u_text (example_reply 800 (ascii ''7''))) \<noteq> ascii ''0''
   \<and> py_strip (u_text (example_reply 800 (ascii ''7''))) \<noteq> ascii ''+0''
   \<and> forwarded_msgs example_state = [(''img_1'', example_entry_1)] @ (''img_2'',
         example_entry_2) # []
   \<and> list_all (\<lambda>p. fm_group_b_msg_id (snd p) \<noteq> fm_group_b_msg_id example_entry_2)
         [(''img_1'', example_entry_1)]
   \<and> u_reply_to_message (example_reply 800 (ascii ''7'')) = Some \<lparr> rt_message_id = 502,
         rt_text = None \<rparr>
   \<and> rt_message_id \<lparr> rt_message_id = 502, rt_text = None \<rparr> = fm_group_b_msg_id
         example_entry_2
   \<and> u_chat_id (example_reply 800 (ascii ''7'')) = fm_group_b_chat_id example_entry_2
   \<and> reply_number (py_strip (u_text (example_reply 800 (ascii ''7'')))) = Some (ascii ''7'')
   \<and> ascii ''7'' = fm_number example_entry_2
   \<and> ascii ''7'' \<noteq> fm_amount example_entry_2
   \<and> is_group_admin example_state (u_user_id (example_reply 800 (ascii ''7''))) (u_chat_id
         (example_reply 800 (ascii ''7'')))
   \<and> image_status (images example_state) ''img_2'' = Some ''closed''
   \<and> handle_all_group_b_messages example_env example_state (example_reply 800 (ascii ''7'')) =
         (example_state, [])"
proof -
  have body1: "py_strip (u_text (example_reply 800 (ascii ''7''))) \<noteq> ascii ''0''"
    by code_simp
  have body2: "py_strip (u_text (example_reply 800 (ascii ''7''))) \<noteq> ascii ''+0''"
    by code_simp
  have table: "forwarded_msgs example_state = [(''img_1'', example_entry_1)] @ (''img_2'',
      example_entry_2) # []"
    by code_simp
  have first: "list_all (\<lambda>p. fm_group_b_msg_id (snd p) \<noteq> fm_group_b_msg_id
      example_entry_2) [(''img_1'', example_entry_1)]"
    by code_simp
  have reply1: "u_reply_to_message (example_reply 800 (ascii ''7'')) = Some \<lparr>
      rt_message_id = 502, rt_text = None \<rparr>"
    by code_simp
  have reply2: "rt_message_id \<lparr> rt_message_id = 502, rt_text = None \<rparr> =
      fm_group_b_msg_id example_entry_2"
    by code_simp
  have room: "u_chat_id (example_reply 800 (ascii ''7'')) = fm_group_b_chat_id example_entry_2"
    by code_simp
  have num: "reply_number (py_strip (u_text (example_reply 800 (ascii ''7'')))) = Some (ascii
      ''7'')"
    by code_simp
  have label1: "ascii ''7'' = fm_number example_entry_2"
    by code_simp
  have label2: "ascii ''7'' \<noteq> fm_amount example_entry_2"
    by code_simp
  have admin: "is_group_admin example_state (u_user_id (example_reply 800 (ascii ''7'')))
      (u_chat_id (example_reply 800 (ascii ''7'')))"
    by code_simp
  have before: "image_status (images example_state) ''img_2'' = Some ''closed''"
    by code_simp
  show ?thesis
    using body1 body2 table first reply1 reply2 room num label1 label2 admin before
      C8_label_echo_ignored[OF body1 body2 table first reply1 reply2 room num label1 label2, of example_env]
    by blast
qed

text \<open>
  The claim as worded covers every reply that contains a number equal to the label and
  different from the expected amount.  With the label 0 for \<^verbatim>\<open>img_2\<close>, which awaits 25, the reply
  \<^verbatim>\<open>"0"\<close> is such a reply, and the no-show branch opens the slot.  With the label 7, the reply
  \<^verbatim>\<open>"25 7"\<close> contains the label, and the reconciler reads 25, the expected amount: it opens the
  slot.  In the room \<open>-1002\<close> the reply \<^verbatim>\<open>"25"\<close> to the message 502, which shows \<^verbatim>\<open>img_3\<close>
  (label 25, awaiting 30), is classified against the entry of \<^verbatim>\<open>img_2\<close>, which awaits 25:
  \<^verbatim>\<open>img_2\<close> is opened and \<^verbatim>\<open>"+25"\<close> is relayed.
\<close>

theorem C8_counterexample:
  "reply_number (py_strip (ascii ''0'')) = Some (ascii ''0'')
   \<and> map (\<lambda>p. (fst p, fm_amount (snd p), fm_number (snd p))) (forwarded_msgs
         example_label_zero) = [(''img_1'', ascii ''50'', ascii ''25''), (''img_2'', ascii ''25'',
         ascii ''0'')]
   \<and> image_status (images example_label_zero) ''img_2'' = Some ''closed''
   \<and> image_status (images (fst (handle_all_group_b_messages example_env (example_label_zero)
         (example_reply 7 (ascii ''0''))))) ''img_2'' = Some ''open''
   \<and> ascii ''7'' \<in> set (find_raw_numbers (py_strip (ascii ''25 7'')))
   \<and> fm_number example_entry_2 = ascii ''7''
   \<and> fm_amount example_entry_2 = ascii ''25''
   \<and> image_status (images (fst (handle_all_group_b_messages example_env (example_state)
         (example_reply 7 (ascii ''25 7''))))) ''img_2'' = Some ''open''
   \<and> forwarded_msgs (example_two_rooms (ascii ''25'')) = [(''img_1'', example_entry_1),
         (''img_2'', example_entry_2), (''img_3'', example_entry_3 (ascii ''25''))]
   \<and> fm_group_b_chat_id (example_entry_3 (ascii ''25'')) = u_chat_id (example_reply_other_room 7
         (ascii ''25''))
   \<and> map_option rt_message_id (u_reply_to_message (example_reply_other_room 7 (ascii ''25''))) =
         Some (fm_group_b_msg_id (example_entry_3 (ascii ''25'')))
   \<and> reply_number (py_strip (ascii ''25'')) = Some (ascii ''25'')
   \<and> ascii ''25'' = fm_number (example_entry_3 (ascii ''25''))
   \<and> ascii ''25'' \<noteq> fm_amount (example_entry_3 (ascii ''25''))
   \<and> image_status (images (example_two_rooms (ascii ''25''))) ''img_2'' = Some ''closed''
   \<and> image_status (images (fst (handle_all_group_b_messages example_env (example_two_rooms
         (ascii ''25'')) (example_reply_other_room 7 (ascii ''25''))))) ''img_2'' = Some ''open''
   \<and> snd (handle_all_group_b_messages example_env (example_two_rooms (ascii ''25''))
         (example_reply_other_room 7 (ascii ''25''))) = [EditMessageText (- 1001) 502 (QUN @ ascii
         ''7''), SendMessage (- 2001) (ascii ''+25'') (Some 20)]"
proof -
  have a1: "reply_number (py_strip (ascii ''0'')) = Some (ascii ''0'')"
    by code_simp
  have a2: "map (\<lambda>p. (fst p, fm_amount (snd p), fm_number (snd p))) (forwarded_msgs
      example_label_zero) = [(''img_1'', ascii ''50'', ascii ''25''), (''img_2'', ascii ''25'',
      ascii ''0'')]"
    by code_simp
  have a3: "image_status (images example_label_zero) ''img_2'' = Some ''closed''"
    by code_simp
  have a4: "image_status (images (fst (handle_all_group_b_messages example_env
      (example_label_zero) (example_reply 7 (ascii ''0''))))) ''img_2'' = Some ''open''"
    by code_simp
  have b1: "ascii ''7'' \<in> set (find_raw_numbers (py_strip (ascii ''25 7'')))"
    by code_simp
  have b2: "fm_number example_entry_2 = ascii ''7''"
    by code_simp
  have b3: "fm_amount example_entry_2 = ascii ''25''"
    by code_simp
  have b4: "image_status (images (fst (handle_all_group_b_messages example_env (example_state)
      (example_reply 7 (ascii ''25 7''))))) ''img_2'' = Some ''open''"
    by code_simp
  have t1: "forwarded_msgs (example_two_rooms (ascii ''25'')) = [(''img_1'', example_entry_1),
      (''img_2'', example_entry_2), (''img_3'', example_entry_3 (ascii ''25''))]"
    by code_simp
  have t2: "fm_group_b_chat_id (example_entry_3 (ascii ''25'')) = u_chat_id
      (example_reply_other_room 7 (ascii ''25''))"
    by code_simp
  have t3: "map_option rt_message_id (u_reply_to_message (example_reply_other_room 7 (ascii
      ''25''))) = Some (fm_group_b_msg_id (example_entry_3 (ascii ''25'')))"
    by code_simp
  have s1: "reply_number (py_strip (ascii ''25'')) = Some (ascii ''25'')"
    by code_simp
  have s2: "ascii ''25'' = fm_number (example_entry_3 (ascii ''25''))"
    by code_simp
  have s3: "ascii ''25'' \<noteq> fm_amount (example_entry_3 (ascii ''25''))"
    by code_simp
  have s4: "image_status (images (example_two_rooms (ascii ''25''))) ''img_2'' = Some ''closed''"
    by code_simp
  have s5: "image_status (images (fst (handle_all_group_b_messages example_env (example_two_rooms
      (ascii ''25'')) (example_reply_other_room 7 (ascii ''25''))))) ''img_2'' = Some ''open''"
    by code_simp
  have s6: "snd (handle_all_group_b_messages example_env (example_two_rooms (ascii ''25''))
      (example_reply_other_room 7 (ascii ''25''))) = [EditMessageText (- 1001) 502 (QUN @ ascii
      ''7''), SendMessage (- 2001) (ascii ''+25'') (Some 20)]"
    by code_simp
  show ?thesis
    using a1 a2 a3 a4 b1 b2 b3 b4 t1 t2 t3 s1 s2 s3 s4 s5 s6 by blast
qed

section \<open>Messages that reply to no tracked target message\<close>

lemma find_none_list_ex: "find P xs = None \<longleftrightarrow> \<not> list_ex P xs"
  by (auto simp: find_None_iff list_ex_iff)

lemma match_amount_or_number_find:
  "match_amount_or_number n fm = find (\<lambda>p. n = fm_amount (snd p) \<or> n = fm_number (snd p)) fm"
  by (induction fm) auto

lemma unlinked_lookup:
  assumes "case u_reply_to_message u of
             None \<Rightarrow> True
           | Some rm \<Rightarrow> list_all (\<lambda>p. fm_group_b_msg_id (snd p) \<noteq> rt_message_id rm) fm"
  shows "(case map_option rt_message_id (u_reply_to_message u) of
            Some rid \<Rightarrow> find_by_group_b_msg_id fm rid
          | None \<Rightarrow> None) = None"
  using assms
  by (auto simp: find_by_group_b_msg_id_def find_None_iff list_all_iff split: option.splits)

lemma general_scan_unlinked:
  assumes "(case r of Some rid \<Rightarrow> find_by_group_b_msg_id fm rid | None \<Rightarrow> None) = None"
  shows "general_scan fm r numbers =
           (case find (\<lambda>n. list_ex (\<lambda>p. n = fm_amount (snd p) \<or> n = fm_number (snd p)) fm) numbers of
              None \<Rightarrow> None
            | Some n \<Rightarrow> map_option (\<lambda>p. (p, n))
                        (find (\<lambda>p. n = fm_amount (snd p) \<or> n = fm_number (snd p)) fm))"
proof (induction numbers)
  case Nil
  then show ?case by simp
next
  case (Cons n numbers)
  let ?P = "\<lambda>p. n = fm_amount (snd p) \<or> n = fm_number (snd p)"
  show ?case
  proof (cases "find ?P fm")
    case None
    then have "\<not> list_ex ?P fm" by (simp add: find_none_list_ex)
    then show ?thesis using None assms Cons.IH by (simp add: match_amount_or_number_find)
  next
    case (Some p)
    then have "list_ex ?P fm" using find_none_list_ex[of ?P fm] by simp
    then show ?thesis using Some assms by (simp add: match_amount_or_number_find)
  qed
qed

lemma most_recent_greatest:
  assumes "most_recent_entry fm = Some p"
  shows "p \<in> set fm \<and> list_all (\<lambda>q. fm_group_b_msg_id (snd q) \<le> fm_group_b_msg_id (snd p)) fm"
proof -
  let ?k = "\<lambda>p. fm_group_b_msg_id (snd p)"
  let ?ys = "sort_key ?k (rev fm)"
  obtain zs where "rev ?ys = p # zs"
    using assms by (auto simp: most_recent_entry_def split: list.splits)
  then have ys: "?ys = rev zs @ [p]" by (metis rev_rev_ident rev.simps(2))
  have "sorted (map ?k ?ys)" by simp
  then have "sorted (map ?k (rev zs) @ [?k p])" unfolding ys by simp
  then have le: "\<forall>y\<in>set (rev zs). ?k y \<le> ?k p" by (auto simp: sorted_append)
  have "set fm = set ?ys" by simp
  then have s: "set fm = set (rev zs) \<union> {p}" unfolding ys by simp
  show ?thesis using s le by (auto simp: list_all_iff)
qed

lemma handle_all_unlinked:
  assumes "case u_reply_to_message u of
             None \<Rightarrow> True
           | Some rm \<Rightarrow> list_all (\<lambda>p. fm_group_b_msg_id (snd p) \<noteq> rt_message_id rm) (forwarded_msgs s)"
  shows "handle_all_group_b_messages e s u = (s, [])"
proof (cases "u_reply_to_message u")
  case None
  then show ?thesis by (simp add: handle_all_group_b_messages_def Let_def)
next
  case (Some rm)
  then have "find_by_group_b_msg_id (forwarded_msgs s) (rt_message_id rm) = None"
    using assms by (auto simp: find_by_group_b_msg_id_def find_None_iff list_all_iff)
  then show ?thesis using Some by (simp add: handle_all_group_b_messages_def Let_def)
qed

text \<open>
  Claim C6, as the code has it.  Let a message reply to nothing, or to a message whose id is the
  target message id of no entry.  The registered handler \<^verbatim>\<open>handle_all_group_b_messages\<close> changes
  nothing and sends nothing.  The fallback handler \<^verbatim>\<open>handle_general_group_b_message\<close> takes the
  first number of the text that is the expected amount or the label of some entry and passes the
  first entry, in insertion order, whose expected amount or label it is to
  \<^verbatim>\<open>process_group_b_response\<close> (the amount is tested before the label of the same entry only); when
  no number matches any entry and the text contains exactly one number, it passes the entry that
  \<^verbatim>\<open>most_recent_entry\<close> gives, whose target message id is the greatest; otherwise it changes
  nothing.
\<close>

theorem C6_unlinked_matching:
  assumes unlinked: "case u_reply_to_message u of
                       None \<Rightarrow> True
                     | Some rm \<Rightarrow> list_all (\<lambda>p. fm_group_b_msg_id (snd p) \<noteq> rt_message_id rm)
                                   (forwarded_msgs s)"
  shows "handle_all_group_b_messages e s u = (s, [])
       \<and> handle_general_group_b_message s u =
           (case find (\<lambda>n. list_ex (\<lambda>p. n = fm_amount (snd p) \<or> n = fm_number (snd p)) (forwarded_msgs s))
                   (find_raw_numbers (py_strip (u_text u))) of
              Some n \<Rightarrow>
                (case find (\<lambda>p. n = fm_amount (snd p) \<or> n = fm_number (snd p)) (forwarded_msgs s) of
                   Some (img_id, msg_data) \<Rightarrow>
                     process_group_b_response s img_id msg_data n
                       (if 43 \<in> set (py_strip (u_text u)) then py_strip (u_text u) else ascii ''+'' @ n)
                 | None \<Rightarrow> (s, []))
            | None \<Rightarrow>
                if length (find_raw_numbers (py_strip (u_text u))) = 1
                then (case most_recent_entry (forwarded_msgs s) of
                        Some (img_id, msg_data) \<Rightarrow>
                          process_group_b_response s img_id msg_data
                            (hd (find_raw_numbers (py_strip (u_text u))))
                            (if 43 \<in> set (py_strip (u_text u)) then py_strip (u_text u)
                             else ascii ''+'' @ hd (find_raw_numbers (py_strip (u_text u))))
                      | None \<Rightarrow> (s, []))
                else (s, []))
       \<and> (\<forall>p. most_recent_entry (forwarded_msgs s) = Some p \<longrightarrow>
              p \<in> set (forwarded_msgs s)
              \<and> list_all (\<lambda>q. fm_group_b_msg_id (snd q) \<le> fm_group_b_msg_id (snd p)) (forwarded_msgs s))"
proof -
  let ?fm = "forwarded_msgs s"
  let ?text = "py_strip (u_text u)"
  let ?ns = "find_raw_numbers ?text"
  let ?P = "\<lambda>n p. n = fm_amount (snd p) \<or> n = fm_number (snd p)"
  note scan = general_scan_unlinked[OF unlinked_lookup[OF unlinked], of ?ns]
  have mr: "?fm = [] \<Longrightarrow> most_recent_entry ?fm = None" by (simp add: most_recent_entry_def)
  have a: "handle_all_group_b_messages e s u = (s, [])" by (rule handle_all_unlinked[OF unlinked])
  have b: "handle_general_group_b_message s u =
           (case find (\<lambda>n. list_ex (?P n) ?fm) ?ns of
              Some n \<Rightarrow>
                (case find (?P n) ?fm of
                   Some (img_id, msg_data) \<Rightarrow>
                     process_group_b_response s img_id msg_data n
                       (if 43 \<in> set ?text then ?text else ascii ''+'' @ n)
                 | None \<Rightarrow> (s, []))
            | None \<Rightarrow>
                if length ?ns = 1
                then (case most_recent_entry ?fm of
                        Some (img_id, msg_data) \<Rightarrow>
                          process_group_b_response s img_id msg_data (hd ?ns)
                            (if 43 \<in> set ?text then ?text else ascii ''+'' @ hd ?ns)
                      | None \<Rightarrow> (s, []))
                else (s, []))"
  proof (cases "find (\<lambda>n. list_ex (?P n) ?fm) ?ns")
    case None
    then have g: "general_scan ?fm (map_option rt_message_id (u_reply_to_message u)) ?ns = None"
      using scan by simp
    show ?thesis
    proof (cases "?ns = []")
      case True
      then show ?thesis by (simp add: handle_general_group_b_message_def Let_def)
    next
      case False
      then show ?thesis using None g mr
        by (cases "?fm = []") (auto simp: handle_general_group_b_message_def Let_def split: option.splits)
    qed
  next
    case (Some n)
    then have ne: "?ns \<noteq> []" by (auto simp: find_Some_iff)
    from Some have "list_ex (?P n) ?fm" by (auto simp: find_Some_iff)
    then obtain p where p: "find (?P n) ?fm = Some p"
      using find_none_list_ex[of "?P n" ?fm] by auto
    then have g: "general_scan ?fm (map_option rt_message_id (u_reply_to_message u)) ?ns = Some (p, n)"
      using scan Some by simp
    show ?thesis using Some p g ne
      by (cases p) (simp add: handle_general_group_b_message_def Let_def)
  qed
  have c: "\<forall>p. most_recent_entry ?fm = Some p \<longrightarrow>
              p \<in> set ?fm \<and> list_all (\<lambda>q. fm_group_b_msg_id (snd q) \<le> fm_group_b_msg_id (snd p)) ?fm"
    using most_recent_greatest by blast
  show ?thesis using a b c by blast
qed

theorem C6_unlinked_matching_witness:
  "(case u_reply_to_message (example_message 7 (ascii ''25'')) of None \<Rightarrow> True |
         Some rm \<Rightarrow> list_all (\<lambda>p. fm_group_b_msg_id (snd p) \<noteq>
         rt_message_id rm) (forwarded_msgs example_state))
   \<and> (case u_reply_to_message (example_reply_elsewhere 7 (ascii ''99'')) of None \<Rightarrow>
         True | Some rm \<Rightarrow> list_all (\<lambda>p. fm_group_b_msg_id (snd p) \<noteq>
         rt_message_id rm) (forwarded_msgs example_state))
   \<and> map (\<lambda>r. (image_id r, status r)) (images (fst (handle_general_group_b_message
         (example_state) (example_message 7 (ascii ''25''))))) = [(''img_1'', ''open''),
         (''img_2'', ''closed'')]
   \<and> snd (handle_general_group_b_message (example_state) (example_message 7 (ascii ''25''))) =
         [EditMessageText (- 1001) 501 (QUN @ ascii ''25''), SendMessage (- 2001) (ascii ''+25'')
         (Some 10)]
   \<and> map (\<lambda>r. (image_id r, status r)) (images (fst (handle_general_group_b_message
         (example_state) (example_reply_elsewhere 7 (ascii ''99''))))) = [(''img_1'', ''closed''),
         (''img_2'', ''open'')]
   \<and> snd (handle_general_group_b_message (example_state) (example_reply_elsewhere 7 (ascii
         ''99''))) = [EditMessageText (- 1001) 502 (QUN @ ascii ''7''), SendMessage (- 2001)
         (ascii ''+99'') (Some 20)]
   \<and> most_recent_entry (forwarded_msgs example_state) = Some (''img_2'', example_entry_2)
   \<and> handle_all_group_b_messages example_env example_state (example_message 7 (ascii ''25'')) =
         (example_state, [])
   \<and> handle_general_group_b_message (example_state) (example_message 7 (ascii ''25'')) = (case
         find (\<lambda>n. list_ex (\<lambda>p. n = fm_amount (snd p) \<or> n = fm_number (snd p))
         (forwarded_msgs example_state)) (find_raw_numbers (py_strip (u_text (example_message 7
         (ascii ''25''))))) of Some n \<Rightarrow> (case find (\<lambda>p. n = fm_amount (snd p)
         \<or> n = fm_number (snd p)) (forwarded_msgs example_state) of Some (img_id, msg_data)
         \<Rightarrow> process_group_b_response example_state img_id msg_data n (if 43 \<in> set
         (py_strip (u_text (example_message 7 (ascii ''25'')))) then py_strip (u_text
         (example_message 7 (ascii ''25''))) else ascii ''+'' @ n) | None \<Rightarrow>
         (example_state, [])) | None \<Rightarrow> if length (find_raw_numbers (py_strip (u_text
         (example_message 7 (ascii ''25''))))) = 1 then (case most_recent_entry (forwarded_msgs
         example_state) of Some (img_id, msg_data) \<Rightarrow> process_group_b_response
         example_state img_id msg_data (hd (find_raw_numbers (py_strip (u_text (example_message 7
         (ascii ''25'')))))) (if 43 \<in> set (py_strip (u_text (example_message 7 (ascii
         ''25'')))) then py_strip (u_text (example_message 7 (ascii ''25''))) else ascii ''+'' @
         hd (find_raw_numbers (py_strip (u_text (example_message 7 (ascii ''25'')))))) | None
         \<Rightarrow> (example_state, [])) else (example_state, []))
   \<and> handle_all_group_b_messages example_env example_state (example_reply_elsewhere 7 (ascii
         ''99'')) = (example_state, [])
   \<and> handle_general_group_b_message (example_state) (example_reply_elsewhere 7 (ascii ''99'')) =
         (case find (\<lambda>n. list_ex (\<lambda>p. n = fm_amount (snd p) \<or> n = fm_number
         (snd p)) (forwarded_msgs example_state)) (find_raw_numbers (py_strip (u_text
         (example_reply_elsewhere 7 (ascii ''99''))))) of Some n \<Rightarrow> (case find
         (\<lambda>p. n = fm_amount (snd p) \<or> n = fm_number (snd p)) (forwarded_msgs
         example_state) of Some (img_id, msg_data) \<Rightarrow> process_group_b_response
         example_state img_id msg_data n (if 43 \<in> set (py_strip (u_text
         (example_reply_elsewhere 7 (ascii ''99'')))) then py_strip (u_text
         (example_reply_elsewhere 7 (ascii ''99''))) else ascii ''+'' @ n) | None \<Rightarrow>
         (example_state, [])) | None \<Rightarrow> if length (find_raw_numbers (py_strip (u_text
         (example_reply_elsewhere 7 (ascii ''99''))))) = 1 then (case most_recent_entry
         (forwarded_msgs example_state) of Some (img_id, msg_data) \<Rightarrow>
         process_group_b_response example_state img_id msg_data (hd (find_raw_numbers (py_strip
         (u_text (example_reply_elsewhere 7 (ascii ''99'')))))) (if 43 \<in> set (py_strip (u_text
         (example_reply_elsewhere 7 (ascii ''99'')))) then py_strip (u_text
         (example_reply_elsewhere 7 (ascii ''99''))) else ascii ''+'' @ hd (find_raw_numbers
         (py_strip (u_text (example_reply_elsewhere 7 (ascii ''99'')))))) | None \<Rightarrow>
         (example_state, [])) else (example_state, []))
   \<and> (''img_2'', example_entry_2) \<in> set (forwarded_msgs example_state)
   \<and> list_all (\<lambda>q. fm_group_b_msg_id (snd q) \<le> fm_group_b_msg_id (snd (''img_2'',
         example_entry_2))) (forwarded_msgs example_state)"
proof -
  have h1: "(case u_reply_to_message (example_message 7 (ascii ''25'')) of None \<Rightarrow>
      True | Some rm \<Rightarrow> list_all (\<lambda>p. fm_group_b_msg_id (snd p) \<noteq>
      rt_message_id rm) (forwarded_msgs example_state))"
    by code_simp
  have h2: "(case u_reply_to_message (example_reply_elsewhere 7 (ascii ''99'')) of None
      \<Rightarrow> True | Some rm \<Rightarrow> list_all (\<lambda>p. fm_group_b_msg_id (snd p)
      \<noteq> rt_message_id rm) (forwarded_msgs example_state))"
    by code_simp
  have e1: "map (\<lambda>r. (image_id r, status r)) (images (fst (handle_general_group_b_message
      (example_state) (example_message 7 (ascii ''25''))))) = [(''img_1'', ''open''), (''img_2'',
      ''closed'')]"
    by code_simp
  have e2: "snd (handle_general_group_b_message (example_state) (example_message 7 (ascii
      ''25''))) = [EditMessageText (- 1001) 501 (QUN @ ascii ''25''), SendMessage (- 2001) (ascii
      ''+25'') (Some 10)]"
    by code_simp
  have e3: "map (\<lambda>r. (image_id r, status r)) (images (fst (handle_general_group_b_message
      (example_state) (example_reply_elsewhere 7 (ascii ''99''))))) = [(''img_1'', ''closed''),
      (''img_2'', ''open'')]"
    by code_simp
  have e4: "snd (handle_general_group_b_message (example_state) (example_reply_elsewhere 7 (ascii
      ''99''))) = [EditMessageText (- 1001) 502 (QUN @ ascii ''7''), SendMessage (- 2001) (ascii
      ''+99'') (Some 20)]"
    by code_simp
  have e5: "most_recent_entry (forwarded_msgs example_state) = Some (''img_2'', example_entry_2)"
    by code_simp
  show ?thesis
    using h1 h2 e1 e2 e3 e4 e5
      C6_unlinked_matching[OF h1, of example_env]
      C6_unlinked_matching[OF h2, of example_env]
    by blast
qed

text \<open>
  The claim as worded matches an unlinked message by expected amount first and then by label,
  and falls back to the most recently created entry.  With \<^verbatim>\<open>img_1\<close> (label 25) awaiting 50 and
  \<^verbatim>\<open>img_2\<close> (label 7) awaiting 25, the message \<^verbatim>\<open>"25"\<close> that replies to nothing equals the expected
  amount of \<^verbatim>\<open>img_2\<close>.  The registered handler matches it to no entry at all; the fallback handler
  matches it to \<^verbatim>\<open>img_1\<close>, by its label, and opens \<^verbatim>\<open>img_1\<close> while \<^verbatim>\<open>img_2\<close> stays closed.  With
  a third entry created last, for the message 502 of another room, the message \<^verbatim>\<open>"99"\<close> matches no
  entry and holds one number: the fallback handler opens \<^verbatim>\<open>img_2\<close>, not \<^verbatim>\<open>img_3\<close> of the entry
  created last.
\<close>

theorem C6_counterexample:
  "u_reply_to_message (example_message 7 (ascii ''25'')) = None
   \<and> map (\<lambda>p. (fst p, fm_amount (snd p), fm_number (snd p))) (forwarded_msgs
         example_state) = [(''img_1'', ascii ''50'', ascii ''25''), (''img_2'', ascii ''25'',
         ascii ''7'')]
   \<and> handle_all_group_b_messages example_env example_state (example_message 7 (ascii ''25'')) =
         (example_state, [])
   \<and> map (\<lambda>r. (image_id r, status r)) (images (fst (handle_general_group_b_message
         (example_state) (example_message 7 (ascii ''25''))))) = [(''img_1'', ''open''),
         (''img_2'', ''closed'')]
   \<and> map (\<lambda>p. (fst p, fm_group_b_msg_id (snd p))) (forwarded_msgs (example_two_rooms
         (ascii ''9''))) = [(''img_1'', 501), (''img_2'', 502), (''img_3'', 502)]
   \<and> fst (last (forwarded_msgs (example_two_rooms (ascii ''9'')))) = ''img_3''
   \<and> find_raw_numbers (py_strip (u_text (example_message 7 (ascii ''99'')))) = [ascii ''99'']
   \<and> map (\<lambda>r. (image_id r, status r)) (images (fst (handle_general_group_b_message
         (example_two_rooms (ascii ''9'')) (example_message 7 (ascii ''99''))))) = [(''img_1'',
         ''closed''), (''img_2'', ''open''), (''img_3'', ''closed'')]"
proof -
  have a1: "u_reply_to_message (example_message 7 (ascii ''25'')) = None"
    by code_simp
  have a2: "map (\<lambda>p. (fst p, fm_amount (snd p), fm_number (snd p))) (forwarded_msgs
      example_state) = [(''img_1'', ascii ''50'', ascii ''25''), (''img_2'', ascii ''25'', ascii
      ''7'')]"
    by code_simp
  have a3: "handle_all_group_b_messages example_env example_state (example_message 7 (ascii
      ''25'')) = (example_state, [])"
    by code_simp
  have a4: "map (\<lambda>r. (image_id r, status r)) (images (fst (handle_general_group_b_message
      (example_state) (example_message 7 (ascii ''25''))))) = [(''img_1'', ''open''), (''img_2'',
      ''closed'')]"
    by code_simp
  have b1: "map (\<lambda>p. (fst p, fm_group_b_msg_id (snd p))) (forwarded_msgs
      (example_two_rooms (ascii ''9''))) = [(''img_1'', 501), (''img_2'', 502), (''img_3'', 502)]"
    by code_simp
  have b2: "fst (last (forwarded_msgs (example_two_rooms (ascii ''9'')))) = ''img_3''"
    by code_simp
  have b3: "find_raw_numbers (py_strip (u_text (example_message 7 (ascii ''99'')))) = [ascii
      ''99'']"
    by code_simp
  have b4: "map (\<lambda>r. (image_id r, status r)) (images (fst (handle_general_group_b_message
      (example_two_rooms (ascii ''9'')) (example_message 7 (ascii ''99''))))) = [(''img_1'',
      ''closed''), (''img_2'', ''open''), (''img_3'', ''closed'')]"
    by code_simp
  show ?thesis
    using a1 a2 a3 a4 b1 b2 b3 b4 by blast
qed

section \<open>The approval workflow\<close>

lemma dict_del_map_of: "map_of (dict_del k d) k = None"
  by (induction d) (auto simp: dict_del_def)

lemma dict_del_keys: "(j, dj) \<in> set (dict_del k d) \<Longrightarrow> j \<noteq> k \<and> (j, dj) \<in> set d"
  by (auto simp: dict_del_def)

lemma approved_deletes:
  assumes "process_custom_amount_approval e s u k d = (s1, acts, Approved)"
  shows "pending_custom_amounts s1 = dict_del k (pending_custom_amounts s)"
  using assms
  by (auto simp: process_custom_amount_approval_def Let_def split: option.splits if_splits)

lemma resolved_by_process:
  assumes "handle_custom_amount_approval e s u = (s1, acts, Resolved k Approved)"
  shows "\<exists>d. process_custom_amount_approval e s u k d = (s1, acts, Approved)"
  using assms
  by (auto simp: handle_custom_amount_approval_def Let_def
           split: if_splits option.splits prod.splits)

lemma private_approval_takes_greatest_id:
  assumes admin: "u_user_id u \<in> set (GLOBAL_ADMINS s)"
    and reply: "u_reply_to_message u = Some rm"
    and token: "py_contains TOKEN_AGREE (u_text u) \<or> py_contains TOKEN_CONFIRM (u_text u)"
    and priv: "u_chat_type u = ''private''"
    and nonempty: "pending_custom_amounts s \<noteq> []"
  shows "\<exists>d s1 acts r.
           map_of (pending_custom_amounts s) (py_max (map fst (pending_custom_amounts s))) = Some d
         \<and> process_custom_amount_approval e s u (py_max (map fst (pending_custom_amounts s))) d = (s1, acts, r)
         \<and> handle_custom_amount_approval e s u
             = (s1, acts, Resolved (py_max (map fst (pending_custom_amounts s))) r)
         \<and> list_all (\<lambda>p. fst p \<le> py_max (map fst (pending_custom_amounts s))) (pending_custom_amounts s)"
proof -
  let ?pend = "pending_custom_amounts s"
  let ?k = "py_max (map fst ?pend)"
  have "?k \<in> set (map fst ?pend)" using nonempty by (intro py_max_in) simp
  then obtain d where d: "map_of ?pend ?k = Some d"
    by (metis map_of_eq_None_iff not_Some_eq set_map)
  obtain s1 acts r where p: "process_custom_amount_approval e s u ?k d = (s1, acts, r)"
    by (metis prod_cases3)
  have h: "handle_custom_amount_approval e s u = (s1, acts, Resolved ?k r)"
    using admin reply token priv nonempty d p
    by (simp add: handle_custom_amount_approval_def Let_def is_global_admin_def)
  have g: "list_all (\<lambda>p. fst p \<le> ?k) ?pend"
  proof -
    have "\<And>p. p \<in> set ?pend \<Longrightarrow> fst p \<le> ?k"
      by (rule py_max_ge) simp
    then show ?thesis by (simp add: list_all_iff)
  qed
  show ?thesis using d p h g by blast
qed

text \<open>
  Claim C5, as the code has it.  A resolution of the approval id \<open>k\<close> that reaches its end
  deletes the pending entry, so that no entry is left under \<open>k\<close>.  A later approval in the room
  that replies to the message \<open>k\<close> finds nothing under \<open>k\<close> and goes through the two searches
  of the handler: when a pending approval has \<open>k\<close> among its stored message ids, or else when
  the text \<^verbatim>\<open>"+amount"\<close> of a pending approval occurs in the replied-to message, that approval,
  whose id is not \<open>k\<close>, is processed; otherwise the handler answers ``not found'' and leaves
  the whole state as it is.
\<close>

theorem C5_resolution_one_shot:
  assumes first: "handle_custom_amount_approval e s u = (s1, acts, Resolved k Approved)"
    and admin: "u_user_id u2 \<in> set (GLOBAL_ADMINS s1)"
    and reply: "u_reply_to_message u2 = Some rm" "rt_message_id rm = k"
    and token: "py_contains TOKEN_AGREE (u_text u2) \<or> py_contains TOKEN_CONFIRM (u_text u2)"
    and room: "u_chat_type u2 \<noteq> ''private''"
  shows "pending_custom_amounts s1 = dict_del k (pending_custom_amounts s)
       \<and> map_of (pending_custom_amounts s1) k = None
       \<and> list_all (\<lambda>p. fst p \<noteq> k) (pending_custom_amounts s1)
       \<and> handle_custom_amount_approval e2 s1 u2 =
           (case find (\<lambda>p. pa_original_msg_id (snd p) = k \<or> pa_reply_to_msg_id (snd p) = Some k)
                   (pending_custom_amounts s1) of
              Some (j, dj) \<Rightarrow>
                (case process_custom_amount_approval e2 s1 u2 j dj of
                   (s2, acts2, r) \<Rightarrow> (s2, acts2, Resolved j r))
            | None \<Rightarrow>
                (case find (\<lambda>p. py_contains (ascii ''+'' @ pa_amount (snd p))
                                 (case rt_text rm of Some t \<Rightarrow> t | None \<Rightarrow> []))
                        (pending_custom_amounts s1) of
                   Some (j, dj) \<Rightarrow>
                     (case process_custom_amount_approval e2 s1 u2 j dj of
                        (s2, acts2, r) \<Rightarrow> (s2, acts2, Resolved j r))
                 | None \<Rightarrow> (s1, [ReplyText NOT_FOUND_TEXT], NoPendingApprovalFound)))"
proof -
  obtain d where p: "process_custom_amount_approval e s u k d = (s1, acts, Approved)"
    using resolved_by_process[OF first] by blast
  have a: "pending_custom_amounts s1 = dict_del k (pending_custom_amounts s)"
    by (rule approved_deletes[OF p])
  have b: "map_of (pending_custom_amounts s1) k = None" unfolding a by (rule dict_del_map_of)
  have c: "list_all (\<lambda>p. fst p \<noteq> k) (pending_custom_amounts s1)"
    unfolding a by (auto simp: list_all_iff dict_del_def)
  have g: "is_global_admin s1 (u_user_id u2)" using admin by (simp add: is_global_admin_def)
  have h: "handle_custom_amount_approval e2 s1 u2 =
           (case find (\<lambda>p. pa_original_msg_id (snd p) = k \<or> pa_reply_to_msg_id (snd p) = Some k)
                   (pending_custom_amounts s1) of
              Some (j, dj) \<Rightarrow>
                (case process_custom_amount_approval e2 s1 u2 j dj of
                   (s2, acts2, r) \<Rightarrow> (s2, acts2, Resolved j r))
            | None \<Rightarrow>
                (case find (\<lambda>p. py_contains (ascii ''+'' @ pa_amount (snd p))
                                 (case rt_text rm of Some t \<Rightarrow> t | None \<Rightarrow> []))
                        (pending_custom_amounts s1) of
                   Some (j, dj) \<Rightarrow>
                     (case process_custom_amount_approval e2 s1 u2 j dj of
                        (s2, acts2, r) \<Rightarrow> (s2, acts2, Resolved j r))
                 | None \<Rightarrow> (s1, [ReplyText NOT_FOUND_TEXT], NoPendingApprovalFound)))"
    using g reply token room b
    unfolding handle_custom_amount_approval_def approval_by_message_ids_def approval_by_content_def
    by (simp add: Let_def)
  show ?thesis using a b c h by blast
qed

theorem C5_resolution_one_shot_witness:
  "handle_custom_amount_approval example_env example_one_pending example_approval_in_room =
         (example_after_first_approval, [SendMessage (- 2001) (ascii ''+99'') (Some 10), ReplyText
         (CONFIRM_PREFIX @ ascii ''99'')], Resolved 70 Approved)
   \<and> u_user_id example_approval_in_room \<in> set (GLOBAL_ADMINS example_after_first_approval)
   \<and> handle_custom_amount_approval example_env example_two_pending example_approval_in_room =
         (example_two_after_first, [SendMessage (- 2001) (ascii ''+99'') (Some 10), ReplyText
         (CONFIRM_PREFIX @ ascii ''99'')], Resolved 70 Approved)
   \<and> u_user_id example_approval_in_room \<in> set (GLOBAL_ADMINS example_two_after_first)
   \<and> u_reply_to_message example_approval_in_room = Some \<lparr> rt_message_id = 70, rt_text =
         Some (ascii ''+99'') \<rparr>
   \<and> rt_message_id \<lparr> rt_message_id = 70, rt_text = Some (ascii ''+99'') \<rparr> = 70
   \<and> (py_contains TOKEN_AGREE (u_text example_approval_in_room) \<or> py_contains TOKEN_CONFIRM
         (u_text example_approval_in_room))
   \<and> u_chat_type example_approval_in_room \<noteq> ''private''
   \<and> handle_custom_amount_approval example_env example_after_first_approval
         example_approval_in_room = (example_after_first_approval, [ReplyText NOT_FOUND_TEXT],
         NoPendingApprovalFound)
   \<and> map fst (pending_custom_amounts example_one_pending) = [70]
   \<and> map fst (pending_custom_amounts example_after_first_approval) = []
   \<and> snd (snd (handle_custom_amount_approval example_env example_two_after_first
         example_approval_in_room)) = Resolved 71 Approved
   \<and> pending_custom_amounts example_after_first_approval = dict_del 70 (pending_custom_amounts
         example_one_pending)
   \<and> map_of (pending_custom_amounts example_after_first_approval) 70 = None
   \<and> list_all (\<lambda>p. fst p \<noteq> 70) (pending_custom_amounts
         example_after_first_approval)
   \<and> handle_custom_amount_approval example_env example_after_first_approval
         example_approval_in_room = (case find (\<lambda>p. pa_original_msg_id (snd p) = 70 \<or>
         pa_reply_to_msg_id (snd p) = Some 70) (pending_custom_amounts
         example_after_first_approval) of Some (j, dj) \<Rightarrow> (case
         process_custom_amount_approval example_env example_after_first_approval
         example_approval_in_room j dj of (s2, acts2, r) \<Rightarrow> (s2, acts2, Resolved j r))
         | None \<Rightarrow> (case find (\<lambda>p. py_contains (ascii ''+'' @ pa_amount (snd
         p)) (case rt_text \<lparr> rt_message_id = 70, rt_text = Some (ascii ''+99'') \<rparr> of
         Some t \<Rightarrow> t | None \<Rightarrow> [])) (pending_custom_amounts
         example_after_first_approval) of Some (j, dj) \<Rightarrow> (case
         process_custom_amount_approval example_env example_after_first_approval
         example_approval_in_room j dj of (s2, acts2, r) \<Rightarrow> (s2, acts2, Resolved j r))
         | None \<Rightarrow> (example_after_first_approval, [ReplyText NOT_FOUND_TEXT],
         NoPendingApprovalFound)))
   \<and> pending_custom_amounts example_two_after_first = dict_del 70 (pending_custom_amounts
         example_two_pending)
   \<and> map_of (pending_custom_amounts example_two_after_first) 70 = None
   \<and> list_all (\<lambda>p. fst p \<noteq> 70) (pending_custom_amounts example_two_after_first)
   \<and> handle_custom_amount_approval example_env example_two_after_first example_approval_in_room
         = (case find (\<lambda>p. pa_original_msg_id (snd p) = 70 \<or> pa_reply_to_msg_id (snd
         p) = Some 70) (pending_custom_amounts example_two_after_first) of Some (j, dj)
         \<Rightarrow> (case process_custom_amount_approval example_env example_two_after_first
         example_approval_in_room j dj of (s2, acts2, r) \<Rightarrow> (s2, acts2, Resolved j r))
         | None \<Rightarrow> (case find (\<lambda>p. py_contains (ascii ''+'' @ pa_amount (snd
         p)) (case rt_text \<lparr> rt_message_id = 70, rt_text = Some (ascii ''+99'') \<rparr> of
         Some t \<Rightarrow> t | None \<Rightarrow> [])) (pending_custom_amounts
         example_two_after_first) of Some (j, dj) \<Rightarrow> (case
         process_custom_amount_approval example_env example_two_after_first
         example_approval_in_room j dj of (s2, acts2, r) \<Rightarrow> (s2, acts2, Resolved j r))
         | None \<Rightarrow> (example_two_after_first, [ReplyText NOT_FOUND_TEXT],
         NoPendingApprovalFound)))"
proof -
  have afirst: "handle_custom_amount_approval example_env example_one_pending
      example_approval_in_room = (example_after_first_approval, [SendMessage (- 2001) (ascii
      ''+99'') (Some 10), ReplyText (CONFIRM_PREFIX @ ascii ''99'')], Resolved 70 Approved)"
    by code_simp
  have aadmin: "u_user_id example_approval_in_room \<in> set (GLOBAL_ADMINS
      example_after_first_approval)"
    by code_simp
  have bfirst: "handle_custom_amount_approval example_env example_two_pending
      example_approval_in_room = (example_two_after_first, [SendMessage (- 2001) (ascii ''+99'')
      (Some 10), ReplyText (CONFIRM_PREFIX @ ascii ''99'')], Resolved 70 Approved)"
    by code_simp
  have badmin: "u_user_id example_approval_in_room \<in> set (GLOBAL_ADMINS
      example_two_after_first)"
    by code_simp
  have reply1: "u_reply_to_message example_approval_in_room = Some \<lparr> rt_message_id = 70,
      rt_text = Some (ascii ''+99'') \<rparr>"
    by code_simp
  have reply2: "rt_message_id \<lparr> rt_message_id = 70, rt_text = Some (ascii ''+99'')
      \<rparr> = 70"
    by code_simp
  have token: "py_contains TOKEN_AGREE (u_text example_approval_in_room) \<or> py_contains
      TOKEN_CONFIRM (u_text example_approval_in_room)"
    by code_simp
  have room: "u_chat_type example_approval_in_room \<noteq> ''private''"
    by code_simp
  have e1: "handle_custom_amount_approval example_env example_after_first_approval
      example_approval_in_room = (example_after_first_approval, [ReplyText NOT_FOUND_TEXT],
      NoPendingApprovalFound)"
    by code_simp
  have e2: "map fst (pending_custom_amounts example_one_pending) = [70]"
    by code_simp
  have e3: "map fst (pending_custom_amounts example_after_first_approval) = []"
    by code_simp
  have e4: "snd (snd (handle_custom_amount_approval example_env example_two_after_first
      example_approval_in_room)) = Resolved 71 Approved"
    by code_simp
  show ?thesis
    using afirst aadmin bfirst badmin reply1 reply2 token room e1 e2 e3 e4
      C5_resolution_one_shot[OF afirst aadmin reply1 reply2 token room, of example_env]
      C5_resolution_one_shot[OF bfirst badmin reply1 reply2 token room, of example_env]
    by blast
qed

text \<open>
  The claim as worded gives ``not found'' to every second attempt on a resolved approval id, a
  single winner.  With the approvals 70 and 71 pending, both proposing 99, the global admin
  approves message 70 (whose text is \<^verbatim>\<open>"+99"\<close>) and then answers it once more.  The first answer
  resolves approval 70.  The second finds nothing under 70, falls back to the search by text, and
  resolves approval 71: \<^verbatim>\<open>img_2\<close> is opened.  And with the approval 70 alone: the handlers run
  concurrently (bot.py 2437-2441), so a second handler may read the entry 70 (bot.py 1958-1960)
  before the first one deletes it (bot.py 2077-2078); when it goes on after the first has
  finished, \<^verbatim>\<open>process_custom_amount_approval\<close> reaches its end a second time and relays
  \<^verbatim>\<open>"+99"\<close> again.
\<close>

theorem C5_counterexample:
  "snd (snd (handle_custom_amount_approval example_env example_two_pending
         example_approval_in_room)) = Resolved 70 Approved
   \<and> fst (handle_custom_amount_approval example_env example_two_pending
         example_approval_in_room) = example_two_after_first
   \<and> map fst (pending_custom_amounts example_two_after_first) = [71]
   \<and> image_status (images example_two_after_first) ''img_2'' = Some ''closed''
   \<and> snd (snd (handle_custom_amount_approval example_env example_two_after_first
         example_approval_in_room)) = Resolved 71 Approved
   \<and> image_status (images (fst (handle_custom_amount_approval example_env
         example_two_after_first example_approval_in_room))) ''img_2'' = Some ''open''
   \<and> map fst (pending_custom_amounts (fst (handle_custom_amount_approval example_env
         example_two_after_first example_approval_in_room))) = []
   \<and> map_of (pending_custom_amounts example_one_pending) 70 = Some (example_pending ''img_1'' 70
         ''2024-01-01T10:00:00'')
   \<and> fst (handle_custom_amount_approval example_env example_one_pending
         example_approval_in_room) = example_after_first_approval
   \<and> snd (snd (handle_custom_amount_approval example_env example_one_pending
         example_approval_in_room)) = Resolved 70 Approved
   \<and> map_of (pending_custom_amounts example_after_first_approval) 70 = None
   \<and> snd (snd (process_custom_amount_approval example_env example_after_first_approval
         example_approval_in_room 70 (example_pending ''img_1'' 70 ''2024-01-01T10:00:00''))) =
         Approved
   \<and> fst (snd (process_custom_amount_approval example_env example_after_first_approval
         example_approval_in_room 70 (example_pending ''img_1'' 70 ''2024-01-01T10:00:00''))) =
         [SendMessage (- 2001) (ascii ''+99'') (Some 10), ReplyText (CONFIRM_PREFIX @ ascii
         ''99'')]"
proof -
  have a1: "snd (snd (handle_custom_amount_approval example_env example_two_pending
      example_approval_in_room)) = Resolved 70 Approved"
    by code_simp
  have a2: "fst (handle_custom_amount_approval example_env example_two_pending
      example_approval_in_room) = example_two_after_first"
    by code_simp
  have a3: "map fst (pending_custom_amounts example_two_after_first) = [71]"
    by code_simp
  have a4: "image_status (images example_two_after_first) ''img_2'' = Some ''closed''"
    by code_simp
  have a5: "snd (snd (handle_custom_amount_approval example_env example_two_after_first
      example_approval_in_room)) = Resolved 71 Approved"
    by code_simp
  have a6: "image_status (images (fst (handle_custom_amount_approval example_env
      example_two_after_first example_approval_in_room))) ''img_2'' = Some ''open''"
    by code_simp
  have a7: "map fst (pending_custom_amounts (fst (handle_custom_amount_approval example_env
      example_two_after_first example_approval_in_room))) = []"
    by code_simp
  have r1: "map_of (pending_custom_amounts example_one_pending) 70 = Some (example_pending
      ''img_1'' 70 ''2024-01-01T10:00:00'')"
    by code_simp
  have r2: "fst (handle_custom_amount_approval example_env example_one_pending
      example_approval_in_room) = example_after_first_approval"
    by code_simp
  have r3: "snd (snd (handle_custom_amount_approval example_env example_one_pending
      example_approval_in_room)) = Resolved 70 Approved"
    by code_simp
  have r4: "map_of (pending_custom_amounts example_after_first_approval) 70 = None"
    by code_simp
  have r5: "snd (snd (process_custom_amount_approval example_env example_after_first_approval
      example_approval_in_room 70 (example_pending ''img_1'' 70 ''2024-01-01T10:00:00''))) =
      Approved"
    by code_simp
  have r6: "fst (snd (process_custom_amount_approval example_env example_after_first_approval
      example_approval_in_room 70 (example_pending ''img_1'' 70 ''2024-01-01T10:00:00''))) =
      [SendMessage (- 2001) (ascii ''+99'') (Some 10), ReplyText (CONFIRM_PREFIX @ ascii ''99'')]"
    by code_simp
  show ?thesis
    using a1 a2 a3 a4 a5 a6 a7 r1 r2 r3 r4 r5 r6 by blast
qed

text \<open>
  Claim C9 at a concrete input.  Message ids are counted per room: an approval was created first
  under the id 5000 for \<^verbatim>\<open>img_1\<close>, and one a day later, in another room, under the id 100 for
  \<^verbatim>\<open>img_2\<close>.  The approval of a global admin in a private chat resolves 5000, the older one:
  \<^verbatim>\<open>img_1\<close> is opened, and the approval created last stays pending.  The handler takes the
  greatest key (bot.py 1941) where its comments and its log announce the most recent pending
  approval (bot.py 1930-1940); the stored timestamp is never read.
\<close>

theorem C9_private_approval_resolves_older:
  "map (\<lambda>p. (fst p, pa_img_id (snd p), pa_timestamp (snd p))) (pending_custom_amounts
         example_two_rooms_pending) = [(5000, ''img_1'', ''2024-01-01T10:00:00''), (100,
         ''img_2'', ''2024-01-02T10:00:00'')]
   \<and> u_chat_type example_approval_in_private = ''private''
   \<and> is_global_admin example_two_rooms_pending (u_user_id example_approval_in_private)
   \<and> snd (snd (handle_custom_amount_approval example_env example_two_rooms_pending
         example_approval_in_private)) = Resolved 5000 Approved
   \<and> map fst (pending_custom_amounts (fst (handle_custom_amount_approval example_env
         example_two_rooms_pending example_approval_in_private))) = [100]
   \<and> map (\<lambda>r. (image_id r, status r)) (images (fst (handle_custom_amount_approval
         example_env example_two_rooms_pending example_approval_in_private))) = [(''img_1'',
         ''open''), (''img_2'', ''closed'')]"
proof -
  have a1: "map (\<lambda>p. (fst p, pa_img_id (snd p), pa_timestamp (snd p)))
      (pending_custom_amounts example_two_rooms_pending) = [(5000, ''img_1'',
      ''2024-01-01T10:00:00''), (100, ''img_2'', ''2024-01-02T10:00:00'')]"
    by code_simp
  have a2: "u_chat_type example_approval_in_private = ''private''"
    by code_simp
  have a3: "is_global_admin example_two_rooms_pending (u_user_id example_approval_in_private)"
    by code_simp
  have a4: "snd (snd (handle_custom_amount_approval example_env example_two_rooms_pending
      example_approval_in_private)) = Resolved 5000 Approved"
    by code_simp
  have a5: "map fst (pending_custom_amounts (fst (handle_custom_amount_approval example_env
      example_two_rooms_pending example_approval_in_private))) = [100]"
    by code_simp
  have a6: "map (\<lambda>r. (image_id r, status r)) (images (fst (handle_custom_amount_approval
      example_env example_two_rooms_pending example_approval_in_private))) = [(''img_1'',
      ''open''), (''img_2'', ''closed'')]"
    by code_simp
  show ?thesis
    using a1 a2 a3 a4 a5 a6 by blast
qed

end
